theory Spec2Isabelle
  imports Complex_Main "HOL-Library.Word" "HOL-Library.Multiset"
begin

unbundle bit_operations_syntax

section \<open>Numbers, vectors and colours\<close>

text \<open>
  Camera.cpp computes with \<^verbatim>\<open>float\<close> and \<^verbatim>\<open>double\<close>, the binary32 and binary64 formats
  of IEEE 754. Three computations are modelled in that arithmetic, because what is claimed
  of them turns on rounding, overflow or NaN: the pixel size of \<^verbatim>\<open>Camera::Update\<close>,
  \<^verbatim>\<open>discCovered\<close> (as \<open>discCovered_float\<close>) and \<^verbatim>\<open>ShadowedIntensity\<close>. There a value is an
  \<open>fval\<close> (a finite real, an infinity or NaN), and an operation is the exact one followed by
  rounding to the nearest number of the format of the C++ expression, ties to even.

  The geometry is modelled over \<^typ>\<open>real\<close>, each operation being the exact one: vectors,
  positions, \<^verbatim>\<open>CalcShadows\<close>, and a second reading of \<^verbatim>\<open>discCovered\<close> in exact arithmetic
  (\<open>discCovered\<close>), about which the geometric facts are stated. The divisors in
  \<^verbatim>\<open>CalcShadows\<close> are zero only for a body of radius zero or a target at the centre of the
  light; the theorems about it assume they are not zero.

  \<^verbatim>\<open>Clamp\<close>, \<^verbatim>\<open>vector3d\<close>, \<^verbatim>\<open>Color\<close>, \<^verbatim>\<open>Body\<close>, \<^verbatim>\<open>Frame\<close> and \<^verbatim>\<open>SystemBody\<close> are declared
  in headers that Camera.cpp includes. Their values are modelled by what Camera.cpp reads
  from them; over the reals \<^verbatim>\<open>std::max\<close> is \<^const>\<open>max\<close>.
\<close>

definition Clamp :: "real \<Rightarrow> real \<Rightarrow> real \<Rightarrow> real" where
  \<comment> \<open>Modelled from the spec: \<^verbatim>\<open>Clamp(x, min, max)\<close> is not defined in Camera.cpp; the spec
     says the value is clamped to the closed interval.\<close>
  "Clamp x lo hi = (if hi < x then hi else if x < lo then lo else x)"

text \<open>
  Modelled from the spec: \<^verbatim>\<open>vector3d\<close> is declared in vector3.h. Its operations are the
  usual ones of Euclidean space, which the spec names: difference, scaling, the dot product
  ("distance along the light direction"), the Euclidean length and the unit vector.
\<close>

datatype vector3 = Vec3 (vx: real) (vy: real) (vz: real)

definition vsub :: "vector3 \<Rightarrow> vector3 \<Rightarrow> vector3" where
  "vsub a b = Vec3 (vx a - vx b) (vy a - vy b) (vz a - vz b)"

definition vscale :: "real \<Rightarrow> vector3 \<Rightarrow> vector3" where
  "vscale k a = Vec3 (k * vx a) (k * vy a) (k * vz a)"

definition vdiv :: "vector3 \<Rightarrow> real \<Rightarrow> vector3" where
  "vdiv a k = Vec3 (vx a / k) (vy a / k) (vz a / k)"

definition Dot :: "vector3 \<Rightarrow> vector3 \<Rightarrow> real" where
  "Dot a b = vx a * vx b + vy a * vy b + vz a * vz b"

definition Length :: "vector3 \<Rightarrow> real" where
  "Length a = sqrt (vx a * vx a + vy a * vy a + vz a * vz a)"

definition Normalized :: "vector3 \<Rightarrow> vector3" where
  "Normalized a = vscale (1 / Length a) a"

text \<open>
  A quotient of two finite numbers as IEEE 754 gives it when the divisor may be zero. The zero
  divisor is taken as \<open>+0\<close>: in \<^verbatim>\<open>Camera::Update\<close> it is a Euclidean length times the
  field-of-view factor.
\<close>

datatype fval = Fin real | PInf | NInf | NaN

definition fdiv :: "real \<Rightarrow> real \<Rightarrow> fval" where
  "fdiv x y = (if y \<noteq> 0 then Fin (x / y) else if 0 < x then PInf else if x < 0 then NInf else NaN)"

fun fless :: "fval \<Rightarrow> real \<Rightarrow> bool" where
  \<comment> \<open>\<^verbatim>\<open>x < t\<close> for a finite \<open>t\<close>; every comparison with NaN is false.\<close>
  "fless (Fin x) t = (x < t)"
| "fless PInf t = False"
| "fless NInf t = True"
| "fless NaN t = False"

fun fmax :: "real \<Rightarrow> fval \<Rightarrow> fval" where
  \<comment> \<open>\<^verbatim>\<open>std::max(a, b)\<close> is \<^verbatim>\<open>(a < b) ? b : a\<close>.\<close>
  "fmax a (Fin x) = Fin (max a x)"
| "fmax a PInf = PInf"
| "fmax a NInf = Fin a"
| "fmax a NaN = Fin a"

subsection \<open>IEEE 754 arithmetic\<close>

text \<open>
  A format is its precision (the number of bits of the significand, the hidden bit included)
  and the least and greatest exponent of a normal number.
\<close>

record fformat =
  precision :: nat
  emin :: int
  emax :: int

definition binary32 :: fformat where
  \<comment> \<open>\<^verbatim>\<open>float\<close>\<close>
  "binary32 = \<lparr>precision = 24, emin = - 126, emax = 127\<rparr>"

definition binary64 :: fformat where
  \<comment> \<open>\<^verbatim>\<open>double\<close>\<close>
  "binary64 = \<lparr>precision = 53, emin = - 1022, emax = 1023\<rparr>"

definition pow2 :: "int \<Rightarrow> real" where
  "pow2 e = (if 0 \<le> e then 2 ^ nat e else 1 / 2 ^ nat (- e))"

definition round_even :: "real \<Rightarrow> int" where
  \<comment> \<open>The nearest integer; of two nearest integers the even one.\<close>
  "round_even z =
    (let f = \<lfloor>z\<rfloor> in
     if z - of_int f < 1 / 2 then f
     else if 1 / 2 < z - of_int f then f + 1
     else if even f then f else f + 1)"

text \<open>
  The exponent of the binade of \<open>x \<ge> 0\<close>: the greatest \<open>e\<close> from \<open>hi\<close> down to \<open>lo\<close> with
  \<open>2 ^ e \<le> x\<close>, and \<open>lo\<close> when there is none (the subnormal numbers and zero).
\<close>

function binade :: "int \<Rightarrow> int \<Rightarrow> real \<Rightarrow> int" where
  "binade lo e x = (if e \<le> lo \<or> pow2 e \<le> x then e else binade lo (e - 1) x)"
  by pat_completeness auto
termination
  by (relation "measure (\<lambda>(lo, e, x). nat (e - lo))") auto

declare binade.simps [simp del]

text \<open>
  Rounding of a real number to a format: to the nearest multiple of the unit in the last
  place of its binade, ties to even; a result beyond the largest finite number of the format
  is the infinity of the sign.
\<close>

definition round_to :: "fformat \<Rightarrow> real \<Rightarrow> fval" where
  "round_to fmt x =
    (let e = binade (emin fmt) (emax fmt) \<bar>x\<bar>;
         u = pow2 (e - int (precision fmt) + 1);
         y = of_int (round_even (x / u)) * u
     in if pow2 (emax fmt + 1) \<le> \<bar>y\<bar> then (if 0 < x then PInf else NInf) else Fin y)"

fun rnd :: "fformat \<Rightarrow> fval \<Rightarrow> fval" where
  "rnd fmt (Fin x) = round_to fmt x"
| "rnd fmt v = v"

text \<open>
  The exact operations on finite numbers, infinities and NaN. An operation with NaN is NaN,
  and so are the difference of two equal infinities, zero times an infinity, zero by zero and an
  infinity by an infinity. The sign of a zero is not tracked: every zero is \<open>+0\<close>. A
  comparison with NaN is false.
\<close>

fun flt :: "fval \<Rightarrow> fval \<Rightarrow> bool" where
  \<comment> \<open>\<^verbatim>\<open>a < b\<close>\<close>
  "flt (Fin a) (Fin b) = (a < b)"
| "flt NaN _ = False"
| "flt _ NaN = False"
| "flt PInf _ = False"
| "flt _ NInf = False"
| "flt _ PInf = True"
| "flt NInf _ = True"

fun xneg :: "fval \<Rightarrow> fval" where
  "xneg (Fin a) = Fin (- a)"
| "xneg PInf = NInf"
| "xneg NInf = PInf"
| "xneg NaN = NaN"

fun xadd :: "fval \<Rightarrow> fval \<Rightarrow> fval" where
  "xadd (Fin a) (Fin b) = Fin (a + b)"
| "xadd NaN _ = NaN"
| "xadd _ NaN = NaN"
| "xadd PInf NInf = NaN"
| "xadd NInf PInf = NaN"
| "xadd PInf _ = PInf"
| "xadd _ PInf = PInf"
| "xadd NInf _ = NInf"
| "xadd _ NInf = NInf"

fun xmul :: "fval \<Rightarrow> fval \<Rightarrow> fval" where
  "xmul (Fin a) (Fin b) = Fin (a * b)"
| "xmul NaN _ = NaN"
| "xmul _ NaN = NaN"
| "xmul (Fin a) PInf = (if a = 0 then NaN else if 0 < a then PInf else NInf)"
| "xmul (Fin a) NInf = (if a = 0 then NaN else if 0 < a then NInf else PInf)"
| "xmul PInf (Fin b) = (if b = 0 then NaN else if 0 < b then PInf else NInf)"
| "xmul NInf (Fin b) = (if b = 0 then NaN else if 0 < b then NInf else PInf)"
| "xmul PInf PInf = PInf"
| "xmul PInf NInf = NInf"
| "xmul NInf PInf = NInf"
| "xmul NInf NInf = PInf"

fun xdiv :: "fval \<Rightarrow> fval \<Rightarrow> fval" where
  "xdiv (Fin a) (Fin b) = fdiv a b"
| "xdiv NaN _ = NaN"
| "xdiv _ NaN = NaN"
| "xdiv (Fin a) _ = Fin 0"
| "xdiv PInf (Fin b) = (if b < 0 then NInf else PInf)"
| "xdiv NInf (Fin b) = (if b < 0 then PInf else NInf)"
| "xdiv _ _ = NaN"

text \<open>
  The operations of C++ on \<^verbatim>\<open>float\<close> operands (32) and on \<^verbatim>\<open>double\<close> operands (64), and
  the conversion of a \<^verbatim>\<open>double\<close> to \<^verbatim>\<open>float\<close>. An expression is evaluated in the format of
  its type, one rounding for each operation. The conversion of a \<^verbatim>\<open>float\<close> or an \<^verbatim>\<open>int\<close>
  to \<^verbatim>\<open>double\<close> is exact and is not written.
\<close>

definition add32 :: "fval \<Rightarrow> fval \<Rightarrow> fval" where
  "add32 a b = rnd binary32 (xadd a b)"

definition sub32 :: "fval \<Rightarrow> fval \<Rightarrow> fval" where
  "sub32 a b = rnd binary32 (xadd a (xneg b))"

definition mul32 :: "fval \<Rightarrow> fval \<Rightarrow> fval" where
  "mul32 a b = rnd binary32 (xmul a b)"

definition div32 :: "fval \<Rightarrow> fval \<Rightarrow> fval" where
  "div32 a b = rnd binary32 (xdiv a b)"

definition sub64 :: "fval \<Rightarrow> fval \<Rightarrow> fval" where
  "sub64 a b = rnd binary64 (xadd a (xneg b))"

definition mul64 :: "fval \<Rightarrow> fval \<Rightarrow> fval" where
  "mul64 a b = rnd binary64 (xmul a b)"

definition div64 :: "fval \<Rightarrow> fval \<Rightarrow> fval" where
  "div64 a b = rnd binary64 (xdiv a b)"

definition to_float :: "fval \<Rightarrow> fval" where
  "to_float v = rnd binary32 v"

definition std_max :: "fval \<Rightarrow> fval \<Rightarrow> fval" where
  \<comment> \<open>\<^verbatim>\<open>std::max(a, b)\<close> is \<^verbatim>\<open>(a < b) ? b : a\<close>.\<close>
  "std_max a b = (if flt a b then b else a)"

definition Clamp_float :: "fval \<Rightarrow> fval \<Rightarrow> fval \<Rightarrow> fval" where
  \<comment> \<open>Modelled from the spec: \<^verbatim>\<open>Clamp\<close> as above, with the comparisons of \<^verbatim>\<open>float\<close>; NaN,
     which is neither above the interval nor below it, is returned as it is.\<close>
  "Clamp_float x lo hi = (if flt hi x then hi else if flt x lo then lo else x)"

definition is_nan :: "fval \<Rightarrow> bool" where
  \<comment> \<open>Modelled from the spec: \<^verbatim>\<open>is_nan\<close> is not defined in Camera.cpp; it tells NaN from the
     other values.\<close>
  "is_nan v = (v = NaN)"

text \<open>
  \<^verbatim>\<open>sqrt\<close> and \<^verbatim>\<open>acosf\<close> are the C library's. The square root is correctly rounded (IEEE 754);
  the arc cosine is taken as correctly rounded too. Outside their domains, and for NaN, both
  return NaN (C11, Annex F). \<^verbatim>\<open>M_PI\<close> is the \<^verbatim>\<open>double\<close> nearest to \<open>\<pi>\<close>.
\<close>

definition sqrt32 :: "fval \<Rightarrow> fval" where
  "sqrt32 v = (case v of Fin x \<Rightarrow> if x < 0 then NaN else round_to binary32 (sqrt x)
               | PInf \<Rightarrow> PInf | NInf \<Rightarrow> NaN | NaN \<Rightarrow> NaN)"

definition acosf :: "fval \<Rightarrow> fval" where
  "acosf v = (case v of Fin x \<Rightarrow> if - 1 \<le> x \<and> x \<le> 1 then round_to binary32 (arccos x) else NaN
              | _ \<Rightarrow> NaN)"

definition M_PI :: real where
  "M_PI = 884279719003555 / 281474976710656"

text \<open>
  What stops a call: an assertion that fails, and an index outside a vector (undefined
  behaviour in C++).
\<close>

datatype error = AssertionFailed | OutOfRange

subsection \<open>Colours\<close>

record Color =
  col_r :: "8 word"
  col_g :: "8 word"
  col_b :: "8 word"
  col_a :: "8 word"

definition Color_WHITE :: Color where
  \<comment> \<open>Modelled from the spec: \<^verbatim>\<open>Color::WHITE\<close> (Color.h), "plain white" at full opacity.\<close>
  "Color_WHITE = \<lparr>col_r = 255, col_g = 255, col_b = 255, col_a = 255\<rparr>"

section \<open>Bodies, frames, lights\<close>

datatype BodySuperType = SUPERTYPE_STAR | SUPERTYPE_OTHER nat

record SystemBody =
  sb_superType :: BodySuperType
  sb_type :: nat
  sb_radius :: real
  sb_albedo :: Color

text \<open>
  A body is the \<^verbatim>\<open>Body *\<close> (its address \<open>addr\<close>, compared by \<^verbatim>\<open>==\<close>) together with
  what its accessors return. \<^verbatim>\<open>GetSystemBody()\<close> is dereferenced by Camera.cpp only on
  terrain bodies, planets and stars, which carry one.
\<close>

record Body =
  addr :: nat
  flags :: "32 word"
  isTerrainBody :: bool
  isPlanet :: bool
  isStar :: bool
  physRadius :: real
  clipRadius :: real
  systemBody :: SystemBody

datatype LightType = LIGHT_POINT | LIGHT_SPOT | LIGHT_DIRECTIONAL

record Light =
  light_type :: LightType
  light_position :: vector3
  light_diffuse :: Color
  light_specular :: Color

record LightSource =
  ls_body :: "Body option"
  ls_light :: Light

record FrameData =
  fr_systemBody :: "SystemBody option"
  fr_isRotFrame :: bool
  fr_body :: "Body option"
  fr_positionRelToCam :: vector3

text \<open>The frame hierarchy below a frame: its own data and its children, in order.\<close>

datatype Frame = Frame FrameData "Frame list"

text \<open>A transform is read and written by Camera.cpp as a whole; the model keeps its entries.\<close>

datatype matrix4x4d = Matrix4x4d "real list"

record BodyAttrs =
  attr_body :: Body
  viewTransform :: matrix4x4d
  viewCoords :: vector3
  camDist :: real
  bodyFlags :: "32 word"
  billboard :: bool
  billboardPos :: vector3
  billboardSize :: fval
  billboardColor :: Color

record Shadow =
  centre :: vector3
  srad :: real
  lrad :: real

record Camera =
  m_lightSources :: "LightSource list"
  m_sortedBodies :: "BodyAttrs list"

text \<open>
  What Camera.cpp takes from its collaborators: the flag bits of \<^verbatim>\<open>Body\<close>, the astronomical
  unit, the star colour table, the product of two colours, the scene's bodies and their
  relative positions, the camera-space transform and position of a body, the frustum's test
  and projection, and the screen height and field-of-view factor.
\<close>

record Environment =
  FLAG_DRAW_LAST :: "32 word"
  FLAG_DRAW_EXCLUDE :: "32 word"
  AU :: real
  starRealColors :: "nat \<Rightarrow> Color"
  color_mul :: "Color \<Rightarrow> Color \<Rightarrow> Color"
  bodies :: "Body list"
  positionRelTo :: "Body \<Rightarrow> Body \<Rightarrow> vector3"
  viewTransformOf :: "Body \<Rightarrow> matrix4x4d"
  viewCoordsOf :: "Body \<Rightarrow> vector3"
  TestPointInfinite :: "vector3 \<Rightarrow> real \<Rightarrow> bool"
  TranslatePoint :: "vector3 \<Rightarrow> vector3"
  screenHeight :: int
  fovFactor :: real

definition OBJECT_HIDDEN_PIXEL_THRESHOLD :: real where
  "OBJECT_HIDDEN_PIXEL_THRESHOLD = 2"

definition BILLBOARD_PIXEL_THRESHOLD :: real where
  "BILLBOARD_PIXEL_THRESHOLD = 8"

section \<open>The draw-list comparator\<close>

text \<open>
  \<^verbatim>\<open>
  bool Camera::BodyAttrs::sort_BodyAttrs(const BodyAttrs &a, const BodyAttrs &b)
  {
      if (a.bodyFlags & Body::FLAG_DRAW_LAST && b.bodyFlags & Body::FLAG_DRAW_LAST)
          return a.camDist > b.camDist;
      if (a.bodyFlags & Body::FLAG_DRAW_LAST)
          return false;
      if (b.bodyFlags & Body::FLAG_DRAW_LAST)
          return true;
      return a.camDist > b.camDist;
  }
  \<close>
  \<^verbatim>\<open>FLAG_DRAW_LAST\<close> is a bit of \<^verbatim>\<open>Body\<close>'s flags, declared in Body.h.
\<close>

definition sort_BodyAttrs :: "Environment \<Rightarrow> BodyAttrs \<Rightarrow> BodyAttrs \<Rightarrow> bool" where
  "sort_BodyAttrs env a b =
    (if bodyFlags a AND FLAG_DRAW_LAST env \<noteq> 0 \<and> bodyFlags b AND FLAG_DRAW_LAST env \<noteq> 0
       then camDist b < camDist a
     else if bodyFlags a AND FLAG_DRAW_LAST env \<noteq> 0 then False
     else if bodyFlags b AND FLAG_DRAW_LAST env \<noteq> 0 then True
     else camDist b < camDist a)"

text \<open>
  \<^verbatim>\<open>m_sortedBodies.sort()\<close> is \<^verbatim>\<open>std::list::sort\<close>, a stable sort by \<^verbatim>\<open>operator<\<close>: an
  element is placed before the first one that is not less than it.
\<close>

fun list_insert :: "('a \<Rightarrow> 'a \<Rightarrow> bool) \<Rightarrow> 'a \<Rightarrow> 'a list \<Rightarrow> 'a list" where
  "list_insert lt x [] = [x]"
| "list_insert lt x (y # ys) = (if lt y x then y # list_insert lt x ys else x # y # ys)"

fun list_sort :: "('a \<Rightarrow> 'a \<Rightarrow> bool) \<Rightarrow> 'a list \<Rightarrow> 'a list" where
  "list_sort lt [] = []"
| "list_sort lt (x # xs) = list_insert lt x (list_sort lt xs)"

section \<open>The light selector\<close>

text \<open>
  \<^verbatim>\<open>
  static void position_system_lights(Frame *camFrame, Frame *frame, std::vector<Camera::LightSource> &lights)
  {
      if (lights.size() > 3) return;
      SystemBody *body = frame->GetSystemBody();
      if (body && !frame->IsRotFrame() && (body->GetSuperType() == SystemBody::SUPERTYPE_STAR)) {
          vector3d lpos = frame->GetPositionRelTo(camFrame->GetId());
          const double dist = lpos.Length() / AU;
          lpos *= 1.0 / dist; // normalize
          const Color &col = StarSystem::starRealColors[body->GetType()];
          const Color lightCol(col[0], col[1], col[2], 0);
          vector3f lightpos(lpos.x, lpos.y, lpos.z);
          Graphics::Light light(Graphics::Light::LIGHT_DIRECTIONAL, lightpos, lightCol, lightCol);
          lights.push_back(Camera::LightSource(frame->GetBody(), light));
      }
      for (FrameId kid : frame->GetChildren()) {
          Frame *kid_f = Frame::GetFrame(kid);
          position_system_lights(camFrame, kid_f, lights);
      }
  }
  \<close>
  A frame is given with the frames below it; \<^verbatim>\<open>frame->GetPositionRelTo(camFrame->GetId())\<close>
  is the field \<open>fr_positionRelToCam\<close>.
\<close>

definition star_light :: "Environment \<Rightarrow> FrameData \<Rightarrow> SystemBody \<Rightarrow> LightSource" where
  \<comment> \<open>The body of the \<^verbatim>\<open>if\<close> in \<^verbatim>\<open>position_system_lights\<close>. The position is scaled by
     \<^verbatim>\<open>1.0 / dist\<close>; no statement below reads it where \<^verbatim>\<open>dist\<close> is zero.\<close>
  "star_light env fd body =
    (let lpos = fr_positionRelToCam fd;
         dst = Length lpos / AU env;
         lpos = vscale (1 / dst) lpos;
         col = starRealColors env (sb_type body);
         lightCol = \<lparr>col_r = col_r col, col_g = col_g col, col_b = col_b col, col_a = 0\<rparr>;
         light = \<lparr>light_type = LIGHT_DIRECTIONAL, light_position = lpos,
                  light_diffuse = lightCol, light_specular = lightCol\<rparr>
     in \<lparr>ls_body = fr_body fd, ls_light = light\<rparr>)"

definition emit_light :: "Environment \<Rightarrow> FrameData \<Rightarrow> LightSource list \<Rightarrow> LightSource list" where
  "emit_light env fd lights =
    (case fr_systemBody fd of
       None \<Rightarrow> lights
     | Some body \<Rightarrow>
         if \<not> fr_isRotFrame fd \<and> sb_superType body = SUPERTYPE_STAR
         then lights @ [star_light env fd body] else lights)"

fun position_system_lights :: "Environment \<Rightarrow> Frame \<Rightarrow> LightSource list \<Rightarrow> LightSource list"
  and position_system_lights_kids :: "Environment \<Rightarrow> Frame list \<Rightarrow> LightSource list \<Rightarrow> LightSource list"
where
  "position_system_lights env (Frame fd kids) lights =
    (if 3 < length lights then lights
     else position_system_lights_kids env kids (emit_light env fd lights))"
| "position_system_lights_kids env [] lights = lights"
| "position_system_lights_kids env (kid # kids) lights =
     position_system_lights_kids env kids (position_system_lights env kid lights)"

text \<open>
  The same walk with a log of its calls: each entry is the frame the function was entered
  on and \<^verbatim>\<open>lights.size()\<close> at that moment. The log is not part of the program.
\<close>

fun walk :: "Environment \<Rightarrow> Frame \<Rightarrow> LightSource list \<times> (Frame \<times> nat) list
      \<Rightarrow> LightSource list \<times> (Frame \<times> nat) list"
  and walk_kids :: "Environment \<Rightarrow> Frame list \<Rightarrow> LightSource list \<times> (Frame \<times> nat) list
      \<Rightarrow> LightSource list \<times> (Frame \<times> nat) list"
where
  "walk env (Frame fd kids) (lights, calls) =
    (if 3 < length lights then (lights, calls @ [(Frame fd kids, length lights)])
     else walk_kids env kids (emit_light env fd lights, calls @ [(Frame fd kids, length lights)]))"
| "walk_kids env [] st = st"
| "walk_kids env (kid # kids) st = walk_kids env kids (walk env kid st)"

definition fake_light :: LightSource where
  \<comment> \<open>\<^verbatim>\<open>LightSource(0, Light(LIGHT_DIRECTIONAL, vector3f(0.f), Color::WHITE, Color::WHITE))\<close>\<close>
  "fake_light =
    \<lparr>ls_body = None,
     ls_light = \<lparr>light_type = LIGHT_DIRECTIONAL, light_position = Vec3 0 0 0,
                 light_diffuse = Color_WHITE, light_specular = Color_WHITE\<rparr>\<rparr>"

text \<open>
  \<^verbatim>\<open>Camera::Draw\<close>, as far as it changes the camera: it clears \<^verbatim>\<open>m_lightSources\<close>, runs the
  walk from the root frame and substitutes the fake light. What it sends to the renderer is
  outside the model.
\<close>

definition Draw :: "Environment \<Rightarrow> Frame \<Rightarrow> Camera \<Rightarrow> Camera" where
  "Draw env rootFrame cam =
    (let lights = position_system_lights env rootFrame []
     in cam\<lparr>m_lightSources := (if lights = [] then [fake_light] else lights)\<rparr>)"

section \<open>Visibility and classification\<close>

text \<open>
  The loop of \<^verbatim>\<open>Camera::Update\<close>:
  \<^verbatim>\<open>
      for (Body *b : Pi::game->GetSpace()->GetBodies()) {
          BodyAttrs attrs;
          attrs.body = b;
          attrs.billboard = false; // false by default
          if (b->GetFlags() & Body::FLAG_DRAW_EXCLUDE)
              continue;
          Frame *f = Frame::GetFrame(b->GetFrame());
          attrs.viewTransform = f->GetInterpOrientRelTo(camFrame);
          attrs.viewTransform.SetTranslate(f->GetInterpPositionRelTo(camFrame));
          attrs.viewCoords = attrs.viewTransform * b->GetInterpPosition();
          double rad = b->GetClipRadius();
          if (!m_context->GetFrustum().TestPointInfinite(attrs.viewCoords, rad))
              continue;
          attrs.camDist = attrs.viewCoords.Length();
          attrs.bodyFlags = b->GetFlags();
          const float pixSize = Graphics::GetScreenHeight() * 2.0 * rad / (attrs.camDist * Graphics::GetFovFactor());
          if (b->IsType(ObjectType::TERRAINBODY)) {
              if (pixSize < BILLBOARD_PIXEL_THRESHOLD) {
                  attrs.billboard = true;
                  vector3d pos;
                  m_context->GetFrustum().TranslatePoint(attrs.viewCoords, pos);
                  attrs.billboardPos = vector3f(pos);
                  attrs.billboardSize = std::max(1.0f, pixSize);
                  if (b->IsType(ObjectType::STAR)) {
                      attrs.billboardColor = StarSystem::starRealColors[b->GetSystemBody()->GetType()];
                  } else if (b->IsType(ObjectType::PLANET)) {
                      attrs.billboardColor = b->GetSystemBody()->GetAlbedo();
                  } else {
                      attrs.billboardColor = Color::WHITE;
                  }
                  if (!m_lightSources.empty() && !b->IsType(ObjectType::STAR)) {
                      const Graphics::Light &light = m_lightSources[0].GetLight();
                      attrs.billboardColor *= light.GetDiffuse(); // colour the billboard a little with the Starlight
                  }
                  attrs.billboardColor.a = 255; // no alpha, these things are hard enough to see as it is
              }
          } else if (pixSize < OBJECT_HIDDEN_PIXEL_THRESHOLD) {
              continue;
          }
          m_sortedBodies.push_back(attrs);
      }
  \<close>
\<close>

text \<open>
  The pixel size. \<^verbatim>\<open>rad\<close> and \<^verbatim>\<open>attrs.camDist\<close> are \<^verbatim>\<open>double\<close>, the screen height is an
  \<^verbatim>\<open>int\<close> and the field-of-view factor a \<^verbatim>\<open>float\<close>: the two products and the quotient are
  computed in \<^verbatim>\<open>double\<close>, from left to right, and the initialisation of the
  \<^verbatim>\<open>const float pixSize\<close> converts the quotient to \<^verbatim>\<open>float\<close>. The thresholds are \<^verbatim>\<open>float\<close>
  constants of the file, 2 and 8.
\<close>

definition pixSize_of :: "Environment \<Rightarrow> real \<Rightarrow> real \<Rightarrow> fval" where
  \<comment> \<open>\<^verbatim>\<open>Graphics::GetScreenHeight() * 2.0 * rad / (attrs.camDist * Graphics::GetFovFactor())\<close>\<close>
  "pixSize_of env rad cam_dist =
     to_float (div64 (mul64 (mul64 (Fin (real_of_int (screenHeight env))) (Fin 2)) (Fin rad))
                     (mul64 (Fin cam_dist) (Fin (fovFactor env))))"

definition billboard_tint :: "Environment \<Rightarrow> LightSource list \<Rightarrow> Body \<Rightarrow> Color" where
  "billboard_tint env lights b =
    (let col = (if isStar b then starRealColors env (sb_type (systemBody b))
                else if isPlanet b then sb_albedo (systemBody b)
                else Color_WHITE);
         col = (if lights \<noteq> [] \<and> \<not> isStar b
                then color_mul env col (light_diffuse (ls_light (hd lights))) else col)
     in col\<lparr>col_a := 255\<rparr>)"

text \<open>
  One turn of the loop of \<^verbatim>\<open>Camera::Update\<close>: \<open>None\<close> is \<^verbatim>\<open>continue\<close>, \<open>Some attrs\<close> is
  \<^verbatim>\<open>m_sortedBodies.push_back(attrs)\<close>. \<open>fresh\<close> is the default-constructed \<^verbatim>\<open>BodyAttrs\<close>.
\<close>

definition Update_body :: "Environment \<Rightarrow> LightSource list \<Rightarrow> BodyAttrs \<Rightarrow> Body \<Rightarrow> BodyAttrs option" where
  "Update_body env lights fresh b =
    (let attrs = fresh\<lparr>attr_body := b, billboard := False\<rparr> in
     if flags b AND FLAG_DRAW_EXCLUDE env \<noteq> 0 then None
     else
       let attrs = attrs\<lparr>viewTransform := viewTransformOf env b, viewCoords := viewCoordsOf env b\<rparr>;
           rad = clipRadius b in
       if \<not> TestPointInfinite env (viewCoords attrs) rad then None
       else
         let attrs = attrs\<lparr>camDist := Length (viewCoords attrs), bodyFlags := flags b\<rparr>;
             pixSize = pixSize_of env rad (camDist attrs) in
         if isTerrainBody b then
           (if fless pixSize BILLBOARD_PIXEL_THRESHOLD then
              Some (attrs\<lparr>billboard := True,
                          billboardPos := TranslatePoint env (viewCoords attrs),
                          billboardSize := fmax 1 pixSize,
                          billboardColor := billboard_tint env lights b\<rparr>)
            else Some attrs)
         else if fless pixSize OBJECT_HIDDEN_PIXEL_THRESHOLD then None
         else Some attrs)"

fun Update_loop :: "Environment \<Rightarrow> LightSource list \<Rightarrow> BodyAttrs \<Rightarrow> Body list \<Rightarrow> BodyAttrs list \<Rightarrow> BodyAttrs list" where
  "Update_loop env lights fresh [] sorted_bodies = sorted_bodies"
| "Update_loop env lights fresh (b # bs) sorted_bodies =
    (case Update_body env lights fresh b of
       None \<Rightarrow> Update_loop env lights fresh bs sorted_bodies
     | Some attrs \<Rightarrow> Update_loop env lights fresh bs (sorted_bodies @ [attrs]))"

definition Update :: "Environment \<Rightarrow> BodyAttrs \<Rightarrow> Camera \<Rightarrow> Camera" where
  "Update env fresh cam =
     cam\<lparr>m_sortedBodies :=
       list_sort (sort_BodyAttrs env) (Update_loop env (m_lightSources cam) fresh (bodies env) [])\<rparr>"

section \<open>The shadow calculator\<close>

text \<open>
  \<^verbatim>\<open>
  void Camera::CalcShadows(const int lightNum, const Body *b, std::vector<Shadow> &shadowsOut) const
  {
      const Body *lightBody = m_lightSources[lightNum].GetBody();
      if (!lightBody)
          return;
      const double lightRadius = lightBody->GetPhysRadius();
      const vector3d bLightPos = lightBody->GetPositionRelTo(b);
      const vector3d lightDir = bLightPos.Normalized();
      double bRadius;
      if (b->IsType(ObjectType::TERRAINBODY))
          bRadius = b->GetSystemBody()->GetRadius();
      else
          bRadius = b->GetPhysRadius();
      for (const Body *b2 : Pi::game->GetSpace()->GetBodies()) {
          if (b2 == b || b2 == lightBody || !(b2->IsType(ObjectType::PLANET) || b2->IsType(ObjectType::STAR)))
              continue;
          double b2Radius = b2->GetSystemBody()->GetRadius();
          vector3d b2pos = b2->GetPositionRelTo(b);
          const double perpDist = lightDir.Dot(b2pos);
          if (perpDist <= 0 || perpDist > bLightPos.Length())
              continue;
          const double srad = b2Radius / bRadius;
          const double lrad = (lightRadius / bLightPos.Length()) * perpDist / bRadius;
          if (srad / lrad < 0.01) {
              continue;
          }
          const vector3d projectedCentre = (b2pos - perpDist * lightDir) / bRadius;
          if (projectedCentre.Length() < 1 + srad + lrad) {
              Camera::Shadow shadow = { projectedCentre, static_cast<float>(srad), static_cast<float>(lrad) };
              shadowsOut.push_back(shadow);
          }
      }
  }
  \<close>
\<close>

fun CalcShadows_loop :: "Environment \<Rightarrow> Body \<Rightarrow> Body \<Rightarrow> real \<Rightarrow> vector3 \<Rightarrow> vector3 \<Rightarrow> real
      \<Rightarrow> Body list \<Rightarrow> Shadow list \<Rightarrow> Shadow list" where
  "CalcShadows_loop env b lightBody lightRadius bLightPos lightDir bRadius [] shadowsOut = shadowsOut"
| "CalcShadows_loop env b lightBody lightRadius bLightPos lightDir bRadius (b2 # rest) shadowsOut =
    (if addr b2 = addr b \<or> addr b2 = addr lightBody \<or> \<not> (isPlanet b2 \<or> isStar b2)
     then CalcShadows_loop env b lightBody lightRadius bLightPos lightDir bRadius rest shadowsOut
     else
       let b2Radius = sb_radius (systemBody b2);
           b2pos = positionRelTo env b2 b;
           perpDist = Dot lightDir b2pos in
       if perpDist \<le> 0 \<or> Length bLightPos < perpDist
       then CalcShadows_loop env b lightBody lightRadius bLightPos lightDir bRadius rest shadowsOut
       else
         let s_rad = b2Radius / bRadius;
             l_rad = (lightRadius / Length bLightPos) * perpDist / bRadius in
         if s_rad / l_rad < 1 / 100
         then CalcShadows_loop env b lightBody lightRadius bLightPos lightDir bRadius rest shadowsOut
         else
           let projectedCentre = vdiv (vsub b2pos (vscale perpDist lightDir)) bRadius in
           if Length projectedCentre < 1 + s_rad + l_rad
           then CalcShadows_loop env b lightBody lightRadius bLightPos lightDir bRadius rest
                  (shadowsOut @ [\<lparr>centre = projectedCentre, srad = s_rad, lrad = l_rad\<rparr>])
           else CalcShadows_loop env b lightBody lightRadius bLightPos lightDir bRadius rest shadowsOut)"

definition CalcShadows_light :: "Environment \<Rightarrow> LightSource \<Rightarrow> Body \<Rightarrow> Shadow list \<Rightarrow> Shadow list" where
  \<comment> \<open>\<^verbatim>\<open>CalcShadows\<close> once \<^verbatim>\<open>m_lightSources[lightNum]\<close> has been read.\<close>
  "CalcShadows_light env ls b shadowsOut =
    (case ls_body ls of
       None \<Rightarrow> shadowsOut
     | Some lightBody \<Rightarrow>
         let lightRadius = physRadius lightBody;
             bLightPos = positionRelTo env lightBody b;
             lightDir = Normalized bLightPos;
             bRadius = (if isTerrainBody b then sb_radius (systemBody b) else physRadius b)
         in CalcShadows_loop env b lightBody lightRadius bLightPos lightDir bRadius (bodies env) shadowsOut)"

text \<open>
  \<^verbatim>\<open>m_lightSources[lightNum]\<close> with \<^verbatim>\<open>lightNum\<close> outside the vector is undefined behaviour:
  the model returns \<open>None\<close>.
\<close>

definition CalcShadows :: "Environment \<Rightarrow> Camera \<Rightarrow> int \<Rightarrow> Body \<Rightarrow> Shadow list \<Rightarrow> Shadow list option" where
  "CalcShadows env cam lightNum b shadowsOut =
    (if 0 \<le> lightNum \<and> nat lightNum < length (m_lightSources cam)
     then Some (CalcShadows_light env (m_lightSources cam ! nat lightNum) b shadowsOut)
     else None)"

section \<open>The disc-occlusion model\<close>

text \<open>
  \<^verbatim>\<open>
  float discCovered(const float dist, const float rad)
  {
      const float radsq = rad * rad;
      const float xl = Clamp((dist * dist + 1.f - radsq) / (2.f * std::max(0.001f, dist)), -1.f, 1.f);
      const float xs = Clamp((dist - xl) / std::max(0.001f, rad), -1.f, 1.f);
      const float d = sqrt(std::max(0.f, 1.f - xl * xl));
      const float th = Clamp(acosf(xl), 0.f, float(M_PI));
      const float th2 = Clamp(acosf(xs), 0.f, float(M_PI));
      assert(!is_nan(d) && !is_nan(th) && !is_nan(th2));
      return Clamp((th + radsq * th2 - dist * d) / float(M_PI), 0.f, 1.f);
  }
  \<close>
  The function in exact arithmetic, where the assertion has no counterpart:
\<close>

definition discCovered :: "real \<Rightarrow> real \<Rightarrow> real" where
  \<comment> \<open>\<open>dst\<close> is the parameter \<^verbatim>\<open>dist\<close> (the name \<open>dist\<close> is the library's metric).\<close>
  "discCovered dst rad =
    (let radsq = rad * rad;
         xl = Clamp ((dst * dst + 1 - radsq) / (2 * max (1 / 1000) dst)) (- 1) 1;
         xs = Clamp ((dst - xl) / max (1 / 1000) rad) (- 1) 1;
         d = sqrt (max 0 (1 - xl * xl));
         th = Clamp (arccos xl) 0 pi;
         th2 = Clamp (arccos xs) 0 pi
     in Clamp ((th + radsq * th2 - dst * d) / pi) 0 1)"

text \<open>
  The function as it is computed. Every operand is a \<^verbatim>\<open>float\<close>, so every operation is one of
  binary32; \<^verbatim>\<open>0.001f\<close> is the \<^verbatim>\<open>float\<close> nearest to 1/1000 and \<^verbatim>\<open>float(M_PI)\<close> the one nearest
  to \<^verbatim>\<open>M_PI\<close>. The assertion is compiled unless \<^verbatim>\<open>NDEBUG\<close> is defined: \<open>ndebug\<close> tells which,
  and a failed assertion ends the call with \<open>AssertionFailed\<close>.
\<close>

definition discCovered_float :: "bool \<Rightarrow> fval \<Rightarrow> fval \<Rightarrow> error + fval" where
  "discCovered_float ndebug dst rad =
    (let radsq = mul32 rad rad;
         xl = Clamp_float (div32 (sub32 (add32 (mul32 dst dst) (Fin 1)) radsq)
                                 (mul32 (Fin 2) (std_max (round_to binary32 (1 / 1000)) dst)))
                (Fin (- 1)) (Fin 1);
         xs = Clamp_float (div32 (sub32 dst xl) (std_max (round_to binary32 (1 / 1000)) rad))
                (Fin (- 1)) (Fin 1);
         d = sqrt32 (std_max (Fin 0) (sub32 (Fin 1) (mul32 xl xl)));
         th = Clamp_float (acosf xl) (Fin 0) (to_float (Fin M_PI));
         th2 = Clamp_float (acosf xs) (Fin 0) (to_float (Fin M_PI))
     in if \<not> ndebug \<and> \<not> (\<not> is_nan d \<and> \<not> is_nan th \<and> \<not> is_nan th2) then Inl AssertionFailed
        else Inr (Clamp_float (div32 (sub32 (add32 th (mul32 radsq th2)) (mul32 dst d))
                                 (to_float (Fin M_PI)))
                    (Fin 0) (Fin 1)))"

section \<open>The eclipse intensity aggregator\<close>

text \<open>
  Both functions empty the file's static buffer \<^verbatim>\<open>shadows\<close> before they fill it, so what
  it held before has no effect; the model starts from the empty list.
\<close>

text \<open>
  \<^verbatim>\<open>
  static std::vector<Camera::Shadow> shadows;
  float Camera::ShadowedIntensity(const int lightNum, const Body *b) const
  {
      shadows.clear();
      shadows.reserve(16);
      CalcShadows(lightNum, b, shadows);
      float product = 1.0;
      for (std::vector<Camera::Shadow>::const_iterator it = shadows.begin(), itEnd = shadows.end(); it != itEnd; ++it)
          product *= 1.0 - discCovered(it->centre.Length() / it->lrad, it->srad / it->lrad);
      return product;
  }
  void Camera::PrincipalShadows(const Body *b, const int n, std::vector<Shadow> &shadowsOut) const
  {
      shadows.clear();
      shadows.reserve(16);
      for (size_t i = 0; i < 4 && i < m_lightSources.size(); i++) {
          CalcShadows(i, b, shadows);
      }
      shadowsOut.reserve(shadows.size());
      std::sort(shadows.begin(), shadows.end());
      std::vector<Shadow>::reverse_iterator it = shadows.rbegin(), itREnd = shadows.rend();
      for (int i = 0; i < n; i++) {
          if (it == itREnd) break;
          shadowsOut.push_back(*(it++));
      }
  }
  \<close>
\<close>

text \<open>
  The loop of \<^verbatim>\<open>ShadowedIntensity\<close>. A descriptor of the model holds the \<^verbatim>\<open>double\<close> values
  \<^verbatim>\<open>srad\<close> and \<^verbatim>\<open>lrad\<close> of \<^verbatim>\<open>CalcShadows\<close>; the \<^verbatim>\<open>static_cast<float>\<close> that stores them in
  the \<^verbatim>\<open>Shadow\<close> is applied here, where they are read. \<^verbatim>\<open>it->centre.Length() / it->lrad\<close>
  divides a \<^verbatim>\<open>double\<close> by a \<^verbatim>\<open>float\<close>, in \<^verbatim>\<open>double\<close>, and the quotient is converted to the
  \<^verbatim>\<open>float\<close> parameter; \<^verbatim>\<open>it->srad / it->lrad\<close> is a quotient of two \<^verbatim>\<open>float\<close>s.
  \<^verbatim>\<open>product *= 1.0 - ...\<close> subtracts and multiplies in \<^verbatim>\<open>double\<close> and converts the product
  to \<^verbatim>\<open>float\<close>. A failed assertion of \<^verbatim>\<open>discCovered\<close> ends the call.
\<close>

fun ShadowedIntensity_loop :: "bool \<Rightarrow> Shadow list \<Rightarrow> fval \<Rightarrow> error + fval" where
  "ShadowedIntensity_loop ndebug [] product = Inr product"
| "ShadowedIntensity_loop ndebug (it # rest) product =
    (case discCovered_float ndebug
            (to_float (div64 (Fin (Length (centre it))) (to_float (Fin (lrad it)))))
            (div32 (to_float (Fin (srad it))) (to_float (Fin (lrad it)))) of
       Inl e \<Rightarrow> Inl e
     | Inr covered \<Rightarrow>
         ShadowedIntensity_loop ndebug rest (to_float (mul64 product (sub64 (Fin 1) covered))))"

definition ShadowedIntensity :: "Environment \<Rightarrow> Camera \<Rightarrow> bool \<Rightarrow> int \<Rightarrow> Body \<Rightarrow> error + fval" where
  "ShadowedIntensity env cam ndebug lightNum b =
    (case CalcShadows env cam lightNum b [] of
       None \<Rightarrow> Inl OutOfRange
     | Some shadows \<Rightarrow> ShadowedIntensity_loop ndebug shadows (Fin 1))"

function PrincipalShadows_gather :: "Environment \<Rightarrow> Camera \<Rightarrow> Body \<Rightarrow> nat \<Rightarrow> Shadow list \<Rightarrow> Shadow list option" where
  "PrincipalShadows_gather env cam b i shadows =
    (if i < 4 \<and> i < length (m_lightSources cam) then
       (case CalcShadows env cam (int i) b shadows of
          None \<Rightarrow> None
        | Some shadows' \<Rightarrow> PrincipalShadows_gather env cam b (i + 1) shadows')
     else Some shadows)"
  by pat_completeness auto
termination
  by (relation "measure (\<lambda>(env, cam, b, i, shadows). 4 - i)") auto

declare PrincipalShadows_gather.simps [simp del]

fun PrincipalShadows_copy :: "int \<Rightarrow> int \<Rightarrow> Shadow list \<Rightarrow> Shadow list \<Rightarrow> Shadow list" where
  \<comment> \<open>The last loop: \<open>it\<close> is what the reverse iterator has still to visit.\<close>
  "PrincipalShadows_copy i n [] shadowsOut = shadowsOut"
| "PrincipalShadows_copy i n (s # it) shadowsOut =
    (if i < n then PrincipalShadows_copy (i + 1) n it (shadowsOut @ [s]) else shadowsOut)"

text \<open>
  \<^verbatim>\<open>Shadow::operator<\<close> is declared in Camera.h and \<^verbatim>\<open>std::sort\<close> is the library's: both are
  parameters, \<open>shadow_less\<close> and \<open>std_sort\<close>.
\<close>

definition PrincipalShadows :: "Environment \<Rightarrow> Camera \<Rightarrow> (Shadow \<Rightarrow> Shadow \<Rightarrow> bool)
      \<Rightarrow> ((Shadow \<Rightarrow> Shadow \<Rightarrow> bool) \<Rightarrow> Shadow list \<Rightarrow> Shadow list)
      \<Rightarrow> Body \<Rightarrow> int \<Rightarrow> Shadow list \<Rightarrow> Shadow list option" where
  "PrincipalShadows env cam shadow_less std_sort b n shadowsOut =
    (case PrincipalShadows_gather env cam b 0 [] of
       None \<Rightarrow> None
     | Some shadows \<Rightarrow>
         Some (PrincipalShadows_copy 0 n (rev (std_sort shadow_less shadows)) shadowsOut))"

section \<open>Notions used in the statements\<close>

text \<open>An entry is flagged draw-last when the bit is set in its copy of the body's flags.\<close>

definition drawLast :: "Environment \<Rightarrow> BodyAttrs \<Rightarrow> bool" where
  "drawLast env a = (bodyFlags a AND FLAG_DRAW_LAST env \<noteq> 0)"

text \<open>The pixel size that \<^verbatim>\<open>Camera::Update\<close> computes for a body.\<close>

definition pixSize_body :: "Environment \<Rightarrow> Body \<Rightarrow> fval" where
  "pixSize_body env b = pixSize_of env (clipRadius b) (Length (viewCoordsOf env b))"

text \<open>
  The frames below a frame in the order of the walk (a frame before its children, the children
  in order), the frames that the walk turns into a light, the light of one frame, and the
  property of a call log that every call entered with fewer than four lights is followed by a
  call on each child of its frame.
\<close>

fun frames_of :: "Frame \<Rightarrow> FrameData list"
  and frames_of_kids :: "Frame list \<Rightarrow> FrameData list"
where
  "frames_of (Frame fd kids) = fd # frames_of_kids kids"
| "frames_of_kids [] = []"
| "frames_of_kids (kid # kids) = frames_of kid @ frames_of_kids kids"

definition star_frame :: "FrameData \<Rightarrow> bool" where
  "star_frame fd =
    (case fr_systemBody fd of
       None \<Rightarrow> False
     | Some body \<Rightarrow> \<not> fr_isRotFrame fd \<and> sb_superType body = SUPERTYPE_STAR)"

definition lights_at :: "Environment \<Rightarrow> FrameData \<Rightarrow> LightSource list" where
  "lights_at env fd = emit_light env fd []"

definition calls_closed :: "(Frame \<times> nat) list \<Rightarrow> bool" where
  "calls_closed calls =
    (\<forall>fd kids n. (Frame fd kids, n) \<in> set calls \<and> n \<le> 3 \<longrightarrow>
       (\<forall>kid\<in>set kids. \<exists>m. (kid, m) \<in> set calls))"


text \<open>
  The shadow calculator in the words of its contract: the occlusion radius of the target, the
  distance of a body along the light direction, the descriptor of a body, and the test that a
  body eclipses the target.
\<close>

definition occlusion_radius :: "Body \<Rightarrow> real" where
  "occlusion_radius b = (if isTerrainBody b then sb_radius (systemBody b) else physRadius b)"

definition perpDist_of :: "Environment \<Rightarrow> Body \<Rightarrow> Body \<Rightarrow> Body \<Rightarrow> real" where
  "perpDist_of env lightBody b b2 =
     Dot (Normalized (positionRelTo env lightBody b)) (positionRelTo env b2 b)"

definition shadow_of :: "Environment \<Rightarrow> Body \<Rightarrow> Body \<Rightarrow> Body \<Rightarrow> Shadow" where
  "shadow_of env lightBody b b2 =
    \<lparr>centre = vdiv (vsub (positionRelTo env b2 b)
                 (vscale (perpDist_of env lightBody b b2) (Normalized (positionRelTo env lightBody b))))
               (occlusion_radius b),
     srad = sb_radius (systemBody b2) / occlusion_radius b,
     lrad = physRadius lightBody / Length (positionRelTo env lightBody b)
              * perpDist_of env lightBody b b2 / occlusion_radius b\<rparr>"

definition eclipses :: "Environment \<Rightarrow> Body \<Rightarrow> Body \<Rightarrow> Body \<Rightarrow> bool" where
  "eclipses env lightBody b b2 =
    ((isPlanet b2 \<or> isStar b2) \<and> addr b2 \<noteq> addr b \<and> addr b2 \<noteq> addr lightBody \<and>
     0 < perpDist_of env lightBody b b2 \<and>
     perpDist_of env lightBody b b2 \<le> Length (positionRelTo env lightBody b) \<and>
     1 / 100 \<le> srad (shadow_of env lightBody b b2) / lrad (shadow_of env lightBody b b2) \<and>
     Length (centre (shadow_of env lightBody b b2))
       < 1 + srad (shadow_of env lightBody b b2) + lrad (shadow_of env lightBody b b2))"

text \<open>The two arguments that \<^verbatim>\<open>ShadowedIntensity\<close> passes to \<^verbatim>\<open>discCovered\<close> for a descriptor.\<close>

definition dist_arg :: "Shadow \<Rightarrow> fval" where
  "dist_arg s = to_float (div64 (Fin (Length (centre s))) (to_float (Fin (lrad s))))"

definition rad_arg :: "Shadow \<Rightarrow> fval" where
  "rad_arg s = div32 (to_float (Fin (srad s))) (to_float (Fin (lrad s)))"

definition gathered :: "Environment \<Rightarrow> Camera \<Rightarrow> Body \<Rightarrow> Shadow list" where
  \<comment> \<open>The shadows of the first four lights, in the order of the lights.\<close>
  "gathered env cam b =
     concat (map (\<lambda>i. CalcShadows_light env (m_lightSources cam ! i) b [])
               [0..<min 4 (length (m_lightSources cam))])"


section \<open>A sample scene\<close>

text \<open>
  A star, a planet with an atmosphere (its clip radius is larger than its physical radius), a
  moon between the planet and the star, a ship that is drawn last, and a second star twice as
  far from the planet as the first. The camera looks at them from the ship's position; all of
  them lie on the z axis.
\<close>

definition sample_color_mul :: "Color \<Rightarrow> Color \<Rightarrow> Color" where
  "sample_color_mul c d =
    \<lparr>col_r = word_of_nat (unat (col_r c) * unat (col_r d) div 255),
     col_g = word_of_nat (unat (col_g c) * unat (col_g d) div 255),
     col_b = word_of_nat (unat (col_b c) * unat (col_b d) div 255),
     col_a = word_of_nat (unat (col_a c) * unat (col_a d) div 255)\<rparr>"

definition sample_star :: Body where
  "sample_star =
    \<lparr>addr = 1, flags = 0, isTerrainBody = True, isPlanet = False, isStar = True,
     physRadius = 20, clipRadius = 20,
     systemBody = \<lparr>sb_superType = SUPERTYPE_STAR, sb_type = 5, sb_radius = 20,
                   sb_albedo = Color_WHITE\<rparr>\<rparr>"

definition sample_planet :: Body where
  "sample_planet =
    \<lparr>addr = 2, flags = 0, isTerrainBody = True, isPlanet = True, isStar = False,
     physRadius = 2, clipRadius = 10,
     systemBody = \<lparr>sb_superType = SUPERTYPE_OTHER 2, sb_type = 20, sb_radius = 2,
                   sb_albedo = \<lparr>col_r = 51, col_g = 102, col_b = 204, col_a = 128\<rparr>\<rparr>\<rparr>"

definition sample_moon :: Body where
  "sample_moon =
    \<lparr>addr = 3, flags = 0, isTerrainBody = True, isPlanet = True, isStar = False,
     physRadius = 1, clipRadius = 1,
     systemBody = \<lparr>sb_superType = SUPERTYPE_OTHER 2, sb_type = 21, sb_radius = 1,
                   sb_albedo = \<lparr>col_r = 255, col_g = 102, col_b = 51, col_a = 128\<rparr>\<rparr>\<rparr>"

definition sample_ship :: Body where
  "sample_ship =
    \<lparr>addr = 4, flags = 4, isTerrainBody = False, isPlanet = False, isStar = False,
     physRadius = 1 / 100, clipRadius = 1 / 100,
     systemBody = \<lparr>sb_superType = SUPERTYPE_OTHER 0, sb_type = 0, sb_radius = 0,
                   sb_albedo = Color_WHITE\<rparr>\<rparr>"

definition sample_far_star :: Body where
  "sample_far_star =
    \<lparr>addr = 5, flags = 0, isTerrainBody = True, isPlanet = False, isStar = True,
     physRadius = 20, clipRadius = 20,
     systemBody = \<lparr>sb_superType = SUPERTYPE_STAR, sb_type = 6, sb_radius = 20,
                   sb_albedo = Color_WHITE\<rparr>\<rparr>"

definition sample_dwarf :: Body where
  \<comment> \<open>A planet at the place of the sample planet whose size on the screen is just below 8.\<close>
  "sample_dwarf =
    \<lparr>addr = 6, flags = 0, isTerrainBody = True, isPlanet = True, isStar = False,
     physRadius = 4 - 1 / 2 ^ 30, clipRadius = 4 - 1 / 2 ^ 30,
     systemBody = \<lparr>sb_superType = SUPERTYPE_OTHER 2, sb_type = 22, sb_radius = 4 - 1 / 2 ^ 30,
                   sb_albedo = Color_WHITE\<rparr>\<rparr>"

definition sample_position :: "Body \<Rightarrow> vector3" where
  "sample_position b =
    (if addr b = 1 then Vec3 0 0 100 else if addr b = 3 then Vec3 0 0 10
     else if addr b = 4 then Vec3 0 0 (- 1000) else if addr b = 5 then Vec3 0 0 200
     else Vec3 0 0 0)"

definition sample_env :: Environment where
  "sample_env =
    \<lparr>FLAG_DRAW_LAST = 4, FLAG_DRAW_EXCLUDE = 8, AU = 149597870700,
     starRealColors = (\<lambda>t. \<lparr>col_r = 255, col_g = 255, col_b = 204, col_a = 255\<rparr>),
     color_mul = sample_color_mul,
     bodies = [sample_star, sample_planet, sample_moon, sample_ship, sample_far_star],
     positionRelTo = (\<lambda>a b. vsub (sample_position a) (sample_position b)),
     viewTransformOf = (\<lambda>b. Matrix4x4d []),
     viewCoordsOf = (\<lambda>b. vsub (sample_position b) (Vec3 0 0 (- 1000))),
     TestPointInfinite = (\<lambda>v r. True),
     TranslatePoint = (\<lambda>v. v),
     screenHeight = 1000, fovFactor = 1\<rparr>"

definition sample_attrs :: BodyAttrs where
  "sample_attrs =
    \<lparr>attr_body = sample_ship, viewTransform = Matrix4x4d [], viewCoords = Vec3 0 0 0,
     camDist = 0, bodyFlags = 0, billboard = False, billboardPos = Vec3 0 0 0,
     billboardSize = Fin 0, billboardColor = Color_WHITE\<rparr>"

definition sample_light :: LightSource where
  "sample_light =
    \<lparr>ls_body = Some sample_star,
     ls_light = \<lparr>light_type = LIGHT_DIRECTIONAL, light_position = Vec3 0 0 149597870700,
                 light_diffuse = \<lparr>col_r = 255, col_g = 255, col_b = 204, col_a = 0\<rparr>,
                 light_specular = \<lparr>col_r = 255, col_g = 255, col_b = 204, col_a = 0\<rparr>\<rparr>\<rparr>"


definition sample_star_frame :: FrameData where
  "sample_star_frame =
    \<lparr>fr_systemBody = Some \<lparr>sb_superType = SUPERTYPE_STAR, sb_type = 5, sb_radius = 20,
                             sb_albedo = Color_WHITE\<rparr>,
     fr_isRotFrame = False, fr_body = Some sample_star,
     fr_positionRelToCam = Vec3 0 0 1100\<rparr>"

definition sample_root_frame :: FrameData where
  "sample_root_frame =
    \<lparr>fr_systemBody = None, fr_isRotFrame = False, fr_body = None,
     fr_positionRelToCam = Vec3 0 0 1000\<rparr>"

definition sample_planet_frame :: FrameData where
  "sample_planet_frame =
    \<lparr>fr_systemBody = Some (systemBody sample_planet), fr_isRotFrame = False,
     fr_body = Some sample_planet, fr_positionRelToCam = Vec3 0 0 1000\<rparr>"

definition sample_system :: Frame where
  \<comment> \<open>The star's frame holds its rotating frame and the planet's frame.\<close>
  "sample_system =
    Frame sample_root_frame
      [Frame sample_star_frame
         [Frame (sample_star_frame\<lparr>fr_isRotFrame := True\<rparr>) [],
          Frame sample_planet_frame []]]"

definition sample_cluster :: Frame where
  \<comment> \<open>Five stars below the rootFrame.\<close>
  "sample_cluster =
    Frame sample_root_frame
      [Frame sample_star_frame [], Frame sample_star_frame [], Frame sample_star_frame [],
       Frame sample_star_frame [], Frame sample_star_frame []]"

definition sample_camera :: Camera where
  "sample_camera = \<lparr>m_lightSources = [], m_sortedBodies = []\<rparr>"


definition sample_moon_entry :: BodyAttrs where
  \<comment> \<open>The entry of the sample moon when \<^verbatim>\<open>Camera::Update\<close> finds no light.\<close>
  "sample_moon_entry =
    \<lparr>attr_body = sample_moon, viewTransform = Matrix4x4d [], viewCoords = Vec3 0 0 1010,
     camDist = 1010, bodyFlags = 0, billboard = True, billboardPos = Vec3 0 0 1010,
     billboardSize = Fin (16611105 / 8388608),
     billboardColor = \<lparr>col_r = 255, col_g = 102, col_b = 51, col_a = 255\<rparr>\<rparr>"


definition sample_lit_camera :: Camera where
  "sample_lit_camera = \<lparr>m_lightSources = [sample_light], m_sortedBodies = []\<rparr>"


definition sample_far_light :: LightSource where
  "sample_far_light =
    \<lparr>ls_body = Some sample_far_star,
     ls_light = \<lparr>light_type = LIGHT_DIRECTIONAL, light_position = Vec3 0 0 149597870700,
                 light_diffuse = \<lparr>col_r = 255, col_g = 255, col_b = 204, col_a = 0\<rparr>,
                 light_specular = \<lparr>col_r = 255, col_g = 255, col_b = 204, col_a = 0\<rparr>\<rparr>\<rparr>"

definition sample_two_suns_camera :: Camera where
  "sample_two_suns_camera = \<lparr>m_lightSources = [sample_light, sample_far_light], m_sortedBodies = []\<rparr>"

definition sample_far_shadow_star :: Shadow where
  \<comment> \<open>The shadow of the first star on the sample planet in the light of the second.\<close>
  "sample_far_shadow_star = \<lparr>centre = Vec3 0 0 0, srad = 10, lrad = 5\<rparr>"

definition sample_far_shadow_moon :: Shadow where
  \<comment> \<open>The shadow of the sample moon on the sample planet in the light of the second star.\<close>
  "sample_far_shadow_moon = \<lparr>centre = Vec3 0 0 0, srad = 1 / 2, lrad = 1 / 2\<rparr>"

definition sample_shadow :: Shadow where
  \<comment> \<open>The shadow of the sample moon on the sample planet.\<close>
  "sample_shadow = \<lparr>centre = Vec3 0 0 0, srad = 1 / 2, lrad = 1\<rparr>"

text \<open>
  A scene with a thin light disc: a star of radius 1 at the distance \<open>2 ^ 34\<close> from a planet
  of radius 1, and a second planet of radius 1 that stands beside the first, \<open>1 / 2 ^ 34\<close>
  towards the star. Every number of the scene is a power of two, so each operation of
  \<^verbatim>\<open>CalcShadows\<close> on it is exact in \<^verbatim>\<open>double\<close> as well.
\<close>

definition eclipse_star :: Body where
  "eclipse_star =
    \<lparr>addr = 1, flags = 0, isTerrainBody = True, isPlanet = False, isStar = True,
     physRadius = 1, clipRadius = 1,
     systemBody = \<lparr>sb_superType = SUPERTYPE_STAR, sb_type = 5, sb_radius = 1,
                   sb_albedo = Color_WHITE\<rparr>\<rparr>"

definition eclipse_planet :: Body where
  "eclipse_planet =
    \<lparr>addr = 2, flags = 0, isTerrainBody = True, isPlanet = True, isStar = False,
     physRadius = 1, clipRadius = 1,
     systemBody = \<lparr>sb_superType = SUPERTYPE_OTHER 2, sb_type = 20, sb_radius = 1,
                   sb_albedo = Color_WHITE\<rparr>\<rparr>"

definition eclipse_twin :: Body where
  "eclipse_twin =
    \<lparr>addr = 3, flags = 0, isTerrainBody = True, isPlanet = True, isStar = False,
     physRadius = 1, clipRadius = 1,
     systemBody = \<lparr>sb_superType = SUPERTYPE_OTHER 2, sb_type = 20, sb_radius = 1,
                   sb_albedo = Color_WHITE\<rparr>\<rparr>"

definition eclipse_position :: "Body \<Rightarrow> vector3" where
  "eclipse_position b =
    (if addr b = 1 then Vec3 0 0 (2 ^ 34) else if addr b = 3 then Vec3 1 0 (1 / 2 ^ 34)
     else Vec3 0 0 0)"

definition eclipse_env :: Environment where
  "eclipse_env =
    sample_env\<lparr>bodies := [eclipse_star, eclipse_planet, eclipse_twin],
                positionRelTo := (\<lambda>a b. vsub (eclipse_position a) (eclipse_position b))\<rparr>"

definition eclipse_camera :: Camera where
  "eclipse_camera =
    \<lparr>m_lightSources = [sample_light\<lparr>ls_body := Some eclipse_star\<rparr>], m_sortedBodies = []\<rparr>"

definition eclipse_shadow :: Shadow where
  \<comment> \<open>The shadow of the second planet on the first.\<close>
  "eclipse_shadow = \<lparr>centre = Vec3 1 0 0, srad = 1, lrad = 1 / 2 ^ 68\<rparr>"

definition ratio_less :: "Shadow \<Rightarrow> Shadow \<Rightarrow> bool" where
  \<comment> \<open>An order on shadows for the sample scene: by the ratio of the two radii.\<close>
  "ratio_less s t = (srad s / lrad s < srad t / lrad t)"


section \<open>Facts about rounding\<close>

lemma pow2_powi: "pow2 e = 2 powi e"
  by (simp add: pow2_def power_int_def inverse_eq_divide power_one_over)

lemma pow2_pos: "0 < pow2 e"
  by (simp add: pow2_powi)

lemma pow2_add: "pow2 (a + b) = pow2 a * pow2 b"
  by (simp add: pow2_powi power_int_add)

lemma pow2_mono: "a \<le> b \<Longrightarrow> pow2 a \<le> pow2 b"
  by (simp add: pow2_powi power_int_increasing)

lemma pow2_less_iff: "pow2 a < pow2 b \<longleftrightarrow> a < b"
proof
  assume "a < b"
  then show "pow2 a < pow2 b" by (simp add: pow2_powi power_int_strict_increasing)
next
  assume l: "pow2 a < pow2 b"
  show "a < b"
  proof (rule ccontr)
    assume "\<not> a < b"
    then have "pow2 b \<le> pow2 a" by (simp add: pow2_mono)
    then show False using l by simp
  qed
qed

lemma pow2_nat: "0 \<le> k \<Longrightarrow> pow2 k = of_int (2 ^ nat k)"
  by (simp add: pow2_def)

lemma round_even_le: "z \<le> of_int n \<Longrightarrow> round_even z \<le> n"
proof -
  assume a: "z \<le> of_int n"
  have f: "\<lfloor>z\<rfloor> \<le> n" using a by (simp add: floor_le_iff)
  show ?thesis
  proof (cases "\<lfloor>z\<rfloor> = n")
    case True
    then have "z - of_int \<lfloor>z\<rfloor> \<le> 0" using a by simp
    then show ?thesis using True by (simp add: round_even_def Let_def)
  next
    case False
    then have "\<lfloor>z\<rfloor> + 1 \<le> n" using f by simp
    then show ?thesis using f by (simp add: round_even_def Let_def)
  qed
qed

lemma round_even_ge: "of_int n \<le> z \<Longrightarrow> n \<le> round_even z"
proof -
  assume "of_int n \<le> z"
  then have "n \<le> \<lfloor>z\<rfloor>" by (simp add: le_floor_iff)
  then show ?thesis by (simp add: round_even_def Let_def)
qed

lemma round_even_int: "round_even (of_int n) = n"
  by (simp add: round_even_def)

lemma binade_bounds: "lo \<le> hi \<Longrightarrow> lo \<le> binade lo hi x \<and> binade lo hi x \<le> hi"
proof (induction lo hi x rule: binade.induct)
  case (1 lo e x)
  show ?case
  proof (cases "e \<le> lo \<or> pow2 e \<le> x")
    case True
    then show ?thesis using 1(2) by (subst binade.simps, subst binade.simps) auto
  next
    case False
    then have "lo \<le> e - 1" by simp
    from 1(1)[OF False this] show ?thesis using False
      by (subst binade.simps, subst (2) binade.simps) auto
  qed
qed

lemma binade_lower: "lo < binade lo hi x \<Longrightarrow> pow2 (binade lo hi x) \<le> x"
proof (induction lo hi x rule: binade.induct)
  case (1 lo e x)
  show ?case
  proof (cases "e \<le> lo \<or> pow2 e \<le> x")
    case True
    then have eq: "binade lo e x = e" by (subst binade.simps) simp
    show ?thesis using True 1(2) unfolding eq by auto
  next
    case False
    then have eq: "binade lo e x = binade lo (e - 1) x" by (subst binade.simps) simp
    show ?thesis using 1(1)[OF False] 1(2) unfolding eq by simp
  qed
qed

lemma binade_upper: "lo \<le> hi \<Longrightarrow> binade lo hi x < hi \<Longrightarrow> x < pow2 (binade lo hi x + 1)"
proof (induction lo hi x rule: binade.induct)
  case (1 lo e x)
  show ?case
  proof (cases "e \<le> lo \<or> pow2 e \<le> x")
    case True
    then have eq: "binade lo e x = e" by (subst binade.simps) simp
    show ?thesis using 1(3) unfolding eq by simp
  next
    case False
    then have eq: "binade lo e x = binade lo (e - 1) x" by (subst binade.simps) simp
    have lo: "lo \<le> e - 1" using False by simp
    show ?thesis
    proof (cases "binade lo (e - 1) x < e - 1")
      case True
      from 1(1)[OF False lo True] show ?thesis unfolding eq .
    next
      case False2: False
      then have "binade lo (e - 1) x = e - 1" using binade_bounds[OF lo, of x] by simp
      then show ?thesis using False unfolding eq by simp
    qed
  qed
qed

lemma binade_eq:
  assumes "lo \<le> e" "e \<le> hi" "e = lo \<or> pow2 e \<le> x" "e = hi \<or> x < pow2 (e + 1)"
  shows "binade lo hi x = e"
proof -
  have lh: "lo \<le> hi" using assms by simp
  let ?b = "binade lo hi x"
  have b: "lo \<le> ?b" "?b \<le> hi" using binade_bounds[OF lh, of x] by simp_all
  have "?b \<le> e"
  proof (rule ccontr)
    assume "\<not> ?b \<le> e"
    then have l: "e < ?b" by simp
    then have "pow2 ?b \<le> x" using binade_lower[of lo hi x] assms(1) by simp
    moreover have "x < pow2 (e + 1)" using assms(4) l b by auto
    ultimately have "pow2 ?b < pow2 (e + 1)" by simp
    then show False using l by (simp add: pow2_less_iff)
  qed
  moreover have "e \<le> ?b"
  proof (rule ccontr)
    assume "\<not> e \<le> ?b"
    then have l: "?b < e" by simp
    then have "x < pow2 (?b + 1)" using binade_upper[OF lh, of x] assms(2) by simp
    moreover have "pow2 e \<le> x" using assms(3) l b by auto
    ultimately have "pow2 e < pow2 (?b + 1)" by simp
    then show False using l by (simp add: pow2_less_iff)
  qed
  ultimately show ?thesis by simp
qed


lemma round_to_zero: "round_to fmt 0 = Fin 0"
  using pow2_pos[of "emax fmt + 1"]
  by (simp add: round_to_def Let_def round_even_int[of 0, simplified] not_le)

lemma round_to_not_nan: "round_to fmt x \<noteq> NaN"
  by (simp add: round_to_def Let_def)

lemma rnd_not_nan: "v \<noteq> NaN \<Longrightarrow> rnd fmt v \<noteq> NaN"
  by (cases v) (simp_all add: round_to_not_nan)

lemma round_to_overflow:
  assumes "emin fmt \<le> emax fmt" "pow2 (emax fmt + 1) \<le> x"
  shows "round_to fmt x = PInf"
proof -
  have x: "0 < x" using assms(2) pow2_pos[of "emax fmt + 1"] by linarith
  have "pow2 (emax fmt) \<le> pow2 (emax fmt + 1)" by (rule pow2_mono) simp
  then have "pow2 (emax fmt) \<le> \<bar>x\<bar>" using assms(2) by linarith
  then have e: "binade (emin fmt) (emax fmt) \<bar>x\<bar> = emax fmt" by (subst binade.simps) simp
  define u where "u = pow2 (binade (emin fmt) (emax fmt) \<bar>x\<bar> - int (precision fmt) + 1)"
  define y where "y = of_int (round_even (x / u)) * u"
  have r: "round_to fmt x = (if pow2 (emax fmt + 1) \<le> \<bar>y\<bar> then if 0 < x then PInf else NInf else Fin y)"
    unfolding round_to_def Let_def y_def u_def by (rule refl)
  have ue: "u = pow2 (emax fmt - int (precision fmt) + 1)" unfolding u_def e by (rule refl)
  have u: "0 < u" by (simp add: u_def pow2_pos)
  have "pow2 (emax fmt + 1) = pow2 (int (precision fmt) + (emax fmt - int (precision fmt) + 1))"
    by (simp add: algebra_simps)
  also have "\<dots> = of_int (2 ^ precision fmt) * u"
    unfolding pow2_add ue by (simp add: pow2_def)
  finally have p: "pow2 (emax fmt + 1) = of_int (2 ^ precision fmt) * u" .
  have "of_int (2 ^ precision fmt) \<le> x / u" using assms(2) u unfolding p by (simp add: pos_le_divide_eq)
  then have "2 ^ precision fmt \<le> round_even (x / u)" by (rule round_even_ge)
  then have "(of_int (2 ^ precision fmt) :: real) \<le> of_int (round_even (x / u))"
    by (simp only: of_int_le_iff)
  then have "of_int (2 ^ precision fmt) * u \<le> of_int (round_even (x / u)) * u"
    using u by (simp only: mult_le_cancel_right) simp
  then have "pow2 (emax fmt + 1) \<le> \<bar>y\<bar>" unfolding p y_def by linarith
  then show ?thesis using x unfolding r by simp
qed

lemma round_to_bound:
  assumes "1 \<le> precision fmt" "emin fmt \<le> k" "k \<le> emax fmt" "\<bar>x\<bar> \<le> pow2 k"
  shows "\<exists>y. round_to fmt x = Fin y \<and> \<bar>y\<bar> \<le> pow2 k \<and> (0 \<le> x \<longrightarrow> 0 \<le> y) \<and> (x \<le> 0 \<longrightarrow> y \<le> 0)"
proof -
  define e where "e = binade (emin fmt) (emax fmt) \<bar>x\<bar>"
  define u where "u = pow2 (e - int (precision fmt) + 1)"
  define n where "n = round_even (x / u)"
  define y where "y = of_int n * u"
  have u: "0 < u" by (simp add: u_def pow2_pos)
  have ek: "e \<le> k"
  proof (cases "emin fmt < e")
    case True
    then have "pow2 e \<le> \<bar>x\<bar>" unfolding e_def by (rule binade_lower)
    then have "\<not> pow2 k < pow2 e" using assms(4) by linarith
    then show ?thesis by (simp add: pow2_less_iff)
  next
    case False
    then show ?thesis using assms(2) by simp
  qed
  define m where "m = nat (k - e + int (precision fmt) - 1)"
  have "pow2 k = pow2 ((k - e + int (precision fmt) - 1) + (e - int (precision fmt) + 1))"
    by (simp add: algebra_simps)
  also have "\<dots> = of_int (2 ^ m) * u"
    unfolding pow2_add u_def m_def using ek assms(1) by (simp add: pow2_def)
  finally have p: "pow2 k = of_int (2 ^ m) * u" .
  have "x \<le> of_int (2 ^ m) * u" "- (of_int (2 ^ m) * u) \<le> x"
    using assms(4) unfolding p by linarith+
  then have q: "x / u \<le> of_int (2 ^ m)" "of_int (- (2 ^ m)) \<le> x / u"
    using u by (simp_all add: pos_divide_le_eq pos_le_divide_eq)
  have n: "n \<le> 2 ^ m" "- (2 ^ m) \<le> n"
    unfolding n_def using round_even_le[OF q(1)] round_even_ge[OF q(2)] by simp_all
  then have "\<bar>n\<bar> \<le> 2 ^ m" by simp
  then have "\<bar>(of_int n :: real)\<bar> \<le> of_int (2 ^ m)" by (simp only: of_int_abs[symmetric] of_int_le_iff)
  then have "\<bar>of_int n :: real\<bar> * u \<le> of_int (2 ^ m) * u" using u by (simp only: mult_le_cancel_right) simp
  then have yb: "\<bar>y\<bar> \<le> pow2 k" unfolding p y_def using u by (simp add: abs_mult)
  have "pow2 k < pow2 (emax fmt + 1)" using assms(3) by (simp add: pow2_less_iff)
  then have fin: "\<not> pow2 (emax fmt + 1) \<le> \<bar>y\<bar>" using yb by linarith
  have "round_to fmt x = (if pow2 (emax fmt + 1) \<le> \<bar>y\<bar> then if 0 < x then PInf else NInf else Fin y)"
    unfolding round_to_def Let_def y_def n_def u_def e_def by (rule refl)
  then have r: "round_to fmt x = Fin y" using fin by simp
  have pos: "0 \<le> y" if "0 \<le> x"
  proof -
    have "of_int 0 \<le> x / u" using that u by simp
    then have "0 \<le> n" unfolding n_def by (rule round_even_ge)
    then show ?thesis using u by (simp add: y_def)
  qed
  have neg: "y \<le> 0" if "x \<le> 0"
  proof -
    have "x / u \<le> of_int 0" using that u by (simp add: divide_le_0_iff)
    then have "n \<le> 0" unfolding n_def by (rule round_even_le)
    then show ?thesis using u by (simp add: y_def mult_le_0_iff)
  qed
  show ?thesis using r yb pos neg by blast
qed

lemma round_to_lower:
  assumes "1 \<le> precision fmt" "emin fmt \<le> k" "k \<le> emax fmt" "pow2 k \<le> x"
  shows "round_to fmt x = PInf \<or> (\<exists>y. round_to fmt x = Fin y \<and> pow2 k \<le> y)"
proof -
  define e where "e = binade (emin fmt) (emax fmt) \<bar>x\<bar>"
  define u where "u = pow2 (e - int (precision fmt) + 1)"
  define n where "n = round_even (x / u)"
  define y where "y = of_int n * u"
  have u: "0 < u" by (simp add: u_def pow2_pos)
  have x: "0 < x" "\<bar>x\<bar> = x" using assms(4) pow2_pos[of k] by linarith+
  have lh: "emin fmt \<le> emax fmt" using assms by simp
  have ke: "k \<le> e"
  proof (cases "e < emax fmt")
    case True
    then have "\<bar>x\<bar> < pow2 (e + 1)" unfolding e_def using binade_upper[OF lh] by simp
    then have "pow2 k < pow2 (e + 1)" using assms(4) x by linarith
    then show ?thesis by (simp add: pow2_less_iff)
  next
    case False
    then have "e = emax fmt" using binade_bounds[OF lh, of "\<bar>x\<bar>"] by (simp add: e_def)
    then show ?thesis using assms(3) by simp
  qed
  have ex: "pow2 e \<le> x"
  proof (cases "emin fmt < e")
    case True
    then have "pow2 e \<le> \<bar>x\<bar>" unfolding e_def by (rule binade_lower)
    then show ?thesis using x by simp
  next
    case False
    then have "e = k" using ke assms(2) by simp
    then show ?thesis using assms(4) by simp
  qed
  define m where "m = precision fmt - 1"
  have "pow2 e = pow2 (int m + (e - int (precision fmt) + 1))"
    using assms(1) by (simp add: m_def algebra_simps)
  also have "\<dots> = of_int (2 ^ m) * u" unfolding pow2_add u_def by (simp add: pow2_def)
  finally have p: "pow2 e = of_int (2 ^ m) * u" .
  have "of_int (2 ^ m) \<le> x / u" using ex u unfolding p by (simp add: pos_le_divide_eq)
  then have "2 ^ m \<le> n" unfolding n_def by (rule round_even_ge)
  then have "(of_int (2 ^ m) :: real) \<le> of_int n" by (simp only: of_int_le_iff)
  then have "of_int (2 ^ m) * u \<le> of_int n * u" using u by (simp only: mult_le_cancel_right) simp
  then have "pow2 e \<le> y" unfolding p y_def .
  moreover have "pow2 k \<le> pow2 e" using ke by (rule pow2_mono)
  ultimately have yk: "pow2 k \<le> y" by linarith
  have "round_to fmt x = (if pow2 (emax fmt + 1) \<le> \<bar>y\<bar> then if 0 < x then PInf else NInf else Fin y)"
    unfolding round_to_def Let_def y_def n_def u_def e_def by (rule refl)
  then have r: "round_to fmt x = (if pow2 (emax fmt + 1) \<le> \<bar>y\<bar> then PInf else Fin y)"
    using x by simp
  show ?thesis using r yk by auto
qed

lemma round_to_nonneg:
  assumes "0 \<le> x"
  shows "round_to fmt x = PInf \<or> (\<exists>y. round_to fmt x = Fin y \<and> 0 \<le> y)"
proof (cases "x = 0")
  case True
  then show ?thesis by (simp add: round_to_zero)
next
  case False
  then have x: "0 < x" using assms by simp
  define u where "u = pow2 (binade (emin fmt) (emax fmt) \<bar>x\<bar> - int (precision fmt) + 1)"
  define y where "y = of_int (round_even (x / u)) * u"
  have r: "round_to fmt x = (if pow2 (emax fmt + 1) \<le> \<bar>y\<bar> then if 0 < x then PInf else NInf else Fin y)"
    unfolding round_to_def Let_def y_def u_def by (rule refl)
  have u: "0 < u" by (simp add: u_def pow2_pos)
  have "of_int 0 \<le> x / u" using x u by simp
  then have "0 \<le> round_even (x / u)" by (rule round_even_ge)
  then have "0 \<le> y" using u by (simp add: y_def)
  then show ?thesis using x unfolding r by simp
qed


lemma flt_nan [simp]: "flt v NaN = False"
  by (cases v) simp_all

lemma xadd_nan [simp]: "xadd v NaN = NaN"
  by (cases v) simp_all

lemma xmul_nan [simp]: "xmul v NaN = NaN"
  by (cases v) simp_all

lemma xdiv_nan [simp]: "xdiv v NaN = NaN"
  by (cases v) simp_all

lemma Clamp_float_nan: "Clamp_float NaN lo hi = NaN"
  by (simp add: Clamp_float_def)

lemma Clamp_float_range:
  assumes "v \<noteq> NaN" "lo \<le> hi"
  shows "\<exists>y. Clamp_float v (Fin lo) (Fin hi) = Fin y \<and> lo \<le> y \<and> y \<le> hi"
  using assms by (cases v) (auto simp add: Clamp_float_def)

lemma xdiv_not_nan: "v \<noteq> NaN \<Longrightarrow> b \<noteq> 0 \<Longrightarrow> xdiv v (Fin b) \<noteq> NaN"
  by (cases v) (simp_all add: fdiv_def)

lemma r32_bound:
  assumes "- 126 \<le> k" "k \<le> 127" "\<bar>x\<bar> \<le> pow2 k"
  shows "\<exists>y. round_to binary32 x = Fin y \<and> \<bar>y\<bar> \<le> pow2 k \<and> (0 \<le> x \<longrightarrow> 0 \<le> y) \<and> (x \<le> 0 \<longrightarrow> y \<le> 0)"
  using round_to_bound[of binary32 k x] assms by (simp add: binary32_def)

lemma r64_bound:
  assumes "- 1022 \<le> k" "k \<le> 1023" "\<bar>x\<bar> \<le> pow2 k"
  shows "\<exists>y. round_to binary64 x = Fin y \<and> \<bar>y\<bar> \<le> pow2 k \<and> (0 \<le> x \<longrightarrow> 0 \<le> y) \<and> (x \<le> 0 \<longrightarrow> y \<le> 0)"
  using round_to_bound[of binary64 k x] assms by (simp add: binary64_def)

lemma r32_unit:
  assumes "0 \<le> x" "x \<le> 1"
  shows "\<exists>y. round_to binary32 x = Fin y \<and> 0 \<le> y \<and> y \<le> 1"
  using r32_bound[of 0 x] assms by (auto simp add: pow2_def)

lemma r64_unit:
  assumes "0 \<le> x" "x \<le> 1"
  shows "\<exists>y. round_to binary64 x = Fin y \<and> 0 \<le> y \<and> y \<le> 1"
  using r64_bound[of 0 x] assms by (auto simp add: pow2_def)

lemma float_literal_0001: "round_to binary32 (1 / 1000) = Fin (8589935 / 8589934592)"
  by (simp add: round_to_def binary32_def binade_eq[where e = "- 10"] pow2_def round_even_def Let_def)

lemma float_M_PI: "to_float (Fin M_PI) = Fin (13176795 / 4194304)"
  by (simp add: to_float_def M_PI_def round_to_def binary32_def binade_eq[where e = 1] pow2_def
      round_even_def Let_def)

lemma sqrt32_zero: "sqrt32 (Fin 0) = Fin 0"
  by (simp add: sqrt32_def round_to_zero)


section \<open>Facts about clamping and the arc cosine\<close>

lemma Clamp_range: "lo \<le> hi \<Longrightarrow> lo \<le> Clamp x lo hi \<and> Clamp x lo hi \<le> hi"
  by (simp add: Clamp_def)



lemma Clamp_id: "lo \<le> x \<Longrightarrow> x \<le> hi \<Longrightarrow> Clamp x lo hi = x"
  by (simp add: Clamp_def)



lemma Clamp_arccos: "- 1 \<le> x \<Longrightarrow> x \<le> 1 \<Longrightarrow> Clamp (arccos x) 0 pi = arccos x"
  by (simp add: Clamp_id arccos_lbound arccos_ubound)

lemma Clamp_unit: "- 1 \<le> Clamp x (- 1) 1 \<and> Clamp x (- 1) 1 \<le> 1"
  by (simp add: Clamp_def)

lemma discCovered_unfold:
  "discCovered dst rad =
    (let xl = Clamp ((dst * dst + 1 - rad * rad) / (2 * max (1 / 1000) dst)) (- 1) 1;
         xs = Clamp ((dst - xl) / max (1 / 1000) rad) (- 1) 1
     in Clamp ((arccos xl + rad * rad * arccos xs - dst * sqrt (1 - xl * xl)) / pi) 0 1)"
proof -
  define xl where "xl = Clamp ((dst * dst + 1 - rad * rad) / (2 * max (1 / 1000) dst)) (- 1) 1"
  define xs where "xs = Clamp ((dst - xl) / max (1 / 1000) rad) (- 1) 1"
  have a: "- 1 \<le> xl" "xl \<le> 1" using Clamp_unit[of "(dst * dst + 1 - rad * rad) / (2 * max (1 / 1000) dst)"] by (simp_all add: xl_def)
  have b: "- 1 \<le> xs" "xs \<le> 1" using Clamp_unit[of "(dst - xl) / max (1 / 1000) rad"] by (simp_all add: xs_def)
  have "xl * xl \<le> 1" using a abs_square_le_1[of xl] by (simp add: abs_le_iff power2_eq_square)
  then have c: "max 0 (1 - xl * xl) = 1 - xl * xl" by simp
  show ?thesis
    unfolding discCovered_def Let_def xl_def[symmetric] xs_def[symmetric] c
    using a b by (simp add: Clamp_arccos)
qed

section \<open>Degenerate disc configurations\<close>




lemma Clamp_above: "a < x \<Longrightarrow> a < hi \<Longrightarrow> lo \<le> a \<Longrightarrow> a < Clamp x lo hi"
  by (simp add: Clamp_def)


lemma discCovered_touching_small:
  assumes "0 < rad" "rad < 1 / 1000" "1 + rad \<le> dst" "dst < 1001 / 1000"
  shows "0 < discCovered dst rad"
proof -
  define xl where "xl = Clamp ((dst * dst + 1 - rad * rad) / (2 * max (1 / 1000) dst)) (- 1) 1"
  define xs where "xs = Clamp ((dst - xl) / max (1 / 1000) rad) (- 1) 1"
  have d1: "1 \<le> dst" using assms by simp
  have md: "max (1 / 1000) dst = dst" using d1 by simp
  have "rad * rad \<le> (dst - 1) * (dst - 1)"
    using assms by (simp add: mult_mono)
  then have "2 * dst \<le> dst * dst + 1 - rad * rad"
    by (simp add: algebra_simps)
  then have "1 \<le> (dst * dst + 1 - rad * rad) / (2 * dst)"
    using d1 by (simp add: field_simps)
  then have xl_eq: "xl = 1"
    by (simp add: xl_def md Clamp_def)
  have mr: "max (1 / 1000) rad = 1 / 1000" using assms by simp
  have xs_b: "0 \<le> xs" "xs < 1"
    using assms d1 by (simp_all add: xs_def xl_eq mr Clamp_def)
  have "0 < arccos xs"
    using arccos_lt_bounded[of xs] xs_b by simp
  then have "0 < rad * rad * arccos xs" using assms(1) by simp
  then have "0 < (arccos xl + rad * rad * arccos xs - dst * sqrt (1 - xl * xl)) / pi"
    by (simp add: xl_eq)
  then have "0 < Clamp ((arccos xl + rad * rad * arccos xs - dst * sqrt (1 - xl * xl)) / pi) 0 1"
    by (intro Clamp_above) simp_all
  then show ?thesis
    unfolding discCovered_unfold Let_def xl_def[symmetric] xs_def[symmetric] .
qed





section \<open>The order of the draw list\<close>

lemma sort_BodyAttrs_key:
  "sort_BodyAttrs env a b =
     (if drawLast env a = drawLast env b then camDist b < camDist a else drawLast env b)"
  by (auto simp: sort_BodyAttrs_def drawLast_def)

lemma list_insert_set: "set (list_insert lt x ys) = insert x (set ys)"
  by (induction ys) auto

lemma list_insert_sorted:
  assumes asym: "\<forall>x y. lt x y \<longrightarrow> \<not> lt y x"
    and negtrans: "\<forall>x y z. \<not> lt y x \<longrightarrow> \<not> lt z y \<longrightarrow> \<not> lt z x"
  shows "sorted_wrt (\<lambda>x y. \<not> lt y x) ys \<Longrightarrow> sorted_wrt (\<lambda>x y. \<not> lt y x) (list_insert lt x ys)"
proof (induction ys)
  case Nil
  then show ?case by simp
next
  case (Cons y ys)
  have tl: "sorted_wrt (\<lambda>x y. \<not> lt y x) ys" and hd: "\<forall>z\<in>set ys. \<not> lt z y"
    using Cons.prems by simp_all
  show ?case
  proof (cases "lt y x")
    case True
    then have "\<not> lt x y" using asym by blast
    then have "\<forall>z\<in>set (list_insert lt x ys). \<not> lt z y"
      using hd by (simp add: list_insert_set)
    moreover have "sorted_wrt (\<lambda>x y. \<not> lt y x) (list_insert lt x ys)"
      using Cons.IH tl by blast
    ultimately show ?thesis using True by simp
  next
    case False
    have "\<forall>z\<in>set ys. \<not> lt z x"
    proof
      fix z assume "z \<in> set ys"
      then have "\<not> lt z y" using hd by blast
      with False show "\<not> lt z x" using negtrans by blast
    qed
    with False tl hd show ?thesis by simp
  qed
qed

lemma list_sort_sorted:
  assumes "\<forall>x y. lt x y \<longrightarrow> \<not> lt y x"
    and "\<forall>x y z. \<not> lt y x \<longrightarrow> \<not> lt z y \<longrightarrow> \<not> lt z x"
  shows "sorted_wrt (\<lambda>x y. \<not> lt y x) (list_sort lt xs)"
proof (induction xs)
  case Nil
  then show ?case by simp
next
  case (Cons x xs)
  then have "sorted_wrt (\<lambda>x y. \<not> lt y x) (list_insert lt x (list_sort lt xs))"
    by (rule list_insert_sorted[OF assms])
  then show ?case by simp
qed

lemma list_insert_mset: "mset (list_insert lt x ys) = add_mset x (mset ys)"
  by (induction ys) auto

lemma list_sort_mset: "mset (list_sort lt xs) = mset xs"
  by (induction xs) (auto simp: list_insert_mset)

lemma sort_BodyAttrs_asym: "sort_BodyAttrs env a b \<Longrightarrow> \<not> sort_BodyAttrs env b a"
  by (cases "drawLast env a"; cases "drawLast env b"; simp add: sort_BodyAttrs_key)

lemma sort_BodyAttrs_trans:
  "sort_BodyAttrs env a b \<Longrightarrow> sort_BodyAttrs env b c \<Longrightarrow> sort_BodyAttrs env a c"
  by (cases "drawLast env a"; cases "drawLast env b"; cases "drawLast env c";
      simp add: sort_BodyAttrs_key)

lemma sort_BodyAttrs_negtrans:
  "\<not> sort_BodyAttrs env a b \<Longrightarrow> \<not> sort_BodyAttrs env b c \<Longrightarrow> \<not> sort_BodyAttrs env a c"
  by (cases "drawLast env a"; cases "drawLast env b"; cases "drawLast env c";
      simp add: sort_BodyAttrs_key)

lemma Update_sorted:
  "sorted_wrt (\<lambda>x y. \<not> sort_BodyAttrs env y x) (m_sortedBodies (Update env fresh cam))"
proof -
  have 1: "\<forall>x y. sort_BodyAttrs env x y \<longrightarrow> \<not> sort_BodyAttrs env y x"
    using sort_BodyAttrs_asym by blast
  have 2: "\<forall>x y z. \<not> sort_BodyAttrs env y x \<longrightarrow> \<not> sort_BodyAttrs env z y \<longrightarrow> \<not> sort_BodyAttrs env z x"
    using sort_BodyAttrs_negtrans by blast
  show ?thesis
    unfolding Update_def using list_sort_sorted[OF 1 2] by simp
qed

text \<open>
  Claim C5. Of two entries that are both flagged draw-last, or both not, the one farther from
  the camera sorts first; a draw-last entry never sorts before an entry that is not draw-last,
  which sorts before it, whatever the distances. The comparator is irreflexive and transitive,
  and so is its complement's converse (a strict weak order), and the list that
  \<^verbatim>\<open>Camera::Update\<close> leaves is sorted by it.
\<close>

theorem sort_BodyAttrs_order:
  "(\<not> drawLast env a \<and> \<not> drawLast env b \<longrightarrow> sort_BodyAttrs env a b = (camDist b < camDist a)) \<and>
   (drawLast env a \<and> drawLast env b \<longrightarrow> sort_BodyAttrs env a b = (camDist b < camDist a)) \<and>
   (drawLast env a \<and> \<not> drawLast env b \<longrightarrow> \<not> sort_BodyAttrs env a b \<and> sort_BodyAttrs env b a) \<and>
   \<not> sort_BodyAttrs env a a \<and>
   (sort_BodyAttrs env a b \<and> sort_BodyAttrs env b c \<longrightarrow> sort_BodyAttrs env a c) \<and>
   (\<not> sort_BodyAttrs env a b \<and> \<not> sort_BodyAttrs env b c \<longrightarrow> \<not> sort_BodyAttrs env a c) \<and>
   sorted_wrt (\<lambda>x y. \<not> sort_BodyAttrs env y x) (m_sortedBodies (Update env fresh cam))"
proof (intro conjI impI)
  show "sort_BodyAttrs env a b = (camDist b < camDist a)" if "\<not> drawLast env a \<and> \<not> drawLast env b"
    using that by (simp add: sort_BodyAttrs_key)
  show "sort_BodyAttrs env a b = (camDist b < camDist a)" if "drawLast env a \<and> drawLast env b"
    using that by (simp add: sort_BodyAttrs_key)
  show "\<not> sort_BodyAttrs env a b" if "drawLast env a \<and> \<not> drawLast env b"
    using that by (simp add: sort_BodyAttrs_key)
  show "sort_BodyAttrs env b a" if "drawLast env a \<and> \<not> drawLast env b"
    using that by (simp add: sort_BodyAttrs_key)
  show "\<not> sort_BodyAttrs env a a"
    by (simp add: sort_BodyAttrs_key)
  show "sort_BodyAttrs env a c" if "sort_BodyAttrs env a b \<and> sort_BodyAttrs env b c"
    using that sort_BodyAttrs_trans by blast
  show "\<not> sort_BodyAttrs env a c" if "\<not> sort_BodyAttrs env a b \<and> \<not> sort_BodyAttrs env b c"
    using that sort_BodyAttrs_negtrans by blast
  show "sorted_wrt (\<lambda>x y. \<not> sort_BodyAttrs env y x) (m_sortedBodies (Update env fresh cam))"
    by (rule Update_sorted)
qed

text \<open>Entries at distances 10 and 5, with and without the draw-last bit.\<close>

theorem sort_BodyAttrs_order_witness:
  "sort_BodyAttrs sample_env (sample_attrs\<lparr>camDist := 10\<rparr>) (sample_attrs\<lparr>camDist := 5\<rparr>) \<and>
   sort_BodyAttrs sample_env (sample_attrs\<lparr>camDist := 10, bodyFlags := 4\<rparr>)
     (sample_attrs\<lparr>camDist := 5, bodyFlags := 5\<rparr>) \<and>
   \<not> sort_BodyAttrs sample_env (sample_attrs\<lparr>camDist := 10, bodyFlags := 4\<rparr>)
     (sample_attrs\<lparr>camDist := 5\<rparr>) \<and>
   sort_BodyAttrs sample_env (sample_attrs\<lparr>camDist := 5\<rparr>)
     (sample_attrs\<lparr>camDist := 10, bodyFlags := 4\<rparr>)"
proof -
  have dl: "drawLast sample_env (sample_attrs\<lparr>camDist := 10, bodyFlags := 4\<rparr>)"
    "drawLast sample_env (sample_attrs\<lparr>camDist := 5, bodyFlags := 5\<rparr>)"
    "\<not> drawLast sample_env (sample_attrs\<lparr>camDist := 10\<rparr>)"
    "\<not> drawLast sample_env (sample_attrs\<lparr>camDist := 5\<rparr>)"
    by (simp_all add: drawLast_def sample_env_def sample_attrs_def)
  note ord = sort_BodyAttrs_order[where env = sample_env]
  have 1: "sort_BodyAttrs sample_env (sample_attrs\<lparr>camDist := 10\<rparr>) (sample_attrs\<lparr>camDist := 5\<rparr>)"
    using ord[of "sample_attrs\<lparr>camDist := 10\<rparr>" "sample_attrs\<lparr>camDist := 5\<rparr>", THEN conjunct1] dl
    by (simp add: sample_attrs_def)
  have 2: "sort_BodyAttrs sample_env (sample_attrs\<lparr>camDist := 10, bodyFlags := 4\<rparr>)
     (sample_attrs\<lparr>camDist := 5, bodyFlags := 5\<rparr>)"
    using ord[of "sample_attrs\<lparr>camDist := 10, bodyFlags := 4\<rparr>"
        "sample_attrs\<lparr>camDist := 5, bodyFlags := 5\<rparr>", THEN conjunct2, THEN conjunct1] dl
    by (simp add: sample_attrs_def)
  have 3: "\<not> sort_BodyAttrs sample_env (sample_attrs\<lparr>camDist := 10, bodyFlags := 4\<rparr>)
     (sample_attrs\<lparr>camDist := 5\<rparr>) \<and>
   sort_BodyAttrs sample_env (sample_attrs\<lparr>camDist := 5\<rparr>)
     (sample_attrs\<lparr>camDist := 10, bodyFlags := 4\<rparr>)"
    using ord[of "sample_attrs\<lparr>camDist := 10, bodyFlags := 4\<rparr>"
        "sample_attrs\<lparr>camDist := 5\<rparr>", THEN conjunct2, THEN conjunct2, THEN conjunct1] dl
    by simp
  show ?thesis using 1 2 3 by simp
qed

section \<open>Classification of a body\<close>

lemma Length_axis: "Length (Vec3 0 0 z) = \<bar>z\<bar>"
  by (simp add: Length_def)

lemma Update_body_excluded:
  "flags b AND FLAG_DRAW_EXCLUDE env \<noteq> 0 \<Longrightarrow> Update_body env lights fresh b = None"
  by (simp add: Update_body_def)

lemma Update_body_culled:
  "\<not> TestPointInfinite env (viewCoordsOf env b) (clipRadius b) \<Longrightarrow> Update_body env lights fresh b = None"
  by (simp add: Update_body_def Let_def)

lemma Update_body_terrain_small:
  assumes "flags b AND FLAG_DRAW_EXCLUDE env = 0"
    and "TestPointInfinite env (viewCoordsOf env b) (clipRadius b)"
    and "isTerrainBody b" and "fless (pixSize_body env b) 8"
  shows "Update_body env lights fresh b =
    Some (fresh\<lparr>attr_body := b, viewTransform := viewTransformOf env b,
           viewCoords := viewCoordsOf env b, camDist := Length (viewCoordsOf env b),
           bodyFlags := flags b, billboard := True,
           billboardPos := TranslatePoint env (viewCoordsOf env b),
           billboardSize := fmax 1 (pixSize_body env b),
           billboardColor := billboard_tint env lights b\<rparr>)"
  using assms
  by (simp add: Update_body_def Let_def pixSize_body_def BILLBOARD_PIXEL_THRESHOLD_def)

lemma Update_body_terrain_large:
  assumes "flags b AND FLAG_DRAW_EXCLUDE env = 0"
    and "TestPointInfinite env (viewCoordsOf env b) (clipRadius b)"
    and "isTerrainBody b" and "\<not> fless (pixSize_body env b) 8"
  shows "Update_body env lights fresh b =
    Some (fresh\<lparr>attr_body := b, viewTransform := viewTransformOf env b,
           viewCoords := viewCoordsOf env b, camDist := Length (viewCoordsOf env b),
           bodyFlags := flags b, billboard := False\<rparr>)"
  using assms
  by (simp add: Update_body_def Let_def pixSize_body_def BILLBOARD_PIXEL_THRESHOLD_def)

lemma Update_body_other_small:
  assumes "flags b AND FLAG_DRAW_EXCLUDE env = 0"
    and "TestPointInfinite env (viewCoordsOf env b) (clipRadius b)"
    and "\<not> isTerrainBody b" and "fless (pixSize_body env b) 2"
  shows "Update_body env lights fresh b = None"
  using assms
  by (simp add: Update_body_def Let_def pixSize_body_def OBJECT_HIDDEN_PIXEL_THRESHOLD_def)

lemma Update_body_other_large:
  assumes "flags b AND FLAG_DRAW_EXCLUDE env = 0"
    and "TestPointInfinite env (viewCoordsOf env b) (clipRadius b)"
    and "\<not> isTerrainBody b" and "\<not> fless (pixSize_body env b) 2"
  shows "Update_body env lights fresh b =
    Some (fresh\<lparr>attr_body := b, viewTransform := viewTransformOf env b,
           viewCoords := viewCoordsOf env b, camDist := Length (viewCoordsOf env b),
           bodyFlags := flags b, billboard := False\<rparr>)"
  using assms
  by (simp add: Update_body_def Let_def pixSize_body_def OBJECT_HIDDEN_PIXEL_THRESHOLD_def)

lemma pixSize_body_eq:
  "pixSize_body env b =
     to_float (div64 (mul64 (mul64 (Fin (real_of_int (screenHeight env))) (Fin 2)) (Fin (clipRadius b)))
                     (mul64 (Fin (Length (viewCoordsOf env b))) (Fin (fovFactor env))))"
  by (simp add: pixSize_body_def pixSize_of_def)

lemma sample_products:
  "mul64 (Fin 1000) (Fin 2) = Fin 2000"
  "mul64 (Fin 2000) (Fin 1) = Fin 2000"
  "mul64 (Fin 2000) (Fin 10) = Fin 20000"
  "mul64 (Fin 2000) (Fin (4 - 1 / 2 ^ 30)) = Fin (8000 - 2000 / 2 ^ 30)"
  "mul64 (Fin 1000) (Fin 1) = Fin 1000"
  "mul64 (Fin 1010) (Fin 1) = Fin 1010"
  by (simp_all add: mul64_def round_to_def binary64_def binade_eq[where e = 9]
      binade_eq[where e = 10] binade_eq[where e = 12] binade_eq[where e = 14] pow2_def
      round_even_def Let_def)

lemma sample_quotients:
  "to_float (div64 (Fin 20000) (Fin 1000)) = Fin 20"
  "div64 (Fin 2000) (Fin 1010) = Fin (1114752383012499 / 562949953421312)"
  "to_float (Fin (1114752383012499 / 562949953421312)) = Fin (16611105 / 8388608)"
  "div64 (Fin (8000 - 2000 / 2 ^ 30)) (Fin 1000) = Fin (8 - 1 / 2 ^ 29)"
  "to_float (Fin (8 - 1 / 2 ^ 29)) = Fin 8"
  by (simp_all add: to_float_def div64_def fdiv_def round_to_def binary64_def binary32_def
      binade_eq[where e = 0] binade_eq[where e = 2] binade_eq[where e = 4] pow2_def
      round_even_def Let_def)

lemma sample_planet_view:
  "viewCoordsOf sample_env sample_planet = Vec3 0 0 1000"
  "Length (viewCoordsOf sample_env sample_planet) = 1000"
  "pixSize_body sample_env sample_planet = Fin 20"
proof -
  show v: "viewCoordsOf sample_env sample_planet = Vec3 0 0 1000"
    by (simp add: sample_env_def sample_planet_def sample_position_def vsub_def)
  show l: "Length (viewCoordsOf sample_env sample_planet) = 1000"
    unfolding v by (simp add: Length_axis)
  have "screenHeight sample_env = 1000" "fovFactor sample_env = 1" "clipRadius sample_planet = 10"
    by (simp_all add: sample_env_def sample_planet_def)
  then show "pixSize_body sample_env sample_planet = Fin 20"
    unfolding pixSize_body_eq l by (simp add: sample_products sample_quotients)
qed

lemma sample_moon_view:
  "viewCoordsOf sample_env sample_moon = Vec3 0 0 1010"
  "Length (viewCoordsOf sample_env sample_moon) = 1010"
  "pixSize_body sample_env sample_moon = Fin (16611105 / 8388608)"
proof -
  show v: "viewCoordsOf sample_env sample_moon = Vec3 0 0 1010"
    by (simp add: sample_env_def sample_moon_def sample_position_def vsub_def)
  show l: "Length (viewCoordsOf sample_env sample_moon) = 1010"
    unfolding v by (simp add: Length_axis)
  have "screenHeight sample_env = 1000" "fovFactor sample_env = 1" "clipRadius sample_moon = 1"
    by (simp_all add: sample_env_def sample_moon_def)
  then show "pixSize_body sample_env sample_moon = Fin (16611105 / 8388608)"
    unfolding pixSize_body_eq l by (simp add: sample_products sample_quotients)
qed

lemma sample_dwarf_view:
  "viewCoordsOf sample_env sample_dwarf = Vec3 0 0 1000"
  "Length (viewCoordsOf sample_env sample_dwarf) = 1000"
  "pixSize_body sample_env sample_dwarf = Fin 8"
proof -
  show v: "viewCoordsOf sample_env sample_dwarf = Vec3 0 0 1000"
    by (simp add: sample_env_def sample_dwarf_def sample_position_def vsub_def)
  show l: "Length (viewCoordsOf sample_env sample_dwarf) = 1000"
    unfolding v by (simp add: Length_axis)
  have "screenHeight sample_env = 1000" "fovFactor sample_env = 1"
      "clipRadius sample_dwarf = 4 - 1 / 2 ^ 30"
    by (simp_all add: sample_env_def sample_dwarf_def)
  then show "pixSize_body sample_env sample_dwarf = Fin 8"
    unfolding pixSize_body_eq l by (simp only: sample_products sample_quotients of_int_numeral)
qed

text \<open>
  Claim C9 as stated fails, in two ways. The size is computed from the clip radius, not the
  physical radius: the sample planet has physical radius 2 and clip radius 10; the size from
  the physical radius is 4, below 8, and the planet is not made a billboard. And the size
  that is compared is the quotient converted to \<^verbatim>\<open>float\<close>: for the sample dwarf the quotient
  is \<open>8 - 1 / 2 ^ 29\<close>, strictly below 8, its conversion is 8, and the dwarf is not made a
  billboard.
\<close>

theorem pixel_size_physical_radius_counterexample:
  "flags sample_planet AND FLAG_DRAW_EXCLUDE sample_env = 0 \<and>
   TestPointInfinite sample_env (viewCoordsOf sample_env sample_planet) (clipRadius sample_planet) \<and>
   isTerrainBody sample_planet \<and>
   real_of_int (screenHeight sample_env) * 2 * physRadius sample_planet
     / (Length (viewCoordsOf sample_env sample_planet) * fovFactor sample_env) < 8 \<and>
   map_option billboard (Update_body sample_env [] sample_attrs sample_planet) = Some False \<and>
   flags sample_dwarf AND FLAG_DRAW_EXCLUDE sample_env = 0 \<and>
   TestPointInfinite sample_env (viewCoordsOf sample_env sample_dwarf) (clipRadius sample_dwarf) \<and>
   isTerrainBody sample_dwarf \<and>
   real_of_int (screenHeight sample_env) * 2 * clipRadius sample_dwarf
     / (Length (viewCoordsOf sample_env sample_dwarf) * fovFactor sample_env) = 8 - 1 / 2 ^ 29 \<and>
   map_option billboard (Update_body sample_env [] sample_attrs sample_dwarf) = Some False"
proof -
  have a: "flags sample_planet AND FLAG_DRAW_EXCLUDE sample_env = 0"
    by (simp add: sample_planet_def sample_env_def)
  have b: "TestPointInfinite sample_env (viewCoordsOf sample_env sample_planet) (clipRadius sample_planet)"
    by (simp add: sample_env_def)
  have c: "isTerrainBody sample_planet" by (simp add: sample_planet_def)
  have d: "\<not> fless (pixSize_body sample_env sample_planet) 8"
    by (simp add: sample_planet_view)
  have e: "real_of_int (screenHeight sample_env) * 2 * physRadius sample_planet
     / (Length (viewCoordsOf sample_env sample_planet) * fovFactor sample_env) < 8"
    unfolding sample_planet_view(2) by (simp add: sample_env_def sample_planet_def)
  have a': "flags sample_dwarf AND FLAG_DRAW_EXCLUDE sample_env = 0"
    by (simp add: sample_dwarf_def sample_env_def)
  have b': "TestPointInfinite sample_env (viewCoordsOf sample_env sample_dwarf) (clipRadius sample_dwarf)"
    by (simp add: sample_env_def)
  have c': "isTerrainBody sample_dwarf" by (simp add: sample_dwarf_def)
  have d': "\<not> fless (pixSize_body sample_env sample_dwarf) 8"
    by (simp add: sample_dwarf_view)
  have e': "real_of_int (screenHeight sample_env) * 2 * clipRadius sample_dwarf
     / (Length (viewCoordsOf sample_env sample_dwarf) * fovFactor sample_env) = 8 - 1 / 2 ^ 29"
    unfolding sample_dwarf_view(2) by (simp add: sample_env_def sample_dwarf_def)
  have p: "map_option billboard (Update_body sample_env [] sample_attrs sample_planet) = Some False"
    by (simp add: Update_body_terrain_large[OF a b c d])
  have q: "map_option billboard (Update_body sample_env [] sample_attrs sample_dwarf) = Some False"
    by (simp add: Update_body_terrain_large[OF a' b' c' d'])
  show ?thesis
    using a b c e p a' b' c' e' q by (simp only: simp_thms)
qed

text \<open>
  Claim C9, as the code has it. For a body that is not excluded and passes the frustum test,
  the size is \<open>screenHeight * 2 * clipRadius / (camDist * fovFactor)\<close>, computed in \<^verbatim>\<open>double\<close>
  from the clip radius and converted to \<^verbatim>\<open>float\<close>; a terrain body is a billboard exactly
  when that \<^verbatim>\<open>float\<close> is below 8; another body is dropped exactly when it is below 2 and is
  otherwise kept for full rendering; a size of exactly 8, or exactly 2, is on the side that
  is not below.
\<close>

theorem Update_body_classification:
  assumes "flags b AND FLAG_DRAW_EXCLUDE env = 0"
    and "TestPointInfinite env (viewCoordsOf env b) (clipRadius b)"
  shows
   "pixSize_body env b =
       to_float (div64 (mul64 (mul64 (Fin (real_of_int (screenHeight env))) (Fin 2)) (Fin (clipRadius b)))
                       (mul64 (Fin (Length (viewCoordsOf env b))) (Fin (fovFactor env)))) \<and>
    (isTerrainBody b \<longrightarrow>
       (\<exists>attrs. Update_body env lights fresh b = Some attrs \<and>
          billboard attrs = fless (pixSize_body env b) 8)) \<and>
    (\<not> isTerrainBody b \<longrightarrow>
       (Update_body env lights fresh b = None) = fless (pixSize_body env b) 2 \<and>
       (\<forall>attrs. Update_body env lights fresh b = Some attrs \<longrightarrow> \<not> billboard attrs)) \<and>
    (isTerrainBody b \<and> pixSize_body env b = Fin 8 \<longrightarrow>
       (\<exists>attrs. Update_body env lights fresh b = Some attrs \<and> \<not> billboard attrs)) \<and>
    (\<not> isTerrainBody b \<and> pixSize_body env b = Fin 2 \<longrightarrow>
       (\<exists>attrs. Update_body env lights fresh b = Some attrs \<and> \<not> billboard attrs))"
proof (intro conjI impI)
  show "pixSize_body env b =
       to_float (div64 (mul64 (mul64 (Fin (real_of_int (screenHeight env))) (Fin 2)) (Fin (clipRadius b)))
                       (mul64 (Fin (Length (viewCoordsOf env b))) (Fin (fovFactor env))))"
    by (rule pixSize_body_eq)
  show "\<exists>attrs. Update_body env lights fresh b = Some attrs \<and>
          billboard attrs = fless (pixSize_body env b) 8" if "isTerrainBody b"
  proof (cases "fless (pixSize_body env b) 8")
    case True
    show ?thesis using True by (simp add: Update_body_terrain_small[OF assms that True])
  next
    case False
    show ?thesis using False by (simp add: Update_body_terrain_large[OF assms that False])
  qed
  show "(Update_body env lights fresh b = None) = fless (pixSize_body env b) 2"
    if "\<not> isTerrainBody b"
  proof (cases "fless (pixSize_body env b) 2")
    case True
    show ?thesis using True by (simp add: Update_body_other_small[OF assms that True])
  next
    case False
    show ?thesis using False by (simp add: Update_body_other_large[OF assms that False])
  qed
  show "\<forall>attrs. Update_body env lights fresh b = Some attrs \<longrightarrow> \<not> billboard attrs"
    if "\<not> isTerrainBody b"
  proof (cases "fless (pixSize_body env b) 2")
    case True
    show ?thesis by (simp add: Update_body_other_small[OF assms that True])
  next
    case False
    show ?thesis by (auto simp add: Update_body_other_large[OF assms that False])
  qed
  show "\<exists>attrs. Update_body env lights fresh b = Some attrs \<and> \<not> billboard attrs"
    if h: "isTerrainBody b \<and> pixSize_body env b = Fin 8"
  proof -
    have "\<not> fless (pixSize_body env b) 8" using h by simp
    then show ?thesis using h by (simp add: Update_body_terrain_large[OF assms])
  qed
  show "\<exists>attrs. Update_body env lights fresh b = Some attrs \<and> \<not> billboard attrs"
    if h: "\<not> isTerrainBody b \<and> pixSize_body env b = Fin 2"
  proof -
    have "\<not> fless (pixSize_body env b) 2" using h by simp
    then show ?thesis using h by (simp add: Update_body_other_large[OF assms])
  qed
qed

text \<open>
  The sample planet (size 20) is rendered in full, the sample moon (size 200/101, which is
  16611105 / 8388608 as a \<^verbatim>\<open>float\<close>) is a billboard, and the sample dwarf, whose size is
  converted to 8, is rendered in full.
\<close>

theorem Update_body_classification_witness:
  "pixSize_body sample_env sample_planet = Fin 20 \<and>
   map_option billboard (Update_body sample_env [sample_light] sample_attrs sample_planet) = Some False \<and>
   pixSize_body sample_env sample_moon = Fin (16611105 / 8388608) \<and>
   map_option billboard (Update_body sample_env [sample_light] sample_attrs sample_moon) = Some True \<and>
   pixSize_body sample_env sample_dwarf = Fin 8 \<and>
   map_option billboard (Update_body sample_env [sample_light] sample_attrs sample_dwarf) = Some False"
proof -
  have pa: "flags sample_planet AND FLAG_DRAW_EXCLUDE sample_env = 0"
    by (simp add: sample_planet_def sample_env_def)
  have pb: "TestPointInfinite sample_env (viewCoordsOf sample_env sample_planet) (clipRadius sample_planet)"
    by (simp add: sample_env_def)
  have ma: "flags sample_moon AND FLAG_DRAW_EXCLUDE sample_env = 0"
    by (simp add: sample_moon_def sample_env_def)
  have mb: "TestPointInfinite sample_env (viewCoordsOf sample_env sample_moon) (clipRadius sample_moon)"
    by (simp add: sample_env_def)
  have da: "flags sample_dwarf AND FLAG_DRAW_EXCLUDE sample_env = 0"
    by (simp add: sample_dwarf_def sample_env_def)
  have db: "TestPointInfinite sample_env (viewCoordsOf sample_env sample_dwarf) (clipRadius sample_dwarf)"
    by (simp add: sample_env_def)
  have t: "isTerrainBody sample_planet" "isTerrainBody sample_moon" "isTerrainBody sample_dwarf"
    by (simp_all add: sample_planet_def sample_moon_def sample_dwarf_def)
  note p = Update_body_classification[OF pa pb, of "[sample_light]" sample_attrs]
  note m = Update_body_classification[OF ma mb, of "[sample_light]" sample_attrs]
  note d = Update_body_classification[OF da db, of "[sample_light]" sample_attrs]
  have 1: "map_option billboard (Update_body sample_env [sample_light] sample_attrs sample_planet) = Some False"
    using p[THEN conjunct2, THEN conjunct1] t by (auto simp: sample_planet_view)
  have 2: "map_option billboard (Update_body sample_env [sample_light] sample_attrs sample_moon) = Some True"
    using m[THEN conjunct2, THEN conjunct1] t by (auto simp: sample_moon_view)
  have 3: "map_option billboard (Update_body sample_env [sample_light] sample_attrs sample_dwarf) = Some False"
    using d[THEN conjunct2, THEN conjunct2, THEN conjunct2, THEN conjunct1] t
    by (auto simp: sample_dwarf_view)
  show ?thesis using 1 2 3 by (simp add: sample_planet_view sample_moon_view sample_dwarf_view)
qed

lemma fmax_floor:
  "fless v t \<Longrightarrow> \<exists>s. fmax 1 v = Fin s \<and> 1 \<le> s"
  by (cases v) simp_all

lemma billboard_tint_alpha: "col_a (billboard_tint env lights b) = 255"
  by (simp add: billboard_tint_def Let_def)

text \<open>
  Claim C10. A body that becomes a billboard gets the size \<^verbatim>\<open>std::max(1.0f, pixSize)\<close>, which
  is at least 1; its colour is the star colour for a star, and otherwise the albedo for a
  planet and white for anything else, multiplied by the diffuse colour of the first light
  when there is a light; the alpha of the result is 255.
\<close>

theorem billboard_attributes:
  assumes "flags b AND FLAG_DRAW_EXCLUDE env = 0"
    and "TestPointInfinite env (viewCoordsOf env b) (clipRadius b)"
    and "isTerrainBody b" and "fless (pixSize_body env b) 8"
  shows "\<exists>attrs. Update_body env lights fresh b = Some attrs \<and> billboard attrs \<and>
     billboardSize attrs = fmax 1 (pixSize_body env b) \<and>
     (\<exists>s. billboardSize attrs = Fin s \<and> 1 \<le> s) \<and>
     (isStar b \<longrightarrow>
        billboardColor attrs = (starRealColors env (sb_type (systemBody b)))\<lparr>col_a := 255\<rparr>) \<and>
     (\<not> isStar b \<and> lights = [] \<longrightarrow>
        billboardColor attrs =
          (if isPlanet b then sb_albedo (systemBody b) else Color_WHITE)\<lparr>col_a := 255\<rparr>) \<and>
     (\<not> isStar b \<and> lights \<noteq> [] \<longrightarrow>
        billboardColor attrs =
          (color_mul env (if isPlanet b then sb_albedo (systemBody b) else Color_WHITE)
             (light_diffuse (ls_light (hd lights))))\<lparr>col_a := 255\<rparr>) \<and>
     col_a (billboardColor attrs) = 255"
proof -
  obtain s where s: "fmax 1 (pixSize_body env b) = Fin s" "1 \<le> s"
    using fmax_floor[OF assms(4)] by blast
  have star: "isStar b \<Longrightarrow>
      billboard_tint env lights b = (starRealColors env (sb_type (systemBody b)))\<lparr>col_a := 255\<rparr>"
    by (simp add: billboard_tint_def)
  have dark: "\<not> isStar b \<and> lights = [] \<Longrightarrow>
      billboard_tint env lights b =
        (if isPlanet b then sb_albedo (systemBody b) else Color_WHITE)\<lparr>col_a := 255\<rparr>"
    by (simp add: billboard_tint_def)
  have lit: "\<not> isStar b \<and> lights \<noteq> [] \<Longrightarrow>
      billboard_tint env lights b =
        (color_mul env (if isPlanet b then sb_albedo (systemBody b) else Color_WHITE)
           (light_diffuse (ls_light (hd lights))))\<lparr>col_a := 255\<rparr>"
    by (simp add: billboard_tint_def)
  show ?thesis
    unfolding Update_body_terrain_small[OF assms]
    using s star dark lit by (simp add: billboard_tint_alpha)
qed

text \<open>The sample moon, lit by the sample star.\<close>

theorem billboard_attributes_witness:
  "map_option billboard (Update_body sample_env [sample_light] sample_attrs sample_moon) = Some True \<and>
   map_option billboardSize (Update_body sample_env [sample_light] sample_attrs sample_moon)
     = Some (Fin (16611105 / 8388608)) \<and>
   map_option billboardColor (Update_body sample_env [sample_light] sample_attrs sample_moon)
     = Some \<lparr>col_r = 255, col_g = 102, col_b = 40, col_a = 255\<rparr>"
proof -
  have a: "flags sample_moon AND FLAG_DRAW_EXCLUDE sample_env = 0"
    by (simp add: sample_moon_def sample_env_def)
  have b: "TestPointInfinite sample_env (viewCoordsOf sample_env sample_moon) (clipRadius sample_moon)"
    by (simp add: sample_env_def)
  have c: "isTerrainBody sample_moon" by (simp add: sample_moon_def)
  have d: "fless (pixSize_body sample_env sample_moon) 8"
    by (simp add: sample_moon_view)
  have e: "\<not> isStar sample_moon" "isPlanet sample_moon" by (simp_all add: sample_moon_def)
  have f: "color_mul sample_env (sb_albedo (systemBody sample_moon))
             (light_diffuse (ls_light sample_light))
           = \<lparr>col_r = 255, col_g = 102, col_b = 40, col_a = 0\<rparr>"
    by (simp add: sample_env_def sample_moon_def sample_light_def sample_color_mul_def)
  obtain attrs where at:
      "Update_body sample_env [sample_light] sample_attrs sample_moon = Some attrs"
      "billboard attrs"
      "billboardSize attrs = fmax 1 (pixSize_body sample_env sample_moon)"
      "billboardColor attrs =
        (color_mul sample_env (sb_albedo (systemBody sample_moon))
           (light_diffuse (ls_light (hd [sample_light]))))\<lparr>col_a := 255\<rparr>"
    using billboard_attributes[OF a b c d, of "[sample_light]" sample_attrs] e by auto
  show ?thesis
    using at by (simp add: f sample_moon_view)
qed


section \<open>The walk over the frames\<close>

lemma emit_light_append: "emit_light env fd lights = lights @ lights_at env fd"
  by (simp add: emit_light_def lights_at_def split: option.split)

lemma lights_at_length: "length (lights_at env fd) \<le> 1"
  by (simp add: emit_light_def lights_at_def split: option.split)

lemma lights_at_star_frame: "(lights_at env fd \<noteq> []) = star_frame fd"
  by (simp add: emit_light_def lights_at_def star_frame_def split: option.split)

lemma lights_at_body: "map ls_body (lights_at env fd) = (if star_frame fd then [fr_body fd] else [])"
  by (simp add: emit_light_def lights_at_def star_frame_def star_light_def Let_def split: option.split)

lemma take_step:
  assumes "length (ys :: 'a list) \<le> 1" "length xs \<le> 3"
  shows "(xs @ ys) @ take (4 - length (xs @ ys)) zs = xs @ take (4 - length xs) (ys @ zs)"
proof (cases ys)
  case Nil
  then show ?thesis by simp
next
  case (Cons y ys')
  then have "ys = [y]" using assms(1) by simp
  moreover have "4 - length xs = Suc (3 - length xs)" using assms(2) by simp
  ultimately show ?thesis by simp
qed

lemma take_seq:
  assumes "length (xs :: 'a list) \<le> 4"
  shows "(xs @ take (4 - length xs) ys) @ take (4 - length (xs @ take (4 - length xs) ys)) zs
         = xs @ take (4 - length xs) (ys @ zs)"
  using assms by (simp add: min_def)

lemma position_system_lights_eq:
  "length lights \<le> 4 \<Longrightarrow>
     position_system_lights env f lights
       = lights @ take (4 - length lights) (concat (map (lights_at env) (frames_of f)))"
  "length lights \<le> 4 \<Longrightarrow>
     position_system_lights_kids env kids lights
       = lights @ take (4 - length lights) (concat (map (lights_at env) (frames_of_kids kids)))"
proof (induction env f lights and env kids lights
    rule: position_system_lights_position_system_lights_kids.induct)
  case (1 env fd kids lights)
  show ?case
  proof (cases "3 < length lights")
    case True
    then have "length lights = 4" using "1.prems" by simp
    then show ?thesis by simp
  next
    case False
    have len: "length (emit_light env fd lights) \<le> 4"
      using False lights_at_length[of env fd] by (simp add: emit_light_append)
    have "position_system_lights env (Frame fd kids) lights
          = position_system_lights_kids env kids (emit_light env fd lights)"
      using False by simp
    also have "\<dots> = emit_light env fd lights
        @ take (4 - length (emit_light env fd lights)) (concat (map (lights_at env) (frames_of_kids kids)))"
      using "1.IH"[OF False len] .
    also have "\<dots> = lights @ take (4 - length lights)
        (lights_at env fd @ concat (map (lights_at env) (frames_of_kids kids)))"
      unfolding emit_light_append using take_step[OF lights_at_length, of lights] False by simp
    finally show ?thesis by simp
  qed
next
  case (2 env lights)
  then show ?case by simp
next
  case (3 env kid kids lights)
  let ?l1 = "lights @ take (4 - length lights) (concat (map (lights_at env) (frames_of kid)))"
  have a: "position_system_lights env kid lights = ?l1"
    using "3.IH"(1)[OF "3.prems"] .
  have len: "length ?l1 \<le> 4" using "3.prems" by simp
  have "position_system_lights_kids env (kid # kids) lights
        = position_system_lights_kids env kids ?l1"
    by (simp add: a)
  also have "\<dots> = ?l1 @ take (4 - length ?l1) (concat (map (lights_at env) (frames_of_kids kids)))"
    using "3.IH"(2) len a by simp
  also have "\<dots> = lights @ take (4 - length lights)
      (concat (map (lights_at env) (frames_of kid)) @ concat (map (lights_at env) (frames_of_kids kids)))"
    using take_seq[OF "3.prems"] .
  finally show ?case by simp
qed

lemma walk_log_aux:
  "\<forall>c. walk env f (fst (st :: (LightSource list \<times> (Frame \<times> nat) list)), c) = (fst (walk env f (fst st, [])), c @ snd (walk env f (fst st, [])))"
  "\<forall>c. walk_kids env kids (fst (st' :: (LightSource list \<times> (Frame \<times> nat) list)), c)
     = (fst (walk_kids env kids (fst st', [])), c @ snd (walk_kids env kids (fst st', [])))"
proof (induction env f st and env kids st' rule: walk_walk_kids.induct)
  case (1 env fd kids lights calls)
  show ?case
  proof (cases "3 < length lights")
    case True
    then show ?thesis by simp
  next
    case False
    note ih = "1.IH"[OF False, unfolded fst_conv, THEN spec]
    show ?thesis
    proof
      fix c
      have w: "\<And>c. walk env (Frame fd kids) (lights, c)
        = walk_kids env kids (emit_light env fd lights, c @ [(Frame fd kids, length lights)])"
        using False by simp
      have "walk env (Frame fd kids) (lights, c)
          = walk_kids env kids (emit_light env fd lights, c @ [(Frame fd kids, length lights)])"
        by (rule w)
      also have "\<dots> = (fst (walk_kids env kids (emit_light env fd lights, [])),
          (c @ [(Frame fd kids, length lights)]) @ snd (walk_kids env kids (emit_light env fd lights, [])))"
        by (rule ih)
      finally have lhs: "walk env (Frame fd kids) (lights, c)
          = (fst (walk_kids env kids (emit_light env fd lights, [])),
             c @ (Frame fd kids, length lights) # snd (walk_kids env kids (emit_light env fd lights, [])))"
        by simp
      have "walk env (Frame fd kids) (lights, [])
          = walk_kids env kids (emit_light env fd lights, [(Frame fd kids, length lights)])"
        using w[of "[]"] by (simp only: append_Nil)
      also have "\<dots> = (fst (walk_kids env kids (emit_light env fd lights, [])),
          [(Frame fd kids, length lights)] @ snd (walk_kids env kids (emit_light env fd lights, [])))"
        by (rule ih)
      finally have rhs: "walk env (Frame fd kids) (lights, [])
          = (fst (walk_kids env kids (emit_light env fd lights, [])),
             (Frame fd kids, length lights) # snd (walk_kids env kids (emit_light env fd lights, [])))"
        by simp
      show "walk env (Frame fd kids) (fst (lights, calls), c)
        = (fst (walk env (Frame fd kids) (fst (lights, calls), [])),
           c @ snd (walk env (Frame fd kids) (fst (lights, calls), [])))"
        by (simp only: lhs rhs fst_conv snd_conv)
    qed
  qed
next
  case (2 env st)
  then show ?case by simp
next
  case (3 env kid kids st)
  obtain l1 c1 where w1: "walk env kid (fst st, []) = (l1, c1)"
    by (cases "walk env kid (fst st, [])")
  have a: "walk env kid (fst st, c) = (l1, c @ c1)" for c
    using "3.IH"(1)[THEN spec, of c] by (simp only: w1 fst_conv snd_conv)
  have "walk env kid st = (l1, snd st @ c1)"
    using a[of "snd st"] by simp
  then have l1: "fst (walk env kid st) = l1" by simp
  have b: "walk_kids env kids (l1, c)
      = (fst (walk_kids env kids (l1, [])), c @ snd (walk_kids env kids (l1, [])))" for c
    using "3.IH"(2)[THEN spec, of c] by (simp only: l1)
  show ?case
  proof
    fix c
    have "walk_kids env (kid # kids) (fst st, c) = walk_kids env kids (l1, c @ c1)"
      by (simp only: walk.simps walk_kids.simps a)
    also have "\<dots> = (fst (walk_kids env kids (l1, [])), (c @ c1) @ snd (walk_kids env kids (l1, [])))"
      by (rule b)
    finally have lhs: "walk_kids env (kid # kids) (fst st, c)
        = (fst (walk_kids env kids (l1, [])), c @ c1 @ snd (walk_kids env kids (l1, [])))"
      by simp
    have "walk_kids env (kid # kids) (fst st, []) = walk_kids env kids (l1, c1)"
      using a[of "[]"] by (simp only: walk.simps walk_kids.simps append_Nil)
    also have "\<dots> = (fst (walk_kids env kids (l1, [])), c1 @ snd (walk_kids env kids (l1, [])))"
      by (rule b)
    finally have rhs: "walk_kids env (kid # kids) (fst st, [])
        = (fst (walk_kids env kids (l1, [])), c1 @ snd (walk_kids env kids (l1, [])))" .
    show "walk_kids env (kid # kids) (fst st, c)
      = (fst (walk_kids env (kid # kids) (fst st, [])),
         c @ snd (walk_kids env (kid # kids) (fst st, [])))"
      by (simp only: lhs rhs fst_conv snd_conv)
  qed
qed

lemma walk_log:
  "walk env f (lights, calls) = (fst (walk env f (lights, [])), calls @ snd (walk env f (lights, [])))"
  using walk_log_aux(1)[of env f "(lights, calls)", unfolded fst_conv, THEN spec, of calls] .

lemma walk_kids_log:
  "walk_kids env kids (lights, calls)
     = (fst (walk_kids env kids (lights, [])), calls @ snd (walk_kids env kids (lights, [])))"
  using walk_log_aux(2)[of env kids "(lights, calls)", unfolded fst_conv, THEN spec, of calls] .

lemma walk_lights_aux:
  "fst (walk env f st) = position_system_lights env f (fst st)"
  "fst (walk_kids env kids st') = position_system_lights_kids env kids (fst st')"
  by (induction env f st and env kids st' rule: walk_walk_kids.induct) simp_all

lemma calls_closed_append: "calls_closed xs \<Longrightarrow> calls_closed ys \<Longrightarrow> calls_closed (xs @ ys)"
  unfolding calls_closed_def by (metis Un_iff set_append)

lemma walk_closed_aux:
  "calls_closed (snd (walk env f (fst (st :: (LightSource list \<times> (Frame \<times> nat) list)), []))) \<and> (f, length (fst st)) \<in> set (snd (walk env f (fst st, [])))"
  "calls_closed (snd (walk_kids env kids (fst (st' :: (LightSource list \<times> (Frame \<times> nat) list)), []))) \<and>
     (\<forall>kid\<in>set kids. \<exists>m. (kid, m) \<in> set (snd (walk_kids env kids (fst st', []))))"
proof (induction env f st and env kids st' rule: walk_walk_kids.induct)
  case (1 env fd kids lights calls)
  show ?case
  proof (cases "3 < length lights")
    case True
    then show ?thesis by (simp add: calls_closed_def)
  next
    case False
    let ?k = "snd (walk_kids env kids (emit_light env fd lights, []))"
    have ih: "calls_closed ?k" "\<forall>kid\<in>set kids. \<exists>m. (kid, m) \<in> set ?k"
      using "1.IH"[OF False] by simp_all
    have eq: "snd (walk env (Frame fd kids) (lights, [])) = (Frame fd kids, length lights) # ?k"
      using False walk_kids_log[of env kids "emit_light env fd lights" "[(Frame fd kids, length lights)]"]
      by simp
    have "calls_closed ((Frame fd kids, length lights) # ?k)"
      unfolding calls_closed_def
    proof (intro allI impI ballI)
      fix fd' kids' n kid
      assume h: "(Frame fd' kids', n) \<in> set ((Frame fd kids, length lights) # ?k) \<and> n \<le> 3"
        and k: "kid \<in> set kids'"
      show "\<exists>m. (kid, m) \<in> set ((Frame fd kids, length lights) # ?k)"
      proof (cases "(Frame fd' kids', n) \<in> set ?k")
        case True
        then have "\<exists>m. (kid, m) \<in> set ?k"
          using ih(1) h k unfolding calls_closed_def by blast
        then show ?thesis by auto
      next
        case False
        then have "kids' = kids" using h by simp
        then have "\<exists>m. (kid, m) \<in> set ?k" using ih(2) k by blast
        then show ?thesis by auto
      qed
    qed
    then show ?thesis unfolding fst_conv eq by simp
  qed
next
  case (2 env st)
  then show ?case by (simp add: calls_closed_def)
next
  case (3 env kid kids st)
  obtain l1 c1 where w1: "walk env kid (fst st, []) = (l1, c1)"
    by (cases "walk env kid (fst st, [])")
  have a: "calls_closed c1" "(kid, length (fst st)) \<in> set c1"
    using "3.IH"(1) w1 by simp_all
  have "walk env kid (fst st, snd st) = (l1, snd st @ c1)"
    using walk_log[of env kid "fst st" "snd st"] by (simp only: w1 fst_conv snd_conv)
  then have "fst (walk env kid st) = l1" by simp
  then have b: "calls_closed (snd (walk_kids env kids (l1, [])))"
      "\<forall>k\<in>set kids. \<exists>m. (k, m) \<in> set (snd (walk_kids env kids (l1, [])))"
    using "3.IH"(2) by simp_all
  have eq: "snd (walk_kids env (kid # kids) (fst st, [])) = c1 @ snd (walk_kids env kids (l1, []))"
    using w1 walk_kids_log[of env kids l1 c1] by simp
  show ?case
    unfolding eq using a b calls_closed_append[OF a(1) b(1)] by auto
qed

lemma walk_closed: "calls_closed (snd (walk env f ([], [])))"
  using walk_closed_aux(1)[of env f "([], [])"] by simp

lemma walk_lights: "fst (walk env f ([], [])) = position_system_lights env f []"
  using walk_lights_aux(1)[of env f "([], [])"] by simp

lemma lights_body_concat:
  "map ls_body (concat (map (lights_at env) fs)) = map fr_body (filter star_frame fs)"
  by (induction fs) (simp_all add: lights_at_body)

lemma position_system_lights_distinct:
  assumes "distinct (map fr_body (filter star_frame (frames_of rootFrame)))"
  shows "distinct (map ls_body (position_system_lights env rootFrame []))"
proof -
  have "map ls_body (position_system_lights env rootFrame [])
      = take 4 (map fr_body (filter star_frame (frames_of rootFrame)))"
    using position_system_lights_eq(1)[of "[]" env rootFrame]
    by (simp add: take_map[symmetric] lights_body_concat del: take_map)
  then show ?thesis using assms by (simp add: distinct_take)
qed

lemma position_system_lights_length: "length (position_system_lights env rootFrame []) \<le> 4"
  using position_system_lights_eq(1)[of "[]" env rootFrame] by simp

lemma lights_at_rot: "fr_isRotFrame fd \<Longrightarrow> lights_at env fd = []"
  using lights_at_star_frame[of env fd] by (simp add: star_frame_def split: option.splits)

lemma Draw_lights:
  "m_lightSources (Draw env rootFrame cam) =
     (if position_system_lights env rootFrame [] = [] then [fake_light]
      else position_system_lights env rootFrame [])"
  by (simp add: Draw_def Let_def)

lemma sample_emit:
  "emit_light sample_env sample_star_frame ls = ls @ [sample_light]"
  "emit_light sample_env (sample_star_frame\<lparr>fr_isRotFrame := True\<rparr>) ls = ls"
  "emit_light sample_env sample_planet_frame ls = ls"
  "emit_light sample_env sample_root_frame ls = ls"
  by (simp_all add: emit_light_def star_light_def sample_star_frame_def sample_planet_frame_def
      sample_root_frame_def sample_planet_def sample_light_def sample_env_def Let_def
      Length_axis vscale_def)

text \<open>
  Claim C7. From the root frame and an empty list, the walk returns the lights of the first
  four frames, in walk order, that are the non-rotating frame of a star: at most four lights,
  at most one for each frame, none for a rotating frame, and so at most one for each star
  body when no two such frames belong to the same body. The loop over the children has no
  exit: a call entered with fewer than four lights calls the function on every child of its
  frame, however many lights have been found when the child's turn comes (the log of the
  instrumented walk is closed under children); a call entered with four lights returns at
  once. \<^verbatim>\<open>Camera::Draw\<close> puts the fake light, white, directional, at the origin and with no
  body, in place of an empty result, so its light list is never empty.
\<close>

theorem light_selection:
  "position_system_lights env rootFrame []
     = take 4 (concat (map (lights_at env) (frames_of rootFrame))) \<and>
   length (position_system_lights env rootFrame []) \<le> 4 \<and>
   fst (walk env rootFrame ([], [])) = position_system_lights env rootFrame [] \<and>
   calls_closed (snd (walk env rootFrame ([], []))) \<and>
   length (lights_at env fd) \<le> 1 \<and>
   (lights_at env fd \<noteq> []) = star_frame fd \<and>
   (fr_isRotFrame fd \<longrightarrow> lights_at env fd = []) \<and>
   (distinct (map fr_body (filter star_frame (frames_of rootFrame))) \<longrightarrow>
      distinct (map ls_body (position_system_lights env rootFrame []))) \<and>
   m_lightSources (Draw env rootFrame cam) \<noteq> [] \<and>
   length (m_lightSources (Draw env rootFrame cam)) \<le> 4 \<and>
   (position_system_lights env rootFrame [] = [] \<longrightarrow>
      m_lightSources (Draw env rootFrame cam) = [fake_light]) \<and>
   (position_system_lights env rootFrame [] \<noteq> [] \<longrightarrow>
      m_lightSources (Draw env rootFrame cam) = position_system_lights env rootFrame []) \<and>
   ls_body fake_light = None \<and>
   ls_light fake_light =
     \<lparr>light_type = LIGHT_DIRECTIONAL, light_position = Vec3 0 0 0,
      light_diffuse = Color_WHITE, light_specular = Color_WHITE\<rparr>"
proof (intro conjI impI)
  show "position_system_lights env rootFrame []
     = take 4 (concat (map (lights_at env) (frames_of rootFrame)))"
    using position_system_lights_eq(1)[of "[]" env rootFrame] by simp
  show "length (position_system_lights env rootFrame []) \<le> 4"
    by (rule position_system_lights_length)
  show "fst (walk env rootFrame ([], [])) = position_system_lights env rootFrame []"
    by (rule walk_lights)
  show "calls_closed (snd (walk env rootFrame ([], [])))"
    by (rule walk_closed)
  show "length (lights_at env fd) \<le> 1"
    by (rule lights_at_length)
  show "(lights_at env fd \<noteq> []) = star_frame fd"
    by (rule lights_at_star_frame)
  show "lights_at env fd = []" if "fr_isRotFrame fd"
    using that by (rule lights_at_rot)
  show "distinct (map ls_body (position_system_lights env rootFrame []))"
    if "distinct (map fr_body (filter star_frame (frames_of rootFrame)))"
    using that by (rule position_system_lights_distinct)
  show "m_lightSources (Draw env rootFrame cam) \<noteq> []"
    by (simp add: Draw_lights)
  show "length (m_lightSources (Draw env rootFrame cam)) \<le> 4"
    using position_system_lights_length[of env rootFrame] by (simp add: Draw_lights)
  show "m_lightSources (Draw env rootFrame cam) = [fake_light]"
    if "position_system_lights env rootFrame [] = []"
    using that by (simp add: Draw_lights)
  show "m_lightSources (Draw env rootFrame cam) = position_system_lights env rootFrame []"
    if "position_system_lights env rootFrame [] \<noteq> []"
    using that by (simp add: Draw_lights)
  show "ls_body fake_light = None"
    by (simp add: fake_light_def)
  show "ls_light fake_light =
     \<lparr>light_type = LIGHT_DIRECTIONAL, light_position = Vec3 0 0 0,
      light_diffuse = Color_WHITE, light_specular = Color_WHITE\<rparr>"
    by (simp add: fake_light_def)
qed

lemma sample_system_lights: "position_system_lights sample_env sample_system [] = [sample_light]"
  by (simp add: sample_system_def sample_emit)

lemma sample_cluster_walk:
  "walk sample_env sample_cluster ([], []) =
    ([sample_light, sample_light, sample_light, sample_light],
     [(sample_cluster, 0), (Frame sample_star_frame [], 0), (Frame sample_star_frame [], 1),
      (Frame sample_star_frame [], 2), (Frame sample_star_frame [], 3),
      (Frame sample_star_frame [], 4)])"
  by (simp add: sample_cluster_def sample_emit)

text \<open>
  The sample system has one light; a root frame alone gets the fake light; of five stars the
  first four give lights and the fifth is still entered, with four lights found.
\<close>

theorem light_selection_witness:
  "m_lightSources (Draw sample_env sample_system sample_camera) = [sample_light] \<and>
   m_lightSources (Draw sample_env (Frame sample_root_frame []) sample_camera) = [fake_light] \<and>
   length (position_system_lights sample_env sample_cluster []) = 4 \<and>
   (Frame sample_star_frame [], 4) \<in> set (snd (walk sample_env sample_cluster ([], []))) \<and>
   (\<exists>m. (Frame sample_planet_frame [], m) \<in> set (snd (walk sample_env sample_system ([], []))))"
proof -
  note sys = light_selection[of sample_env sample_system sample_star_frame sample_camera]
  note clu = light_selection[of sample_env sample_cluster sample_star_frame sample_camera]
  note emp = light_selection[of sample_env "Frame sample_root_frame []" sample_star_frame sample_camera]
  have 1: "m_lightSources (Draw sample_env sample_system sample_camera) = [sample_light]"
    using sys[THEN conjunct2, THEN conjunct2, THEN conjunct2, THEN conjunct2, THEN conjunct2,
      THEN conjunct2, THEN conjunct2, THEN conjunct2, THEN conjunct2, THEN conjunct2,
      THEN conjunct2, THEN conjunct1]
    by (simp add: sample_system_lights)
  have e: "position_system_lights sample_env (Frame sample_root_frame []) [] = []"
    by (simp add: sample_emit)
  have 2: "m_lightSources (Draw sample_env (Frame sample_root_frame []) sample_camera) = [fake_light]"
    using emp[THEN conjunct2, THEN conjunct2, THEN conjunct2, THEN conjunct2, THEN conjunct2,
      THEN conjunct2, THEN conjunct2, THEN conjunct2, THEN conjunct2, THEN conjunct2,
      THEN conjunct1] e
    by simp
  have 3: "length (position_system_lights sample_env sample_cluster []) = 4"
    using clu[THEN conjunct2, THEN conjunct2, THEN conjunct1, symmetric]
    by (simp add: sample_cluster_walk)
  have 4: "(Frame sample_star_frame [], 4) \<in> set (snd (walk sample_env sample_cluster ([], [])))"
    by (simp add: sample_cluster_walk)
  have closed: "calls_closed (snd (walk sample_env sample_system ([], [])))"
    using sys[THEN conjunct2, THEN conjunct2, THEN conjunct2, THEN conjunct1] .
  have star_in: "(Frame sample_star_frame
         [Frame (sample_star_frame\<lparr>fr_isRotFrame := True\<rparr>) [],
          Frame sample_planet_frame []], 0) \<in> set (snd (walk sample_env sample_system ([], [])))"
    by (simp add: sample_system_def sample_emit)
  have 5: "\<exists>m. (Frame sample_planet_frame [], m) \<in> set (snd (walk sample_env sample_system ([], [])))"
    using closed star_in unfolding calls_closed_def by fastforce
  show ?thesis using 1 2 3 4 5 by simp
qed


section \<open>When the lights are selected\<close>

lemma Update_loop_eq:
  "Update_loop env lights fresh bs acc = acc @ List.map_filter (Update_body env lights fresh) bs"
  by (induction bs arbitrary: acc) (simp_all add: List.map_filter_simps split: option.split)

lemma map_filter_member:
  "f x = Some y \<Longrightarrow> x \<in> set xs \<Longrightarrow> y \<in> set (List.map_filter f xs)"
  by (induction xs) (auto split: option.split)

lemma list_sort_set: "set (list_sort lt xs) = set xs"
  by (induction xs) (simp_all add: list_insert_set)

lemma Update_sortedBodies:
  "m_sortedBodies (Update env fresh cam) =
     list_sort (sort_BodyAttrs env)
       (List.map_filter (Update_body env (m_lightSources cam) fresh) (bodies env))"
  by (simp add: Update_def Update_loop_eq)

lemma Update_lights: "m_lightSources (Update env fresh cam) = m_lightSources cam"
  by (simp add: Update_def)

lemma Draw_sortedBodies: "m_sortedBodies (Draw env rootFrame cam) = m_sortedBodies cam"
  by (simp add: Draw_def Let_def)

lemma sample_moon_dark:
  "Update_body sample_env [] sample_attrs sample_moon = Some sample_moon_entry"
proof -
  have a: "flags sample_moon AND FLAG_DRAW_EXCLUDE sample_env = 0"
    by (simp add: sample_moon_def sample_env_def)
  have b: "TestPointInfinite sample_env (viewCoordsOf sample_env sample_moon) (clipRadius sample_moon)"
    by (simp add: sample_env_def)
  have c: "isTerrainBody sample_moon" by (simp add: sample_moon_def)
  have d: "fless (pixSize_body sample_env sample_moon) 8"
    by (simp add: sample_moon_view)
  have t: "billboard_tint sample_env [] sample_moon
      = \<lparr>col_r = 255, col_g = 102, col_b = 51, col_a = 255\<rparr>"
    by (simp add: billboard_tint_def sample_moon_def)
  have e: "viewTransformOf sample_env sample_moon = Matrix4x4d []"
     "TranslatePoint sample_env (Vec3 0 0 1010) = Vec3 0 0 1010"
     "flags sample_moon = 0"
    by (simp_all add: sample_env_def sample_moon_def)
  show ?thesis
    unfolding Update_body_terrain_small[OF a b c d] sample_moon_view t e
    by (simp add: sample_attrs_def sample_moon_entry_def Length_axis)
qed

lemma sample_moon_lit:
  "billboard_tint sample_env [sample_light] sample_moon
     = \<lparr>col_r = 255, col_g = 102, col_b = 40, col_a = 255\<rparr>"
  by (simp add: billboard_tint_def sample_moon_def sample_light_def sample_env_def
      sample_color_mul_def)

text \<open>
  Claim C8 as stated fails. From a camera that has not drawn yet, one frame (\<^verbatim>\<open>Update\<close>, then
  \<^verbatim>\<open>Draw\<close>, which consumes the list \<^verbatim>\<open>Update\<close> made) of the sample system leaves the moon's
  billboard with its plain albedo, although the light list of that frame holds the star's
  light, with which the tint would be different.
\<close>

theorem stale_lights_counterexample:
  "sample_moon_entry
     \<in> set (m_sortedBodies (Draw sample_env sample_system (Update sample_env sample_attrs sample_camera))) \<and>
   attr_body sample_moon_entry = sample_moon \<and>
   billboard sample_moon_entry \<and>
   billboardColor sample_moon_entry = \<lparr>col_r = 255, col_g = 102, col_b = 51, col_a = 255\<rparr> \<and>
   m_lightSources (Draw sample_env sample_system (Update sample_env sample_attrs sample_camera))
     = [sample_light] \<and>
   billboard_tint sample_env [sample_light] sample_moon
     = \<lparr>col_r = 255, col_g = 102, col_b = 40, col_a = 255\<rparr>"
proof -
  have "sample_moon \<in> set (bodies sample_env)"
    by (simp add: sample_env_def)
  then have "sample_moon_entry
     \<in> set (List.map_filter (Update_body sample_env [] sample_attrs) (bodies sample_env))"
    using sample_moon_dark by (rule map_filter_member[rotated])
  then have 1: "sample_moon_entry
     \<in> set (m_sortedBodies (Draw sample_env sample_system (Update sample_env sample_attrs sample_camera)))"
    by (simp add: Draw_sortedBodies Update_sortedBodies list_sort_set sample_camera_def)
  have 2: "m_lightSources (Draw sample_env sample_system (Update sample_env sample_attrs sample_camera))
     = [sample_light]"
    by (simp add: Draw_lights sample_system_lights)
  show ?thesis
    using 1 2 sample_moon_lit by (simp add: sample_moon_entry_def)
qed

text \<open>
  Claim C8, as the code has it. \<^verbatim>\<open>Camera::Update\<close> does not select lights: it leaves the
  light list as it is and classifies the bodies with the list it finds. \<^verbatim>\<open>Camera::Draw\<close>
  leaves the draw list as it is and replaces the light list by the lights of the frame tree it
  is given. So the tints of the list that a \<^verbatim>\<open>Draw\<close> consumes were computed with the lights
  of the \<^verbatim>\<open>Draw\<close> before it.
\<close>

theorem lights_of_previous_Draw:
  "m_lightSources (Update env fresh cam) = m_lightSources cam \<and>
   m_sortedBodies (Update env fresh cam) =
     list_sort (sort_BodyAttrs env)
       (List.map_filter (Update_body env (m_lightSources cam) fresh) (bodies env)) \<and>
   m_sortedBodies (Draw env rootFrame cam) = m_sortedBodies cam \<and>
   m_lightSources (Draw env rootFrame cam) =
     (if position_system_lights env rootFrame [] = [] then [fake_light]
      else position_system_lights env rootFrame []) \<and>
   m_sortedBodies (Draw env' rootFrame' (Update env' fresh (Draw env rootFrame cam))) =
     list_sort (sort_BodyAttrs env')
       (List.map_filter (Update_body env' (m_lightSources (Draw env rootFrame cam)) fresh)
          (bodies env'))"
  by (simp only: Update_lights Update_sortedBodies Draw_sortedBodies Draw_lights simp_thms)

text \<open>The sample system: no light at the first \<^verbatim>\<open>Update\<close>, the star's light at the second.\<close>

theorem lights_of_previous_Draw_witness:
  "m_lightSources (Update sample_env sample_attrs sample_camera) = [] \<and>
   m_lightSources (Draw sample_env sample_system (Update sample_env sample_attrs sample_camera))
     = [sample_light] \<and>
   m_sortedBodies (Draw sample_env sample_system
       (Update sample_env sample_attrs (Draw sample_env sample_system sample_camera))) =
     list_sort (sort_BodyAttrs sample_env)
       (List.map_filter (Update_body sample_env [sample_light] sample_attrs) (bodies sample_env))"
proof -
  note t = lights_of_previous_Draw[of sample_env sample_attrs sample_camera sample_system
      sample_env sample_system]
  note u = lights_of_previous_Draw[of sample_env sample_attrs
      "Update sample_env sample_attrs sample_camera" sample_system sample_env sample_system]
  have 1: "m_lightSources (Update sample_env sample_attrs sample_camera) = []"
    using t[THEN conjunct1] by (simp add: sample_camera_def)
  have 2: "m_lightSources (Draw sample_env sample_system (Update sample_env sample_attrs sample_camera))
     = [sample_light]"
    using u[THEN conjunct2, THEN conjunct2, THEN conjunct2, THEN conjunct1]
    by (simp add: sample_system_lights)
  have 3: "m_sortedBodies (Draw sample_env sample_system
       (Update sample_env sample_attrs (Draw sample_env sample_system sample_camera))) =
     list_sort (sort_BodyAttrs sample_env)
       (List.map_filter (Update_body sample_env [sample_light] sample_attrs) (bodies sample_env))"
    using t[THEN conjunct2, THEN conjunct2, THEN conjunct2, THEN conjunct2]
    by (simp only: Draw_lights sample_system_lights list.simps if_False)
  show ?thesis using 1 2 3 by simp
qed


section \<open>The shadows of one light\<close>

lemma CalcShadows_loop_step:
  "CalcShadows_loop env b lightBody (physRadius lightBody) (positionRelTo env lightBody b)
      (Normalized (positionRelTo env lightBody b)) (occlusion_radius b) (b2 # bs) shadowsOut
   = CalcShadows_loop env b lightBody (physRadius lightBody) (positionRelTo env lightBody b)
      (Normalized (positionRelTo env lightBody b)) (occlusion_radius b) bs
      (if eclipses env lightBody b b2 then shadowsOut @ [shadow_of env lightBody b b2]
       else shadowsOut)"
proof -
  define pd where "pd = Dot (Normalized (positionRelTo env lightBody b)) (positionRelTo env b2 b)"
  define sr where "sr = sb_radius (systemBody b2) / occlusion_radius b"
  define lr where "lr = physRadius lightBody / Length (positionRelTo env lightBody b) * pd
      / occlusion_radius b"
  define pc where "pc = vdiv (vsub (positionRelTo env b2 b)
      (vscale pd (Normalized (positionRelTo env lightBody b)))) (occlusion_radius b)"
  define q where "q = sr / lr"
  define len where "len = Length (positionRelTo env lightBody b)"
  define lpc where "lpc = Length pc"
  define go where "go = CalcShadows_loop env b lightBody (physRadius lightBody)
      (positionRelTo env lightBody b) (Normalized (positionRelTo env lightBody b))
      (occlusion_radius b) bs"
  have unfold: "CalcShadows_loop env b lightBody (physRadius lightBody) (positionRelTo env lightBody b)
      (Normalized (positionRelTo env lightBody b)) (occlusion_radius b) (b2 # bs) shadowsOut
    = (if addr b2 = addr b \<or> addr b2 = addr lightBody \<or> \<not> (isPlanet b2 \<or> isStar b2)
       then go shadowsOut
       else if pd \<le> 0 \<or> len < pd then go shadowsOut
       else if q < 1 / 100 then go shadowsOut
       else if lpc < 1 + sr + lr
         then go (shadowsOut @ [\<lparr>centre = pc, srad = sr, lrad = lr\<rparr>])
       else go shadowsOut)"
    by (simp only: CalcShadows_loop.simps Let_def pd_def sr_def lr_def pc_def go_def q_def
        len_def lpc_def)
  have sh: "shadow_of env lightBody b b2 = \<lparr>centre = pc, srad = sr, lrad = lr\<rparr>"
    by (simp only: shadow_of_def perpDist_of_def pd_def sr_def lr_def pc_def)
  have ecl: "eclipses env lightBody b b2 =
    ((isPlanet b2 \<or> isStar b2) \<and> addr b2 \<noteq> addr b \<and> addr b2 \<noteq> addr lightBody \<and>
     0 < pd \<and> pd \<le> len \<and> 1 / 100 \<le> q \<and> lpc < 1 + sr + lr)"
    unfolding eclipses_def sh
    by (simp only: Shadow.select_convs perpDist_of_def pd_def q_def len_def lpc_def)
  show ?thesis
  proof (cases "eclipses env lightBody b b2")
    case True
    then have "(isPlanet b2 \<or> isStar b2)" "addr b2 \<noteq> addr b" "addr b2 \<noteq> addr lightBody"
      "0 < pd" "pd \<le> len" "1 / 100 \<le> q" "lpc < 1 + sr + lr"
      unfolding ecl by blast+
    then have "(if addr b2 = addr b \<or> addr b2 = addr lightBody \<or> \<not> (isPlanet b2 \<or> isStar b2)
       then go shadowsOut
       else if pd \<le> 0 \<or> len < pd then go shadowsOut
       else if q < 1 / 100 then go shadowsOut
       else if lpc < 1 + sr + lr
         then go (shadowsOut @ [\<lparr>centre = pc, srad = sr, lrad = lr\<rparr>])
       else go shadowsOut) = go (shadowsOut @ [\<lparr>centre = pc, srad = sr, lrad = lr\<rparr>])"
      by simp
    then show ?thesis
      unfolding unfold go_def[symmetric] using True by (simp only: sh if_True)
  next
    case False
    then have "\<not> ((isPlanet b2 \<or> isStar b2) \<and> addr b2 \<noteq> addr b \<and> addr b2 \<noteq> addr lightBody \<and>
     0 < pd \<and> pd \<le> len \<and> 1 / 100 \<le> q \<and> lpc < 1 + sr + lr)"
      unfolding ecl .
    then have "(if addr b2 = addr b \<or> addr b2 = addr lightBody \<or> \<not> (isPlanet b2 \<or> isStar b2)
       then go shadowsOut
       else if pd \<le> 0 \<or> len < pd then go shadowsOut
       else if q < 1 / 100 then go shadowsOut
       else if lpc < 1 + sr + lr
         then go (shadowsOut @ [\<lparr>centre = pc, srad = sr, lrad = lr\<rparr>])
       else go shadowsOut) = go shadowsOut"
      by (auto simp: not_less not_le)
    then show ?thesis
      unfolding unfold go_def[symmetric] using False by (simp only: if_False)
  qed
qed

lemma CalcShadows_loop_eq:
  "CalcShadows_loop env b lightBody (physRadius lightBody) (positionRelTo env lightBody b)
      (Normalized (positionRelTo env lightBody b)) (occlusion_radius b) bs shadowsOut
   = shadowsOut @ map (shadow_of env lightBody b) (filter (eclipses env lightBody b) bs)"
proof (induction bs arbitrary: shadowsOut)
  case Nil
  then show ?case by simp
next
  case (Cons b2 bs)
  show ?case
    unfolding CalcShadows_loop_step Cons.IH by simp
qed

lemma CalcShadows_light_eq:
  "CalcShadows_light env ls b shadowsOut =
    (case ls_body ls of
       None \<Rightarrow> shadowsOut
     | Some lightBody \<Rightarrow>
         shadowsOut @ map (shadow_of env lightBody b) (filter (eclipses env lightBody b) (bodies env)))"
proof (cases "ls_body ls")
  case None
  then show ?thesis by (simp add: CalcShadows_light_def)
next
  case (Some lightBody)
  have "CalcShadows_light env ls b shadowsOut
      = CalcShadows_loop env b lightBody (physRadius lightBody) (positionRelTo env lightBody b)
          (Normalized (positionRelTo env lightBody b)) (occlusion_radius b) (bodies env) shadowsOut"
    by (simp only: CalcShadows_light_def Some option.case Let_def occlusion_radius_def)
  then show ?thesis by (simp only: CalcShadows_loop_eq Some option.case)
qed

lemma CalcShadows_light_append:
  "CalcShadows_light env ls b shadowsOut = shadowsOut @ CalcShadows_light env ls b []"
  by (simp add: CalcShadows_light_eq split: option.split)

lemma shadow_lrad_nonzero:
  assumes "eclipses env lightBody b b2" "physRadius lightBody \<noteq> 0"
    "Length (positionRelTo env lightBody b) \<noteq> 0" "occlusion_radius b \<noteq> 0"
  shows "lrad (shadow_of env lightBody b b2) \<noteq> 0"
  using assms by (simp add: eclipses_def shadow_of_def)

lemma sample_geometry:
  "positionRelTo sample_env sample_star sample_planet = Vec3 0 0 100"
  "positionRelTo sample_env sample_moon sample_planet = Vec3 0 0 10"
  "Length (Vec3 0 0 100) = 100"
  "Normalized (Vec3 0 0 100) = Vec3 0 0 1"
  "occlusion_radius sample_planet = 2"
  "physRadius sample_star = 20"
  by (simp_all add: sample_env_def sample_star_def sample_planet_def sample_moon_def
      sample_position_def vsub_def Length_axis Normalized_def vscale_def occlusion_radius_def)

lemma sample_moon_shadow:
  "perpDist_of sample_env sample_star sample_planet sample_moon = 10"
  "shadow_of sample_env sample_star sample_planet sample_moon = sample_shadow"
proof -
  show pd: "perpDist_of sample_env sample_star sample_planet sample_moon = 10"
    unfolding perpDist_of_def sample_geometry by (simp add: Dot_def)
  show "shadow_of sample_env sample_star sample_planet sample_moon = sample_shadow"
    unfolding shadow_of_def pd sample_geometry
    by (simp add: sample_shadow_def sample_moon_def vsub_def vscale_def vdiv_def)
qed

lemma sample_eclipses:
  "\<not> eclipses sample_env sample_star sample_planet sample_star"
  "\<not> eclipses sample_env sample_star sample_planet sample_planet"
  "eclipses sample_env sample_star sample_planet sample_moon"
  "\<not> eclipses sample_env sample_star sample_planet sample_ship"
  "\<not> eclipses sample_env sample_star sample_planet sample_far_star"
proof -
  have "perpDist_of sample_env sample_star sample_planet sample_far_star = 200"
    unfolding perpDist_of_def sample_geometry
    by (simp add: Dot_def sample_env_def sample_far_star_def sample_planet_def
        sample_position_def vsub_def)
  then show "\<not> eclipses sample_env sample_star sample_planet sample_far_star"
    unfolding eclipses_def sample_geometry by simp
  show "\<not> eclipses sample_env sample_star sample_planet sample_star"
    by (simp add: eclipses_def)
  show "\<not> eclipses sample_env sample_star sample_planet sample_planet"
    by (simp add: eclipses_def)
  show "\<not> eclipses sample_env sample_star sample_planet sample_ship"
    by (simp add: eclipses_def sample_ship_def)
  have "isPlanet sample_moon" "addr sample_moon \<noteq> addr sample_planet"
      "addr sample_moon \<noteq> addr sample_star"
    by (simp_all add: sample_moon_def sample_planet_def sample_star_def)
  then show "eclipses sample_env sample_star sample_planet sample_moon"
    unfolding eclipses_def sample_moon_shadow sample_geometry
    by (simp add: sample_shadow_def Length_def)
qed

lemma sample_planet_shadows:
  "map (shadow_of sample_env sample_star sample_planet)
     (filter (eclipses sample_env sample_star sample_planet) (bodies sample_env)) = [sample_shadow]"
proof -
  have "bodies sample_env = [sample_star, sample_planet, sample_moon, sample_ship, sample_far_star]"
    by (simp add: sample_env_def)
  then show ?thesis by (simp add: sample_eclipses sample_moon_shadow)
qed

lemma sample_far_geometry:
  "positionRelTo sample_env sample_far_star sample_planet = Vec3 0 0 200"
  "positionRelTo sample_env sample_star sample_planet = Vec3 0 0 100"
  "positionRelTo sample_env sample_moon sample_planet = Vec3 0 0 10"
  "Length (Vec3 0 0 200) = 200"
  "Normalized (Vec3 0 0 200) = Vec3 0 0 1"
  "occlusion_radius sample_planet = 2"
  "physRadius sample_far_star = 20"
  by (simp_all add: sample_env_def sample_star_def sample_far_star_def sample_planet_def
      sample_moon_def sample_position_def vsub_def Length_axis Normalized_def vscale_def
      occlusion_radius_def)

lemma sample_far_shadows:
  "perpDist_of sample_env sample_far_star sample_planet sample_star = 100"
  "perpDist_of sample_env sample_far_star sample_planet sample_moon = 10"
  "shadow_of sample_env sample_far_star sample_planet sample_star = sample_far_shadow_star"
  "shadow_of sample_env sample_far_star sample_planet sample_moon = sample_far_shadow_moon"
proof -
  show s: "perpDist_of sample_env sample_far_star sample_planet sample_star = 100"
    unfolding perpDist_of_def sample_far_geometry by (simp add: Dot_def)
  show m: "perpDist_of sample_env sample_far_star sample_planet sample_moon = 10"
    unfolding perpDist_of_def sample_far_geometry by (simp add: Dot_def)
  show "shadow_of sample_env sample_far_star sample_planet sample_star = sample_far_shadow_star"
    unfolding shadow_of_def s sample_far_geometry
    by (simp add: sample_far_shadow_star_def sample_star_def vsub_def vscale_def vdiv_def)
  show "shadow_of sample_env sample_far_star sample_planet sample_moon = sample_far_shadow_moon"
    unfolding shadow_of_def m sample_far_geometry
    by (simp add: sample_far_shadow_moon_def sample_moon_def vsub_def vscale_def vdiv_def)
qed

lemma sample_far_eclipses:
  "eclipses sample_env sample_far_star sample_planet sample_star"
  "\<not> eclipses sample_env sample_far_star sample_planet sample_planet"
  "eclipses sample_env sample_far_star sample_planet sample_moon"
  "\<not> eclipses sample_env sample_far_star sample_planet sample_ship"
  "\<not> eclipses sample_env sample_far_star sample_planet sample_far_star"
proof -
  show "\<not> eclipses sample_env sample_far_star sample_planet sample_planet"
    by (simp add: eclipses_def)
  show "\<not> eclipses sample_env sample_far_star sample_planet sample_far_star"
    by (simp add: eclipses_def)
  show "\<not> eclipses sample_env sample_far_star sample_planet sample_ship"
    by (simp add: eclipses_def sample_ship_def)
  have "isStar sample_star" "addr sample_star \<noteq> addr sample_planet"
      "addr sample_star \<noteq> addr sample_far_star"
    by (simp_all add: sample_star_def sample_planet_def sample_far_star_def)
  then show "eclipses sample_env sample_far_star sample_planet sample_star"
    unfolding eclipses_def sample_far_shadows sample_far_geometry
    by (simp add: sample_far_shadow_star_def Length_def)
  have "isPlanet sample_moon" "addr sample_moon \<noteq> addr sample_planet"
      "addr sample_moon \<noteq> addr sample_far_star"
    by (simp_all add: sample_moon_def sample_planet_def sample_far_star_def)
  then show "eclipses sample_env sample_far_star sample_planet sample_moon"
    unfolding eclipses_def sample_far_shadows sample_far_geometry
    by (simp add: sample_far_shadow_moon_def Length_def)
qed

lemma sample_planet_far_shadows:
  "map (shadow_of sample_env sample_far_star sample_planet)
     (filter (eclipses sample_env sample_far_star sample_planet) (bodies sample_env))
   = [sample_far_shadow_star, sample_far_shadow_moon]"
proof -
  have "bodies sample_env = [sample_star, sample_planet, sample_moon, sample_ship, sample_far_star]"
    by (simp add: sample_env_def)
  then show ?thesis by (simp add: sample_far_eclipses sample_far_shadows)
qed




section \<open>The range of the disc-occlusion model\<close>

lemma discCovered_range: "0 \<le> discCovered dst rad \<and> discCovered dst rad \<le> 1"
  unfolding discCovered_def Let_def by (rule Clamp_range) simp

lemma discCovered_divisors:
  "1 / 1000 \<le> max (1 / 1000) (dst :: real)" "0 < 2 * max (1 / 1000) (dst :: real)"
  "0 < max (1 / 1000) (rad :: real)"
  by simp_all

text \<open>
  Over the reals the result of \<^verbatim>\<open>discCovered\<close> is a fraction, whatever the arguments, and no
  divisor of the formula is zero.
\<close>

theorem discCovered_unit_interval:
  "0 \<le> discCovered dst rad \<and> discCovered dst rad \<le> 1 \<and>
   1 / 1000 \<le> max (1 / 1000) dst \<and> 0 < 2 * max (1 / 1000) dst \<and> 0 < max (1 / 1000) rad"
  using discCovered_range[of dst rad] by simp

lemma discCovered_float_overflow:
  assumes "2 ^ 64 \<le> a" "2 ^ 64 \<le> r"
  shows "discCovered_float ndebug (Fin a) (Fin r) = (if ndebug then Inr NaN else Inl AssertionFailed)"
proof -
  have sq: "round_to binary32 (x * x) = PInf" if "2 ^ 64 \<le> x" for x :: real
  proof -
    have "(2 ^ 64 :: real) * 2 ^ 64 \<le> x * x" using that by (intro mult_mono) simp_all
    then have "pow2 (emax binary32 + 1) \<le> x * x" by (simp add: pow2_def binary32_def)
    then show ?thesis by (intro round_to_overflow) (simp_all add: binary32_def)
  qed
  have radsq: "mul32 (Fin r) (Fin r) = PInf" by (simp add: mul32_def sq[OF assms(2)])
  have dd: "mul32 (Fin a) (Fin a) = PInf" by (simp add: mul32_def sq[OF assms(1)])
  have num: "sub32 (add32 PInf (Fin 1)) PInf = NaN" by (simp add: sub32_def add32_def)
  have nl: "div32 NaN v = NaN" "sub32 v NaN = NaN" "mul32 NaN v = NaN" "add32 NaN v = NaN"
      "sub32 NaN v = NaN" for v
    by (simp_all add: div32_def sub32_def mul32_def add32_def)
  have d: "sqrt32 (std_max (Fin 0) NaN) = Fin 0" by (simp add: std_max_def sqrt32_zero)
  have ac: "acosf NaN = NaN" by (simp add: acosf_def)
  show ?thesis
    unfolding discCovered_float_def Let_def radsq dd num nl Clamp_float_nan d ac
    by (simp add: is_nan_def)
qed

text \<open>
  Where no square overflows, \<^verbatim>\<open>discCovered\<close> as it is computed does what is asked of it: for
  arguments from 0 to \<open>2 ^ 63\<close> no assertion fails, with or without \<^verbatim>\<open>NDEBUG\<close>, and the result
  is a number between 0 and 1.
\<close>

theorem discCovered_float_safe:
  assumes "0 \<le> a" "a \<le> 2 ^ 63" "0 \<le> r" "r \<le> 2 ^ 63"
  shows "\<exists>v. discCovered_float ndebug (Fin a) (Fin r) = Inr (Fin v) \<and> 0 \<le> v \<and> v \<le> 1"
proof -
  have sq: "\<bar>x * x\<bar> \<le> pow2 126" if "0 \<le> x" "x \<le> 2 ^ 63" for x :: real
  proof -
    have "x * x \<le> 2 ^ 63 * 2 ^ 63" using that by (intro mult_mono) simp_all
    then show ?thesis by (simp add: pow2_def)
  qed
  obtain rs where rs: "mul32 (Fin r) (Fin r) = Fin rs" "\<bar>rs\<bar> \<le> pow2 126" "0 \<le> rs"
    using r32_bound[of 126 "r * r", OF _ _ sq[OF assms(3,4)]] by (auto simp add: mul32_def)
  obtain ds where ds: "mul32 (Fin a) (Fin a) = Fin ds" "\<bar>ds\<bar> \<le> pow2 126" "0 \<le> ds"
    using r32_bound[of 126 "a * a", OF _ _ sq[OF assms(1,2)]] by (auto simp add: mul32_def)
  have "\<bar>ds + 1\<bar> \<le> pow2 127" using ds(2,3) by (simp add: pow2_def)
  then obtain t where t: "add32 (Fin ds) (Fin 1) = Fin t" "\<bar>t\<bar> \<le> pow2 127" "0 \<le> t"
    using r32_bound[of 127 "ds + 1"] ds(3) by (auto simp add: add32_def)
  have "\<bar>t - rs\<bar> \<le> pow2 127" using t(2,3) rs(2,3) by (simp add: pow2_def)
  then obtain nm where nm: "sub32 (Fin t) (Fin rs) = Fin nm"
    using r32_bound[of 127 "t - rs"] by (auto simp add: sub32_def)
  define c where "c = (8589935 / 8589934592 :: real)"
  have lit: "round_to binary32 (1 / 1000) = Fin c" by (simp add: c_def float_literal_0001)
  have ma: "std_max (Fin c) (Fin a) = Fin (max c a)" by (simp add: std_max_def max_def)
  have mr: "std_max (Fin c) (Fin r) = Fin (max c r)" by (simp add: std_max_def max_def)
  have "\<bar>2 * max c a\<bar> \<le> pow2 64" using assms(1,2) by (simp add: pow2_def c_def)
  then obtain dn' where dn': "round_to binary32 (2 * max c a) = Fin dn'"
    using r32_bound[of 64 "2 * max c a"] by auto
  have "pow2 (- 9) \<le> 2 * max c a" by (simp add: pow2_def c_def max_def)
  then have "pow2 (- 9) \<le> dn'"
    using round_to_lower[of binary32 "- 9" "2 * max c a"] dn' by (simp add: binary32_def)
  then have dn0: "dn' \<noteq> 0" using pow2_pos[of "- 9"] by linarith
  have dn: "mul32 (Fin 2) (Fin (max c a)) = Fin dn'" by (simp add: mul32_def dn')
  have "div32 (Fin nm) (Fin dn') \<noteq> NaN"
    unfolding div32_def using dn0 by (intro rnd_not_nan xdiv_not_nan) simp_all
  then obtain xl where xl: "Clamp_float (div32 (Fin nm) (Fin dn')) (Fin (- 1)) (Fin 1) = Fin xl"
      "- 1 \<le> xl" "xl \<le> 1"
    using Clamp_float_range[of _ "- 1" 1] by fastforce
  have "sub32 (Fin a) (Fin xl) \<noteq> NaN" by (simp add: sub32_def round_to_not_nan)
  moreover have "max c r \<noteq> 0" by (simp add: c_def max_def)
  ultimately have "div32 (sub32 (Fin a) (Fin xl)) (Fin (max c r)) \<noteq> NaN"
    unfolding div32_def by (intro rnd_not_nan xdiv_not_nan)
  then obtain xs where xs:
      "Clamp_float (div32 (sub32 (Fin a) (Fin xl)) (Fin (max c r))) (Fin (- 1)) (Fin 1) = Fin xs"
      "- 1 \<le> xs" "xs \<le> 1"
    using Clamp_float_range[of _ "- 1" 1] by fastforce
  have "\<bar>xl\<bar> * \<bar>xl\<bar> \<le> 1 * 1" using xl(2,3) by (intro mult_mono) simp_all
  then have "0 \<le> xl * xl" "xl * xl \<le> 1" by simp_all
  then obtain p where p: "mul32 (Fin xl) (Fin xl) = Fin p" "0 \<le> p" "p \<le> 1"
    using r32_unit[of "xl * xl"] by (auto simp add: mul32_def)
  obtain w where w: "sub32 (Fin 1) (Fin p) = Fin w" "0 \<le> w" "w \<le> 1"
    using r32_unit[of "1 - p"] p(2,3) by (auto simp add: sub32_def)
  have mw: "std_max (Fin 0) (Fin w) = Fin w" using w(2) by (simp add: std_max_def)
  have "0 \<le> sqrt w" "sqrt w \<le> 1" using w(2,3) by simp_all
  then obtain d where d: "sqrt32 (Fin w) = Fin d" "0 \<le> d" "d \<le> 1"
    using r32_unit[of "sqrt w"] w(2) by (auto simp add: sqrt32_def)
  define pif where "pif = (13176795 / 4194304 :: real)"
  have pi: "to_float (Fin M_PI) = Fin pif" by (simp add: pif_def float_M_PI)
  have pif: "0 < pif" by (simp add: pif_def)
  have ac: "acosf (Fin x) \<noteq> NaN" if "- 1 \<le> x" "x \<le> 1" for x
    using that by (simp add: acosf_def round_to_not_nan)
  obtain th where th: "Clamp_float (acosf (Fin xl)) (Fin 0) (Fin pif) = Fin th" "0 \<le> th"
    using Clamp_float_range[OF ac[OF xl(2,3)], of 0 pif] pif by auto
  obtain th2 where th2: "Clamp_float (acosf (Fin xs)) (Fin 0) (Fin pif) = Fin th2" "0 \<le> th2"
    using Clamp_float_range[OF ac[OF xs(2,3)], of 0 pif] pif by auto
  have "0 \<le> rs * th2" using rs(3) th2(2) by simp
  then consider "mul32 (Fin rs) (Fin th2) = PInf"
    | y where "mul32 (Fin rs) (Fin th2) = Fin y" "0 \<le> y"
    using round_to_nonneg[of "rs * th2" binary32] by (auto simp add: mul32_def)
  then have s: "add32 (Fin th) (mul32 (Fin rs) (Fin th2)) = PInf
      \<or> (\<exists>z. add32 (Fin th) (mul32 (Fin rs) (Fin th2)) = Fin z)"
  proof cases
    case 1
    then show ?thesis by (simp add: add32_def)
  next
    case 2
    have "0 \<le> th + y" using th(2) 2(2) by simp
    then show ?thesis using round_to_nonneg[of "th + y" binary32] 2(1) by (auto simp add: add32_def)
  qed
  have "\<bar>a * d\<bar> \<le> pow2 63"
  proof -
    have "a * d \<le> 2 ^ 63 * 1" using assms(1,2) d(2,3) by (intro mult_mono) simp_all
    then show ?thesis using assms(1) d(2) by (simp add: pow2_def)
  qed
  then obtain z where z: "mul32 (Fin a) (Fin d) = Fin z"
    using r32_bound[of 63 "a * d"] by (auto simp add: mul32_def)
  have "sub32 (add32 (Fin th) (mul32 (Fin rs) (Fin th2))) (Fin z) \<noteq> NaN"
    using s by (auto simp add: sub32_def round_to_not_nan)
  then have "div32 (sub32 (add32 (Fin th) (mul32 (Fin rs) (Fin th2))) (Fin z)) (Fin pif) \<noteq> NaN"
    unfolding div32_def using pif by (intro rnd_not_nan xdiv_not_nan) simp_all
  then obtain v where v:
      "Clamp_float (div32 (sub32 (add32 (Fin th) (mul32 (Fin rs) (Fin th2))) (Fin z)) (Fin pif))
         (Fin 0) (Fin 1) = Fin v" "0 \<le> v" "v \<le> 1"
    using Clamp_float_range[of _ 0 1] by fastforce
  have "discCovered_float ndebug (Fin a) (Fin r) = Inr (Fin v)"
    unfolding discCovered_float_def Let_def rs(1) ds(1) t(1) nm lit ma mr dn xl(1) xs(1) p(1) w(1) mw
      d(1) pi th(1) th2(1) z v(1)
    by (simp add: is_nan_def)
  then show ?thesis using v(2,3) by blast
qed


text \<open>
  Two discs that do not meet (\<open>dist = 2\<close>, \<open>rad = 1 / 2\<close>): every step is exact and the result
  is 0.
\<close>

lemma discCovered_float_apart:
  "discCovered_float ndebug (Fin 2) (Fin (1 / 2)) = Inr (Fin 0)"
proof -
  have r: "round_to binary32 (1 / 4) = Fin (1 / 4)" "round_to binary32 4 = Fin 4"
      "round_to binary32 5 = Fin 5" "round_to binary32 (19 / 4) = Fin (19 / 4)"
      "round_to binary32 (19 / 16) = Fin (19 / 16)" "round_to binary32 1 = Fin 1"
      "round_to binary32 2 = Fin 2"
    by (simp_all add: round_to_def binary32_def binade_eq[where e = "- 2"] binade_eq[where e = 0]
        binade_eq[where e = 1] binade_eq[where e = 2] pow2_def round_even_def Let_def)
  have radsq: "mul32 (Fin (1 / 2)) (Fin (1 / 2)) = Fin (1 / 4)" by (simp add: mul32_def r)
  have num: "sub32 (add32 (mul32 (Fin 2) (Fin 2)) (Fin 1)) (Fin (1 / 4)) = Fin (19 / 4)"
    by (simp add: mul32_def add32_def sub32_def r)
  have den: "mul32 (Fin 2) (std_max (round_to binary32 (1 / 1000)) (Fin 2)) = Fin 4"
    by (simp add: float_literal_0001 std_max_def mul32_def r)
  have xl: "Clamp_float (div32 (Fin (19 / 4)) (Fin 4)) (Fin (- 1)) (Fin 1) = Fin 1"
    by (simp add: div32_def fdiv_def r Clamp_float_def)
  have xs: "Clamp_float (div32 (sub32 (Fin 2) (Fin 1)) (std_max (round_to binary32 (1 / 1000)) (Fin (1 / 2))))
              (Fin (- 1)) (Fin 1) = Fin 1"
    by (simp add: float_literal_0001 std_max_def sub32_def div32_def fdiv_def r Clamp_float_def)
  have d: "sqrt32 (std_max (Fin 0) (sub32 (Fin 1) (mul32 (Fin 1) (Fin 1)))) = Fin 0"
    by (simp add: mul32_def sub32_def r round_to_zero std_max_def sqrt32_zero)
  have th: "Clamp_float (acosf (Fin 1)) (Fin 0) (to_float (Fin M_PI)) = Fin 0"
    by (simp add: acosf_def round_to_zero float_M_PI Clamp_float_def)
  have res: "Clamp_float (div32 (sub32 (add32 (Fin 0) (mul32 (Fin (1 / 4)) (Fin 0))) (mul32 (Fin 2) (Fin 0)))
                (to_float (Fin M_PI))) (Fin 0) (Fin 1) = Fin 0"
    by (simp add: mul32_def add32_def sub32_def div32_def fdiv_def round_to_zero float_M_PI
        Clamp_float_def)
  show ?thesis
    unfolding discCovered_float_def Let_def radsq num den xl xs d th res
    by (simp add: is_nan_def)
qed

text \<open>Instances of the range: concentric discs, and the largest arguments of the range.\<close>

theorem discCovered_float_safe_witness:
  "(\<exists>v. discCovered_float False (Fin 0) (Fin (1 / 2)) = Inr (Fin v) \<and> 0 \<le> v \<and> v \<le> 1) \<and>
   (\<exists>v. discCovered_float True (Fin (2 ^ 63)) (Fin (2 ^ 63)) = Inr (Fin v) \<and> 0 \<le> v \<and> v \<le> 1)"
  using discCovered_float_safe[of 0 "1 / 2" False] discCovered_float_safe[of "2 ^ 63" "2 ^ 63" True]
  by simp

text \<open>
  Claim C1 fails for the code. \<^verbatim>\<open>1e20f\<close>, the \<^verbatim>\<open>float\<close> nearest to \<open>10 ^ 20\<close>, is not negative.
  With \<^verbatim>\<open>dist = rad = 1e20f\<close> both squares overflow to \<open>+\<infinity>\<close>, \<^verbatim>\<open>dist * dist + 1.f - radsq\<close> is
  NaN and so are \<^verbatim>\<open>xl\<close>, \<^verbatim>\<open>xs\<close>, \<^verbatim>\<open>th\<close> and \<^verbatim>\<open>th2\<close>: the assertion fails, and where it is not
  compiled the function returns NaN.
\<close>

theorem discCovered_overflow_nan:
  "round_to binary32 (10 ^ 20) = Fin 100000002004087734272 \<and>
   discCovered_float False (Fin 100000002004087734272) (Fin 100000002004087734272)
     = Inl AssertionFailed \<and>
   discCovered_float True (Fin 100000002004087734272) (Fin 100000002004087734272) = Inr NaN"
proof -
  have 1: "round_to binary32 (10 ^ 20) = Fin 100000002004087734272"
    by (simp add: round_to_def binary32_def binade_eq[where e = 66] pow2_def round_even_def Let_def)
  have 2: "(2 ^ 64 :: real) \<le> 100000002004087734272" by simp
  show ?thesis
    using 1 discCovered_float_overflow[OF 2 2, of False] discCovered_float_overflow[OF 2 2, of True]
    by simp
qed


section \<open>The intensity under eclipses\<close>

lemma ShadowedIntensity_valid:
  "0 \<le> lightNum \<Longrightarrow> nat lightNum < length (m_lightSources cam) \<Longrightarrow>
   ShadowedIntensity env cam ndebug lightNum b
     = ShadowedIntensity_loop ndebug (CalcShadows_light env (m_lightSources cam ! nat lightNum) b [])
         (Fin 1)"
  by (simp add: ShadowedIntensity_def CalcShadows_def)

lemma ShadowedIntensity_loop_step:
  "ShadowedIntensity_loop ndebug (it # rest) product =
    (case discCovered_float ndebug (dist_arg it) (rad_arg it) of
       Inl e \<Rightarrow> Inl e
     | Inr covered \<Rightarrow>
         ShadowedIntensity_loop ndebug rest (to_float (mul64 product (sub64 (Fin 1) covered))))"
  by (simp add: dist_arg_def rad_arg_def)

text \<open>
  When no assertion fails, the result is the product of the factors \<open>1 - discCovered\<close> of the
  descriptors, in their order, each product rounded.
\<close>

lemma ShadowedIntensity_loop_fold:
  assumes "\<forall>s\<in>set shadows. discCovered_float ndebug (dist_arg s) (rad_arg s) = Inr (covered s)"
  shows "ShadowedIntensity_loop ndebug shadows product =
     Inr (fold (\<lambda>s p. to_float (mul64 p (sub64 (Fin 1) (covered s)))) shadows product)"
  using assms
proof (induction shadows arbitrary: product)
  case Nil
  show ?case by simp
next
  case (Cons s shadows)
  have "discCovered_float ndebug (dist_arg s) (rad_arg s) = Inr (covered s)"
    using Cons.prems by simp
  moreover have "\<forall>s\<in>set shadows. discCovered_float ndebug (dist_arg s) (rad_arg s) = Inr (covered s)"
    using Cons.prems by simp
  ultimately show ?case
    by (simp only: ShadowedIntensity_loop_step Cons.IH sum.case fold_simps)
qed

text \<open>Without a descriptor, in particular for a light without a body, the result is exactly 1.\<close>

lemma ShadowedIntensity_no_body:
  assumes "0 \<le> lightNum" "nat lightNum < length (m_lightSources cam)"
    and "ls_body (m_lightSources cam ! nat lightNum) = None"
  shows "ShadowedIntensity env cam ndebug lightNum b = Inr (Fin 1)"
  using assms(3) by (simp add: ShadowedIntensity_valid[OF assms(1,2)] CalcShadows_light_eq)

lemma ShadowedIntensity_fake_light:
  "ShadowedIntensity env (cam\<lparr>m_lightSources := [fake_light]\<rparr>) ndebug 0 b = Inr (Fin 1)"
  by (rule ShadowedIntensity_no_body) (simp_all add: fake_light_def)

text \<open>
  Where the two arguments of every call of \<^verbatim>\<open>discCovered\<close> lie between 0 and \<open>2 ^ 63\<close>, no
  assertion fails and the result is a number between 0 and 1.
\<close>

lemma ShadowedIntensity_loop_safe:
  assumes "\<forall>s\<in>set shadows. \<exists>a r. dist_arg s = Fin a \<and> rad_arg s = Fin r \<and>
             0 \<le> a \<and> a \<le> 2 ^ 63 \<and> 0 \<le> r \<and> r \<le> 2 ^ 63"
    and "0 \<le> p" "p \<le> 1"
  shows "\<exists>v. ShadowedIntensity_loop ndebug shadows (Fin p) = Inr (Fin v) \<and> 0 \<le> v \<and> v \<le> 1"
  using assms
proof (induction shadows arbitrary: p)
  case Nil
  then show ?case by simp
next
  case (Cons s shadows)
  obtain a r where ar: "dist_arg s = Fin a" "rad_arg s = Fin r"
      "0 \<le> a" "a \<le> 2 ^ 63" "0 \<le> r" "r \<le> 2 ^ 63"
    using Cons.prems(1) by auto
  obtain c where c: "discCovered_float ndebug (Fin a) (Fin r) = Inr (Fin c)" "0 \<le> c" "c \<le> 1"
    using discCovered_float_safe[OF ar(3-6)] by blast
  obtain w where w: "sub64 (Fin 1) (Fin c) = Fin w" "0 \<le> w" "w \<le> 1"
    using r64_unit[of "1 - c"] c(2,3) by (auto simp add: sub64_def)
  have "p * w \<le> 1 * 1" using Cons.prems(2,3) w(2,3) by (intro mult_mono) simp_all
  then have "0 \<le> p * w" "p * w \<le> 1" using Cons.prems(2) w(2) by simp_all
  then obtain q where q: "mul64 (Fin p) (Fin w) = Fin q" "0 \<le> q" "q \<le> 1"
    using r64_unit[of "p * w"] by (auto simp add: mul64_def)
  obtain q' where q': "to_float (Fin q) = Fin q'" "0 \<le> q'" "q' \<le> 1"
    using r32_unit[OF q(2,3)] by (auto simp add: to_float_def)
  have rest: "\<forall>s\<in>set shadows. \<exists>a r. dist_arg s = Fin a \<and> rad_arg s = Fin r \<and>
             0 \<le> a \<and> a \<le> 2 ^ 63 \<and> 0 \<le> r \<and> r \<le> 2 ^ 63"
    using Cons.prems(1) by simp
  have "ShadowedIntensity_loop ndebug (s # shadows) (Fin p) = ShadowedIntensity_loop ndebug shadows (Fin q')"
    by (simp only: ShadowedIntensity_loop_step ar(1,2) c(1) sum.case w(1) q(1) q'(1))
  then show ?case using Cons.IH[OF rest q'(2,3)] by simp
qed

theorem ShadowedIntensity_safe:
  assumes "CalcShadows env cam lightNum b [] = Some shadows"
    and "\<forall>s\<in>set shadows. \<exists>a r. dist_arg s = Fin a \<and> rad_arg s = Fin r \<and>
             0 \<le> a \<and> a \<le> 2 ^ 63 \<and> 0 \<le> r \<and> r \<le> 2 ^ 63"
  shows "\<exists>v. ShadowedIntensity env cam ndebug lightNum b = Inr (Fin v) \<and> 0 \<le> v \<and> v \<le> 1"
  using ShadowedIntensity_loop_safe[OF assms(2), of 1 ndebug]
  by (simp add: ShadowedIntensity_def assms(1))

lemma sample_args:
  "dist_arg sample_shadow = Fin 0" "rad_arg sample_shadow = Fin (1 / 2)"
proof -
  have l: "to_float (Fin 1) = Fin 1"
    by (simp add: to_float_def round_to_def binary32_def binade_eq[where e = 0] pow2_def
        round_even_def Let_def)
  have h: "to_float (Fin (1 / 2)) = Fin (1 / 2)" "div32 (Fin (1 / 2)) (Fin 1) = Fin (1 / 2)"
    by (simp_all add: to_float_def div32_def fdiv_def round_to_def binary32_def
        binade_eq[where e = "- 1"] pow2_def round_even_def Let_def)
  have z: "to_float (div64 (Fin 0) (Fin 1)) = Fin 0"
    by (simp add: to_float_def div64_def fdiv_def round_to_zero)
  have c: "Length (centre sample_shadow) = 0" "srad sample_shadow = 1 / 2" "lrad sample_shadow = 1"
    by (simp_all add: sample_shadow_def Length_def)
  show "dist_arg sample_shadow = Fin 0" unfolding dist_arg_def c l z by (rule refl)
  show "rad_arg sample_shadow = Fin (1 / 2)" unfolding rad_arg_def c l h by (rule refl)
qed

text \<open>The sample planet in the light of the sample star, eclipsed by the sample moon.\<close>

theorem ShadowedIntensity_safe_witness:
  "\<exists>v. ShadowedIntensity sample_env sample_lit_camera False 0 sample_planet = Inr (Fin v) \<and>
       0 \<le> v \<and> v \<le> 1"
proof -
  have l: "ls_body (m_lightSources sample_lit_camera ! nat 0) = Some sample_star"
    by (simp add: sample_lit_camera_def sample_light_def)
  have cs: "CalcShadows sample_env sample_lit_camera 0 sample_planet [] = Some [sample_shadow]"
    using l by (simp add: CalcShadows_def sample_lit_camera_def CalcShadows_light_eq
        sample_planet_shadows)
  have "\<exists>a r. dist_arg sample_shadow = Fin a \<and> rad_arg sample_shadow = Fin r \<and>
             0 \<le> a \<and> a \<le> 2 ^ 63 \<and> 0 \<le> r \<and> r \<le> 2 ^ 63"
    by (rule exI[of _ 0], rule exI[of _ "1 / 2"]) (simp add: sample_args)
  then show ?thesis
    by (intro ShadowedIntensity_safe[OF cs]) simp
qed

lemma eclipse_geometry:
  "positionRelTo eclipse_env eclipse_star eclipse_planet = Vec3 0 0 (2 ^ 34)"
  "positionRelTo eclipse_env eclipse_twin eclipse_planet = Vec3 1 0 (1 / 2 ^ 34)"
  "Length (Vec3 0 0 (2 ^ 34)) = 2 ^ 34"
  "Normalized (Vec3 0 0 (2 ^ 34)) = Vec3 0 0 1"
  "occlusion_radius eclipse_planet = 1"
  "physRadius eclipse_star = 1"
  by (simp_all add: eclipse_env_def eclipse_star_def eclipse_planet_def eclipse_twin_def
      eclipse_position_def vsub_def Length_axis Normalized_def vscale_def occlusion_radius_def)

lemma eclipse_twin_shadow:
  "perpDist_of eclipse_env eclipse_star eclipse_planet eclipse_twin = 1 / 2 ^ 34"
  "shadow_of eclipse_env eclipse_star eclipse_planet eclipse_twin = eclipse_shadow"
proof -
  show pd: "perpDist_of eclipse_env eclipse_star eclipse_planet eclipse_twin = 1 / 2 ^ 34"
    unfolding perpDist_of_def eclipse_geometry by (simp add: Dot_def)
  show "shadow_of eclipse_env eclipse_star eclipse_planet eclipse_twin = eclipse_shadow"
    unfolding shadow_of_def pd eclipse_geometry
    by (simp add: eclipse_shadow_def eclipse_twin_def vsub_def vscale_def vdiv_def)
qed

lemma eclipse_eclipses:
  "\<not> eclipses eclipse_env eclipse_star eclipse_planet eclipse_star"
  "\<not> eclipses eclipse_env eclipse_star eclipse_planet eclipse_planet"
  "eclipses eclipse_env eclipse_star eclipse_planet eclipse_twin"
proof -
  show "\<not> eclipses eclipse_env eclipse_star eclipse_planet eclipse_star"
    by (simp add: eclipses_def)
  show "\<not> eclipses eclipse_env eclipse_star eclipse_planet eclipse_planet"
    by (simp add: eclipses_def)
  have "isPlanet eclipse_twin" "addr eclipse_twin \<noteq> addr eclipse_planet"
      "addr eclipse_twin \<noteq> addr eclipse_star"
    by (simp_all add: eclipse_twin_def eclipse_planet_def eclipse_star_def)
  then show "eclipses eclipse_env eclipse_star eclipse_planet eclipse_twin"
    unfolding eclipses_def eclipse_twin_shadow eclipse_geometry
    by (simp add: eclipse_shadow_def Length_def)
qed

lemma eclipse_CalcShadows:
  "CalcShadows eclipse_env eclipse_camera 0 eclipse_planet [] = Some [eclipse_shadow]"
proof -
  have "bodies eclipse_env = [eclipse_star, eclipse_planet, eclipse_twin]"
    by (simp add: eclipse_env_def)
  then have "map (shadow_of eclipse_env eclipse_star eclipse_planet)
     (filter (eclipses eclipse_env eclipse_star eclipse_planet) (bodies eclipse_env)) = [eclipse_shadow]"
    by (simp add: eclipse_eclipses eclipse_twin_shadow)
  then show ?thesis
    by (simp add: CalcShadows_def eclipse_camera_def CalcShadows_light_eq)
qed

lemma eclipse_args:
  "dist_arg eclipse_shadow = Fin (2 ^ 68)" "rad_arg eclipse_shadow = Fin (2 ^ 68)"
proof -
  have l: "to_float (Fin (1 / 2 ^ 68)) = Fin (1 / 2 ^ 68)"
    by (simp add: to_float_def round_to_def binary32_def binade_eq[where e = "- 68"] pow2_def
        round_even_def Let_def)
  have s: "to_float (Fin 1) = Fin 1"
    by (simp add: to_float_def round_to_def binary32_def binade_eq[where e = 0] pow2_def
        round_even_def Let_def)
  have d: "div64 (Fin 1) (Fin (1 / 2 ^ 68)) = Fin (2 ^ 68)"
    by (simp add: div64_def fdiv_def round_to_def binary64_def binade_eq[where e = 68] pow2_def
        round_even_def Let_def)
  have f: "to_float (Fin (2 ^ 68)) = Fin (2 ^ 68)" "div32 (Fin 1) (Fin (1 / 2 ^ 68)) = Fin (2 ^ 68)"
    by (simp_all add: to_float_def div32_def fdiv_def round_to_def binary32_def
        binade_eq[where e = 68] pow2_def round_even_def Let_def)
  have c: "Length (centre eclipse_shadow) = 1" "srad eclipse_shadow = 1"
      "lrad eclipse_shadow = 1 / 2 ^ 68"
    by (simp_all add: eclipse_shadow_def Length_def)
  show "dist_arg eclipse_shadow = Fin (2 ^ 68)" unfolding dist_arg_def c l d f by (rule refl)
  show "rad_arg eclipse_shadow = Fin (2 ^ 68)" unfolding rad_arg_def c l s f by (rule refl)
qed

text \<open>
  Claim C3 fails for the code, by the overflow of \<^verbatim>\<open>discCovered\<close>. In the scene with the thin
  light disc \<^verbatim>\<open>CalcShadows\<close> returns one descriptor, with \<open>|centre| = 1\<close>, \<open>srad = 1\<close> and
  \<open>lrad = 1 / 2 ^ 68\<close>; \<^verbatim>\<open>ShadowedIntensity\<close> calls \<^verbatim>\<open>discCovered\<close> with \<open>2 ^ 68\<close> twice, and
  the assertion fails. Where the assertion is not compiled the result is NaN, which is no
  number between 0 and 1.
\<close>

theorem ShadowedIntensity_overflow_nan:
  "CalcShadows eclipse_env eclipse_camera 0 eclipse_planet [] = Some [eclipse_shadow] \<and>
   dist_arg eclipse_shadow = Fin (2 ^ 68) \<and> rad_arg eclipse_shadow = Fin (2 ^ 68) \<and>
   ShadowedIntensity eclipse_env eclipse_camera False 0 eclipse_planet = Inl AssertionFailed \<and>
   ShadowedIntensity eclipse_env eclipse_camera True 0 eclipse_planet = Inr NaN"
proof -
  have b: "(2 ^ 64 :: real) \<le> 2 ^ 68" by simp
  have n: "to_float (mul64 (Fin 1) (sub64 (Fin 1) NaN)) = NaN"
    by (simp add: to_float_def mul64_def sub64_def)
  have 1: "ShadowedIntensity eclipse_env eclipse_camera False 0 eclipse_planet = Inl AssertionFailed"
    unfolding ShadowedIntensity_def eclipse_CalcShadows option.case ShadowedIntensity_loop_step
      eclipse_args discCovered_float_overflow[OF b b]
    by simp
  have 2: "ShadowedIntensity eclipse_env eclipse_camera True 0 eclipse_planet = Inr NaN"
    unfolding ShadowedIntensity_def eclipse_CalcShadows option.case ShadowedIntensity_loop_step
      eclipse_args discCovered_float_overflow[OF b b]
    by (simp add: n)
  show ?thesis using 1 2 eclipse_CalcShadows eclipse_args by simp
qed


section \<open>The principal shadows\<close>

lemma PrincipalShadows_gather_eq:
  "PrincipalShadows_gather env cam b i shadows =
     Some (shadows @ concat (map (\<lambda>j. CalcShadows_light env (m_lightSources cam ! j) b [])
                               [i..<min 4 (length (m_lightSources cam))]))"
proof (induction env cam b i shadows rule: PrincipalShadows_gather.induct)
  case (1 env cam b i shadows)
  show ?case
  proof (cases "i < 4 \<and> i < length (m_lightSources cam)")
    case True
    define next_shadows where
      "next_shadows = CalcShadows_light env (m_lightSources cam ! i) b shadows"
    have cs: "CalcShadows env cam (int i) b shadows = Some next_shadows"
      using True by (simp add: CalcShadows_def next_shadows_def)
    have ih: "PrincipalShadows_gather env cam b (i + 1) next_shadows =
        Some (next_shadows @ concat (map (\<lambda>j. CalcShadows_light env (m_lightSources cam ! j) b [])
                               [i + 1..<min 4 (length (m_lightSources cam))]))"
      using "1.IH"[OF True cs] .
    have upt: "[i..<min 4 (length (m_lightSources cam))]
        = i # [i + 1..<min 4 (length (m_lightSources cam))]"
      using True by (simp add: upt_conv_Cons)
    have "PrincipalShadows_gather env cam b i shadows
        = PrincipalShadows_gather env cam b (i + 1) next_shadows"
      by (subst PrincipalShadows_gather.simps) (simp only: True cs if_True option.case simp_thms)
    also have "\<dots> = Some (next_shadows @ concat (map (\<lambda>j. CalcShadows_light env (m_lightSources cam ! j) b [])
                               [i + 1..<min 4 (length (m_lightSources cam))]))"
      by (rule ih)
    also have "next_shadows = shadows @ CalcShadows_light env (m_lightSources cam ! i) b []"
      unfolding next_shadows_def by (rule CalcShadows_light_append)
    finally show ?thesis unfolding upt by simp
  next
    case False
    then have "min 4 (length (m_lightSources cam)) \<le> i" by (auto simp: min_def)
    then have e: "[i..<min 4 (length (m_lightSources cam))] = []" by simp
    have "PrincipalShadows_gather env cam b i shadows = Some shadows"
      by (subst PrincipalShadows_gather.simps) (simp only: False if_False simp_thms)
    then show ?thesis unfolding e by simp
  qed
qed

lemma PrincipalShadows_copy_eq:
  "PrincipalShadows_copy i n it shadowsOut = shadowsOut @ take (nat (n - i)) it"
proof (induction it arbitrary: i shadowsOut)
  case Nil
  then show ?case by simp
next
  case (Cons s it)
  show ?case
  proof (cases "i < n")
    case True
    then have "nat (n - i) = Suc (nat (n - (i + 1)))" by simp
    then show ?thesis using True Cons.IH[of "i + 1" "shadowsOut @ [s]"] by simp
  next
    case False
    then show ?thesis by simp
  qed
qed

lemma PrincipalShadows_eq:
  "PrincipalShadows env cam shadow_less std_sort b n shadowsOut =
     Some (shadowsOut @ take (nat n) (rev (std_sort shadow_less (gathered env cam b))))"
  unfolding PrincipalShadows_def PrincipalShadows_gather_eq
  by (simp add: PrincipalShadows_copy_eq gathered_def del: PrincipalShadows_gather.simps)

lemma gathered_member:
  assumes "s \<in> set (gathered env cam b)"
  shows "\<exists>i<4. \<exists>shadows. CalcShadows env cam (int i) b [] = Some shadows \<and> s \<in> set shadows"
proof -
  obtain i where i: "i < min 4 (length (m_lightSources cam))"
      "s \<in> set (CalcShadows_light env (m_lightSources cam ! i) b [])"
    using assms by (auto simp add: gathered_def)
  then have "CalcShadows env cam (int i) b []
      = Some (CalcShadows_light env (m_lightSources cam ! i) b [])"
    by (simp add: CalcShadows_def)
  then show ?thesis using i by auto
qed

text \<open>
  Claim C6. With a \<^verbatim>\<open>std::sort\<close> that returns a permutation of its input sorted by
  \<^verbatim>\<open>operator<\<close>, \<^verbatim>\<open>PrincipalShadows\<close> adds to \<^verbatim>\<open>shadowsOut\<close> the first \<open>n\<close> elements (none for
  \<open>n \<le> 0\<close>) of the reversed sorted list of the shadows of the first four lights: at most
  \<open>n\<close> descriptors, none of them less than a later one, each returned by \<^verbatim>\<open>CalcShadows\<close> for
  a light index below 4.
\<close>

theorem PrincipalShadows_top:
  assumes "\<forall>xs. mset (std_sort shadow_less xs) = mset xs"
    and "\<forall>xs. sorted_wrt (\<lambda>x y. \<not> shadow_less y x) (std_sort shadow_less xs)"
  shows "\<exists>res. PrincipalShadows env cam shadow_less std_sort b n shadowsOut = Some (shadowsOut @ res) \<and>
      res = take (nat n) (rev (std_sort shadow_less (gathered env cam b))) \<and>
      length res \<le> nat n \<and>
      sorted_wrt (\<lambda>x y. \<not> shadow_less x y) res \<and>
      (\<forall>s\<in>set res. \<exists>i<4. \<exists>shadows.
          CalcShadows env cam (int i) b [] = Some shadows \<and> s \<in> set shadows)"
proof -
  define res where "res = take (nat n) (rev (std_sort shadow_less (gathered env cam b)))"
  have "sorted_wrt (\<lambda>x y. \<not> shadow_less x y) (rev (std_sort shadow_less (gathered env cam b)))"
    using assms(2) by (simp add: sorted_wrt_rev)
  then have sorted: "sorted_wrt (\<lambda>x y. \<not> shadow_less x y) res"
    unfolding res_def by (rule sorted_wrt_take)
  have "set (std_sort shadow_less (gathered env cam b)) = set (gathered env cam b)"
    using assms(1) by (metis set_mset_mset)
  then have sub: "set res \<subseteq> set (gathered env cam b)"
    unfolding res_def using set_take_subset[of "nat n" "rev (std_sort shadow_less (gathered env cam b))"]
    by simp
  have mem: "\<forall>s\<in>set res. \<exists>i<4. \<exists>shadows.
          CalcShadows env cam (int i) b [] = Some shadows \<and> s \<in> set shadows"
    using sub gathered_member[of _ env cam b] by blast
  have len: "length res \<le> nat n" by (simp add: res_def)
  have eq: "PrincipalShadows env cam shadow_less std_sort b n shadowsOut = Some (shadowsOut @ res)"
    by (simp only: PrincipalShadows_eq res_def)
  show ?thesis
    using eq len sorted mem res_def by blast
qed

lemma ratio_less_sort:
  "\<forall>xs. mset (list_sort ratio_less xs) = mset xs"
  "\<forall>xs. sorted_wrt (\<lambda>x y. \<not> ratio_less y x) (list_sort ratio_less xs)"
proof -
  show "\<forall>xs. mset (list_sort ratio_less xs) = mset xs"
    by (simp add: list_sort_mset)
  have 1: "\<forall>x y. ratio_less x y \<longrightarrow> \<not> ratio_less y x"
    by (simp add: ratio_less_def)
  have 2: "\<forall>x y z. \<not> ratio_less y x \<longrightarrow> \<not> ratio_less z y \<longrightarrow> \<not> ratio_less z x"
    by (simp add: ratio_less_def)
  show "\<forall>xs. sorted_wrt (\<lambda>x y. \<not> ratio_less y x) (list_sort ratio_less xs)"
    using list_sort_sorted[OF 1 2] by blast
qed

lemma sample_gathered:
  "gathered sample_env sample_two_suns_camera sample_planet
     = [sample_shadow, sample_far_shadow_star, sample_far_shadow_moon]"
proof -
  have "m_lightSources sample_two_suns_camera = [sample_light, sample_far_light]"
    by (simp add: sample_two_suns_camera_def)
  moreover have "CalcShadows_light sample_env sample_light sample_planet [] = [sample_shadow]"
    by (simp add: CalcShadows_light_eq sample_light_def sample_planet_shadows)
  moreover have "CalcShadows_light sample_env sample_far_light sample_planet []
      = [sample_far_shadow_star, sample_far_shadow_moon]"
    by (simp add: CalcShadows_light_eq sample_far_light_def sample_planet_far_shadows)
  moreover have "[0..<2] = [0, Suc 0]" by (simp add: upt_conv_Cons)
  ultimately show ?thesis by (simp add: gathered_def)
qed

lemma sample_sorted:
  "list_sort ratio_less [sample_shadow, sample_far_shadow_star, sample_far_shadow_moon]
     = [sample_shadow, sample_far_shadow_moon, sample_far_shadow_star]"
  by (simp add: ratio_less_def sample_shadow_def sample_far_shadow_star_def
      sample_far_shadow_moon_def)

text \<open>
  The sample planet under both stars has three shadows, with ratios 1/2, 2 and 1; the two
  largest come back, largest first.
\<close>

theorem PrincipalShadows_top_witness:
  "PrincipalShadows sample_env sample_two_suns_camera ratio_less list_sort sample_planet 2 []
     = Some [sample_far_shadow_star, sample_far_shadow_moon] \<and>
   PrincipalShadows sample_env sample_two_suns_camera ratio_less list_sort sample_planet 0 []
     = Some [] \<and>
   PrincipalShadows sample_env sample_two_suns_camera ratio_less list_sort sample_planet 5 []
     = Some [sample_far_shadow_star, sample_far_shadow_moon, sample_shadow]"
proof -
  note t = PrincipalShadows_top[where std_sort = list_sort and shadow_less = ratio_less
      and env = sample_env and cam = sample_two_suns_camera and b = sample_planet
      and shadowsOut = "[]", OF ratio_less_sort]
  have 1: "PrincipalShadows sample_env sample_two_suns_camera ratio_less list_sort sample_planet 2 []
     = Some [sample_far_shadow_star, sample_far_shadow_moon]"
    using t[of 2] unfolding sample_gathered sample_sorted by auto
  have 2: "PrincipalShadows sample_env sample_two_suns_camera ratio_less list_sort sample_planet 0 []
     = Some []"
    using t[of 0] unfolding sample_gathered sample_sorted by auto
  have 3: "PrincipalShadows sample_env sample_two_suns_camera ratio_less list_sort sample_planet 5 []
     = Some [sample_far_shadow_star, sample_far_shadow_moon, sample_shadow]"
    using t[of 5] unfolding sample_gathered sample_sorted by auto
  show ?thesis using 1 2 3 by simp
qed

end
